theory Spec2Isabelle
  imports Complex_Main "HOL-Library.Monad_Syntax"
begin

section \<open>Strings as the validator uses them\<close>

text \<open>
  A JavaScript string is modelled as a \<^typ>\<open>string\<close> whose characters are the
  code units \<open>0..255\<close>.  The catalogue codes and the separators of a FoodEx2
  expression are ASCII, so the regular expressions, \<open>split\<close>, \<open>startsWith\<close>,
  \<open>includes\<close> and \<open>substring\<close> of the source act on such strings exactly as the
  functions below.  The values \<open>null\<close> and \<open>undefined\<close> of a string-valued field are
  \<^const>\<open>None\<close> where the source distinguishes them.
\<close>

definition upperChars :: string where
  "upperChars = ''ABCDEFGHIJKLMNOPQRSTUVWXYZ''"

definition lowerChars :: string where
  "lowerChars = ''abcdefghijklmnopqrstuvwxyz''"

definition digitChars :: string where
  "digitChars = ''0123456789''"

text \<open>The regular expression \<^verbatim>\<open>/^[A-Z0-9]{5}$/\<close> (no flags: \<open>$\<close> is the end of the input).\<close>

definition isTermCode :: "string \<Rightarrow> bool" where
  "isTermCode s = (length s = 5 \<and> list_all (\<lambda>c. c \<in> set upperChars \<or> c \<in> set digitChars) s)"

text \<open>The regular expression \<^verbatim>\<open>/^F\d{2}$/\<close>.\<close>

definition isFacetGroup :: "string \<Rightarrow> bool" where
  "isFacetGroup s = (length s = 3 \<and> s ! 0 = CHR ''F'' \<and> s ! 1 \<in> set digitChars \<and> s ! 2 \<in> set digitChars)"

text \<open>
  \<open>s.split(sep)\<close> for a separator that is one character or a class of single
  characters: the pieces between the separators, at least one piece, empty pieces kept.
\<close>

fun jsSplit :: "(char \<Rightarrow> bool) \<Rightarrow> string \<Rightarrow> string list" where
  "jsSplit sep [] = [[]]"
| "jsSplit sep (c # cs) =
     (if sep c then [] # jsSplit sep cs
      else (case jsSplit sep cs of [] \<Rightarrow> [[c]] | x # xs \<Rightarrow> (c # x) # xs))"

definition isDot :: "char \<Rightarrow> bool" where
  "isDot c = (c = CHR ''.'')"

definition isDollar :: "char \<Rightarrow> bool" where
  "isDollar c = (c = CHR ''$'')"

definition isHashOrDollar :: "char \<Rightarrow> bool" where
  "isHashOrDollar c = (c = CHR ''#'' \<or> c = CHR ''$'')"

text \<open>\<open>s.startsWith(p)\<close>.\<close>

definition startsWith :: "string \<Rightarrow> string \<Rightarrow> bool" where
  "startsWith s p = (take (length p) s = p)"

text \<open>\<open>s.includes(sub)\<close>: \<open>sub\<close> occurs in \<open>s\<close> as a contiguous substring.\<close>

fun strIncludes :: "string \<Rightarrow> string \<Rightarrow> bool" where
  "strIncludes [] sub = (sub = [])"
| "strIncludes (c # cs) sub = (take (length sub) (c # cs) = sub \<or> strIncludes cs sub)"

text \<open>\<open>s.toLowerCase()\<close> on code units below 128: only \<open>A..Z\<close> change.\<close>

definition lowerChar :: "char \<Rightarrow> char" where
  "lowerChar c = (case map_of (zip upperChars lowerChars) c of None \<Rightarrow> c | Some l \<Rightarrow> l)"

definition toLowerCase :: "string \<Rightarrow> string" where
  "toLowerCase s = map lowerChar s"

text \<open>
  The characters \<open>trim\<close> removes, among the code units \<open>0..255\<close>: tab, line feed,
  vertical tab, form feed, carriage return, space and no-break space.
\<close>

definition whiteSpaceChars :: string where
  "whiteSpaceChars = [CHR 0x09, CHR 0x0A, CHR 0x0B, CHR 0x0C, CHR 0x0D, CHR 0x20, CHR 0xA0]"

text \<open>The truth value of \<open>f.trim()\<close>: the trimmed string is not empty.\<close>

definition trimTruthy :: "string \<Rightarrow> bool" where
  "trimTruthy f = list_ex (\<lambda>c. c \<notin> set whiteSpaceChars) f"

section \<open>Parsing and serialising an expression\<close>

text \<open>\<open>FoodEx2Validator.parseFullCode\<close>: the base term is the first five characters.\<close>

definition parseFullCode :: "string \<Rightarrow> string \<times> string" where
  "parseFullCode fullCode =
     (if length fullCode < 5 then (fullCode, [])
      else (take 5 fullCode, drop 5 fullCode))"

text \<open>\<open>VBAValidator.parseFacetString\<close>: split at \<open>#\<close> or \<open>$\<close>, drop blank fragments.\<close>

definition parseFacetString :: "string \<Rightarrow> string list" where
  "parseFacetString facetString =
     (if facetString = [] then []
      else filter trimTruthy (jsSplit isHashOrDollar facetString))"

text \<open>\<open>VBAValidator.buildFacetString\<close>: \<open>#\<close> before the first facet, \<open>$\<close> before the others.\<close>

definition buildFacetString :: "string list \<Rightarrow> string" where
  "buildFacetString facets =
     (if facets = [] then []
      else concat (map (\<lambda>(index, facet). (if index = (0::nat) then ''#'' else ''$'') @ facet)
                       (enumerate 0 facets)))"

section \<open>The catalogue\<close>

text \<open>
  The two tables of the SQLite catalogue the validation engine reads.  A column that
  may be \<open>NULL\<close> is an option.  The column \<open>deprecated\<close> is read for its truth value
  only.  A query \<open>db.get\<close> returns the first matching row, \<open>db.all\<close> all of them in
  table order.
\<close>

record term_row =
  term_code :: string
  extended_name :: "string option"
  term_type :: "string option"
  detail_level :: "string option"
  deprecated :: bool
  status :: "string option"
  implicit_facets :: "string option"

record hierarchy_row =
  h_term_code :: string
  h_hierarchy_code :: string
  h_parent_code :: "string option"

record database =
  terms :: "term_row list"
  term_hierarchies :: "hierarchy_row list"

text \<open>
  The object the query of \<open>checkBaseTerm\<close> builds for the base term: \<open>code\<close>, \<open>name\<close>
  (the extended name), \<open>type\<close> and \<open>term_type\<close> (both the term type), \<open>detail_level\<close>,
  \<open>deprecated\<close>, \<open>dismissed\<close> (the status is \<open>DISMISSED\<close>) and \<open>implicit_facets\<close>.
\<close>

record base_term =
  bt_code :: string
  bt_name :: "string option"
  bt_type :: "string option"
  bt_detail_level :: "string option"
  bt_deprecated :: bool
  bt_dismissed :: bool
  bt_implicit_facets :: "string option"
  bt_term_type :: "string option"

text \<open>
  A warning.  The rendered message text (and the fields that only repeat names for
  display) is not part of the model; no function modelled here reads it.
\<close>

record warning =
  w_rule :: string
  w_severity :: string
  w_type :: string
  w_facet :: "string option"
  w_involvedTerms :: "string option"

definition findTerm :: "database \<Rightarrow> string \<Rightarrow> term_row option" where
  "findTerm db c = find (\<lambda>r. term_code r = c) (terms db)"

definition selectBaseTerm :: "database \<Rightarrow> string \<Rightarrow> base_term option" where
  "selectBaseTerm db c =
     map_option (\<lambda>r. \<lparr> bt_code = term_code r, bt_name = extended_name r, bt_type = term_type r,
                         bt_detail_level = detail_level r, bt_deprecated = deprecated r,
                         bt_dismissed = (status r = Some ''DISMISSED''),
                         bt_implicit_facets = implicit_facets r, bt_term_type = term_type r \<rparr>)
                (findTerm db c)"

text \<open>The piece before the first dot, \<open>facet.split('.')[0]\<close>.\<close>

definition firstPart :: "string \<Rightarrow> string" where
  "firstPart facet = hd (jsSplit isDot facet)"

text \<open>
  The piece after the first dot, \<open>facet.split('.')[1]\<close>.  Where the facet has no dot the
  source gets \<open>undefined\<close>; the model gives the empty string.  Every use is either on a
  facet that starts with a group and a dot, or is followed by the source's own test
  that the piece is not empty, or comes after \<open>checkCorrectFacet\<close> accepted the facet.
\<close>

definition secondPart :: "string \<Rightarrow> string" where
  "secondPart facet = (case jsSplit isDot facet of g # d # rest \<Rightarrow> d | _ \<Rightarrow> [])"

text \<open>The keys of a JavaScript object or the members of a \<open>Set\<close>, in insertion order.\<close>

definition firstOccurrences :: "'a list \<Rightarrow> 'a list" where
  "firstOccurrences xs = rev (remdups (rev xs))"

section \<open>Structural validation (\<open>VBAValidator\<close>)\<close>

definition SINGLE_CARDINALITY_GROUPS :: "string list" where
  "SINGLE_CARDINALITY_GROUPS =
     [''F01'', ''F02'', ''F03'', ''F07'', ''F11'', ''F22'', ''F24'', ''F26'', ''F30'', ''F32'', ''F34'']"

definition structWarning :: "string \<Rightarrow> string \<Rightarrow> string \<Rightarrow> warning" where
  "structWarning r sev t =
     \<lparr> w_rule = r, w_severity = sev, w_type = t, w_facet = None, w_involvedTerms = None \<rparr>"

text \<open>
  \<open>checkBaseTerm\<close>.  The source returns \<open>{valid, term}\<close> with \<open>valid\<close> false exactly
  when \<open>term\<close> is null, and pushes at most one warning; the model returns the term and
  the warnings pushed.
\<close>

definition checkBaseTerm :: "database \<Rightarrow> string \<Rightarrow> base_term option \<times> warning list" where
  "checkBaseTerm db baseTermCode =
     (if \<not> isTermCode baseTermCode
      then (None, [structWarning ''VBA-STRUCT'' ''ERROR'' ''STRUCTURE''])
      else (case selectBaseTerm db baseTermCode of
              None \<Rightarrow> (None, [structWarning ''VBA-NOTFOUND'' ''ERROR'' ''NOT_FOUND''])
            | Some t \<Rightarrow> (Some t, [])))"

text \<open>
  \<open>checkCorrectFacet\<close>: the loop over the fragments, with the flag \<open>isValid\<close> and the
  warnings pushed so far as its state.
\<close>

fun checkCorrectFacetLoop :: "string list \<Rightarrow> bool \<times> warning list \<Rightarrow> bool \<times> warning list" where
  "checkCorrectFacetLoop [] st = st"
| "checkCorrectFacetLoop (facet # facets) (isValid, warnings) =
     (let parts = jsSplit isDot facet in
      if length parts \<noteq> 2
      then checkCorrectFacetLoop facets
             (False, warnings @ [structWarning ''VBA-FORMAT'' ''ERROR'' ''STRUCTURE''])
      else
        let groupId = parts ! 0; descriptor = parts ! 1 in
        if \<not> isFacetGroup groupId
        then checkCorrectFacetLoop facets
               (False, warnings @ [structWarning ''VBA-GROUP'' ''ERROR'' ''STRUCTURE''])
        else if \<not> isTermCode descriptor
        then checkCorrectFacetLoop facets
               (False, warnings @ [structWarning ''VBA-DESCRIPTOR'' ''ERROR'' ''STRUCTURE''])
        else checkCorrectFacetLoop facets (isValid, warnings))"

definition checkCorrectFacet :: "string list \<Rightarrow> bool \<times> warning list" where
  "checkCorrectFacet facets = checkCorrectFacetLoop facets (True, [])"

text \<open>
  \<open>getImplicitFacets\<close> of the structural validator and \<open>parseImplicitFacets\<close> of the
  hierarchy helper: the same body, \<open>split('$').filter(f => f)\<close>, on a missing or empty
  string the empty list.
\<close>

definition parseImplicitFacets :: "string option \<Rightarrow> string list" where
  "parseImplicitFacets implicitFacetsString =
     (case implicitFacetsString of
        None \<Rightarrow> []
      | Some s \<Rightarrow> if s = [] then [] else filter (\<lambda>f. f \<noteq> []) (jsSplit isDollar s))"

definition getImplicitFacets :: "base_term \<Rightarrow> string list" where
  "getImplicitFacets t =
     (case bt_implicit_facets t of
        None \<Rightarrow> []
      | Some s \<Rightarrow> if s = [] then [] else filter (\<lambda>f. f \<noteq> []) (jsSplit isDollar s))"

text \<open>
  \<open>checkAndRemoveImplicitFacets\<close>: the explicit facets that are not implicit, whether
  one was removed, and the warning pushed in that case.
\<close>

definition checkAndRemoveImplicitFacets ::
  "string list \<Rightarrow> string list \<Rightarrow> (string list \<times> bool) \<times> warning list" where
  "checkAndRemoveImplicitFacets explicitFacets implicitFacets =
     (let cleanedFacets = filter (\<lambda>facet. facet \<notin> set implicitFacets) explicitFacets;
          implicitRemoved = list_ex (\<lambda>facet. facet \<in> set implicitFacets) explicitFacets
      in ((cleanedFacets, implicitRemoved),
          (if implicitRemoved then [structWarning ''VBA-IMPLICIT'' ''HIGH'' ''IMPLICIT_REMOVED'']
           else [])))"

text \<open>The table \<open>hierarchyMap\<close> of \<open>validateFacetDescriptor\<close>.\<close>

definition hierarchyMap :: "(string \<times> string) list" where
  "hierarchyMap =
     [(''F01'', ''source''), (''F02'', ''part''), (''F03'', ''state''), (''F04'', ''ingred''),
      (''F06'', ''medium''), (''F07'', ''fat''), (''F08'', ''sweet''), (''F09'', ''fort''),
      (''F10'', ''qual''), (''F11'', ''alcohol''), (''F12'', ''dough''), (''F17'', ''cookext''),
      (''F18'', ''packformat''), (''F19'', ''packmat''), (''F20'', ''partcon''), (''F21'', ''prod''),
      (''F22'', ''place''), (''F23'', ''targcon''), (''F24'', ''use''), (''F25'', ''riskingred''),
      (''F26'', ''gen''), (''F27'', ''racsource''), (''F28'', ''process''), (''F29'', ''fpurpose''),
      (''F30'', ''replev''), (''F31'', ''animage''), (''F32'', ''gender''), (''F33'', ''legis''),
      (''F34'', ''hostsampled'')]"

text \<open>
  \<open>hierarchyMap[groupId] || groupId.toLowerCase()\<close>.  The group ids reaching the lookup
  have passed \<open>checkCorrectFacet\<close>, so none of them names an inherited property of the
  object.
\<close>

definition hierarchyCodeFor :: "string \<Rightarrow> string" where
  "hierarchyCodeFor groupId =
     (case map_of hierarchyMap groupId of Some h \<Rightarrow> h | None \<Rightarrow> toLowerCase groupId)"

definition belongsToHierarchy :: "database \<Rightarrow> string \<Rightarrow> string \<Rightarrow> bool" where
  "belongsToHierarchy db termCode hierarchyCode =
     list_ex (\<lambda>r. h_term_code r = termCode \<and> h_hierarchy_code r = hierarchyCode) (term_hierarchies db)"

text \<open>\<open>validateFacetDescriptor\<close>: the descriptor exists and is in the hierarchy of its group.\<close>

definition validateFacetDescriptor :: "database \<Rightarrow> string \<Rightarrow> bool \<times> warning list" where
  "validateFacetDescriptor db facetCode =
     (let groupId = firstPart facetCode; descriptor = secondPart facetCode in
      case findTerm db descriptor of
        None \<Rightarrow> (False, [\<lparr> w_rule = ''VBA-FACET404'', w_severity = ''ERROR'', w_type = ''NOT_FOUND'',
                           w_facet = Some facetCode, w_involvedTerms = None \<rparr>])
      | Some t \<Rightarrow>
          if \<not> belongsToHierarchy db descriptor (hierarchyCodeFor groupId)
          then (False, [\<lparr> w_rule = ''VBA-CATEGORY'', w_severity = ''ERROR'', w_type = ''WRONG_CATEGORY'',
                           w_facet = Some facetCode, w_involvedTerms = None \<rparr>])
          else (True, []))"

text \<open>Step 6 of \<open>validateFoodEx2Code\<close>: the loop that keeps the facets found valid.\<close>

fun validateFacets :: "database \<Rightarrow> string list \<Rightarrow> string list \<times> warning list" where
  "validateFacets db [] = ([], [])"
| "validateFacets db (facet # cleanedFacets) =
     (let (isValid, ws) = validateFacetDescriptor db facet;
          (validatedFacets, rest) = validateFacets db cleanedFacets
      in ((if isValid then [facet] else []) @ validatedFacets, ws @ rest))"

text \<open>
  \<open>checkSingleCardinalityFacets\<close>: the groups are the keys of an object, visited in
  insertion order (the groups reaching this function are not integer-like keys).
\<close>

definition checkSingleCardinalityFacets :: "string list \<Rightarrow> warning list" where
  "checkSingleCardinalityFacets facets =
     concat (map (\<lambda>groupId.
                    if groupId \<in> set SINGLE_CARDINALITY_GROUPS
                       \<and> length (filter (\<lambda>f. firstPart f = groupId) facets) > 1
                    then [structWarning ''VBA-CARDINALITY'' ''HIGH'' ''CARDINALITY_VIOLATION'']
                    else [])
                 (firstOccurrences (map firstPart facets)))"

text \<open>\<open>checkDuplicateFacets\<close>: the loop with the sets \<open>seen\<close> and \<open>duplicates\<close>.\<close>

fun duplicateFacets :: "string list \<Rightarrow> string list \<Rightarrow> string list \<Rightarrow> string list" where
  "duplicateFacets [] seen duplicates = duplicates"
| "duplicateFacets (facet # facets) seen duplicates =
     duplicateFacets facets
       (if facet \<in> set seen then seen else seen @ [facet])
       (if facet \<in> set seen \<and> facet \<notin> set duplicates then duplicates @ [facet] else duplicates)"

definition checkDuplicateFacets :: "string list \<Rightarrow> warning list" where
  "checkDuplicateFacets facets =
     map (\<lambda>duplicate. structWarning ''VBA-DUPLICATE'' ''HIGH'' ''DUPLICATE_FACET'')
         (duplicateFacets facets [] [])"

record vba_result =
  vr_valid :: bool
  vr_warnings :: "warning list"
  vr_originalCode :: string
  vr_cleanedCode :: "string option"
  vr_cleanedFacets :: "string list option"
  vr_baseTerm :: "base_term option"

text \<open>
  \<open>validateFoodEx2Code\<close>.  The two early returns carry no \<open>cleanedFacets\<close> field
  (\<^const>\<open>None\<close>).
\<close>

definition validateFoodEx2Code :: "database \<Rightarrow> string \<Rightarrow> string \<Rightarrow> vba_result" where
  "validateFoodEx2Code db baseTermCode facetString =
     (case checkBaseTerm db baseTermCode of
        (None, ws1) \<Rightarrow>
          \<lparr> vr_valid = False, vr_warnings = ws1, vr_originalCode = baseTermCode @ facetString,
            vr_cleanedCode = None, vr_cleanedFacets = None, vr_baseTerm = None \<rparr>
      | (Some t, ws1) \<Rightarrow>
          let facets = parseFacetString facetString;
              (structureOk, ws2) = checkCorrectFacet facets
          in if \<not> structureOk
             then \<lparr> vr_valid = False, vr_warnings = ws1 @ ws2,
                    vr_originalCode = baseTermCode @ facetString,
                    vr_cleanedCode = None, vr_cleanedFacets = None, vr_baseTerm = Some t \<rparr>
             else
               let implicitFacets = getImplicitFacets t;
                   ((cleanedFacets, implicitRemoved), ws3) =
                      checkAndRemoveImplicitFacets facets implicitFacets;
                   (validatedFacets, ws4) = validateFacets db cleanedFacets;
                   ws5 = checkSingleCardinalityFacets validatedFacets;
                   ws6 = checkDuplicateFacets validatedFacets;
                   warnings = ws1 @ ws2 @ ws3 @ ws4 @ ws5 @ ws6;
                   finalCode = baseTermCode @ buildFacetString validatedFacets
               in \<lparr> vr_valid = \<not> list_ex (\<lambda>w. w_severity w = ''ERROR'') warnings,
                    vr_warnings = warnings,
                    vr_originalCode = baseTermCode @ facetString,
                    vr_cleanedCode = (if implicitRemoved then Some finalCode else None),
                    vr_cleanedFacets = Some validatedFacets,
                    vr_baseTerm = Some t \<rparr>)"

section \<open>Hierarchy queries (\<open>HierarchyHelper\<close>)\<close>

text \<open>
  \<open>getAncestors\<close> runs a recursive query: level 1 holds the parents of the term in
  the hierarchy, level \<open>n + 1\<close> the parents of the codes of level \<open>n\<close>; \<open>UNION\<close> drops
  a row already present with the same code and level, and the recursion ends when a
  level adds no row.  On a hierarchy with a cycle it never ends, so the query is a
  partial function: \<^const>\<open>None\<close> stands for a query that does not return.  A row whose
  parent is \<open>NULL\<close> adds a null entry to the JavaScript array; no caller can match it
  with a code, and the model leaves it out.  The result lists each code once, nearest
  level first.  The memo table of the helper keeps the array a first call returned;
  \<open>getForbiddenProcesses\<close> and \<open>getProcessOrdinalCode\<close> push the term itself on that
  array at every call, after the ancestors, and are its only readers for their key, so
  the table does not change what they compute and is not modelled.
\<close>

definition directParents :: "database \<Rightarrow> string \<Rightarrow> string \<Rightarrow> string list" where
  "directParents db hierarchyCode termCode =
     List.map_filter
       (\<lambda>r. if h_term_code r = termCode \<and> h_hierarchy_code r = hierarchyCode
            then h_parent_code r else None)
       (term_hierarchies db)"

definition nextLevel :: "database \<Rightarrow> string \<Rightarrow> string list \<Rightarrow> string list" where
  "nextLevel db hierarchyCode level =
     firstOccurrences (concat (map (directParents db hierarchyCode) level))"

partial_function (option) ancestorLevels :: "database \<Rightarrow> string \<Rightarrow> string list \<Rightarrow> string list option" where
  "ancestorLevels db hierarchyCode level =
     (if level = [] then Some []
      else Option.bind (ancestorLevels db hierarchyCode (nextLevel db hierarchyCode level))
             (\<lambda>rest. Some (level @ rest)))"

declare ancestorLevels.simps [code]

definition getAncestors :: "database \<Rightarrow> string \<Rightarrow> string \<Rightarrow> string list option" where
  "getAncestors db termCode hierarchyCode =
     map_option firstOccurrences
       (ancestorLevels db hierarchyCode (nextLevel db hierarchyCode [termCode]))"

definition isChildOf :: "database \<Rightarrow> string \<Rightarrow> string \<Rightarrow> string \<Rightarrow> bool option" where
  "isChildOf db childCode parentCode hierarchyCode =
     (if childCode = parentCode then Some False
      else map_option (\<lambda>ancestors. parentCode \<in> set ancestors)
             (getAncestors db childCode hierarchyCode))"

definition isChildOfAny :: "database \<Rightarrow> string \<Rightarrow> string list \<Rightarrow> string \<Rightarrow> bool option" where
  "isChildOfAny db childCode parentCodes hierarchyCode =
     map_option (\<lambda>ancestors. list_ex (\<lambda>parent. parent \<in> set ancestors) parentCodes)
       (getAncestors db childCode hierarchyCode)"

definition isParentOf :: "database \<Rightarrow> string \<Rightarrow> string \<Rightarrow> string \<Rightarrow> bool option" where
  "isParentOf db parentCode childCode hierarchyCode = isChildOf db childCode parentCode hierarchyCode"

definition getParent :: "database \<Rightarrow> string \<Rightarrow> string \<Rightarrow> string option" where
  "getParent db termCode hierarchyCode =
     (case find (\<lambda>r. h_term_code r = termCode \<and> h_hierarchy_code r = hierarchyCode)
                (term_hierarchies db) of
        None \<Rightarrow> None
      | Some r \<Rightarrow> h_parent_code r)"

text \<open>\<open>areSiblings\<close>: the truth value of \<open>parent1 && parent2 && parent1 === parent2\<close>.\<close>

definition areSiblings :: "database \<Rightarrow> string \<Rightarrow> string \<Rightarrow> string \<Rightarrow> bool" where
  "areSiblings db term1Code term2Code hierarchyCode =
     (case (getParent db term1Code hierarchyCode, getParent db term2Code hierarchyCode) of
        (Some parent1, Some parent2) \<Rightarrow> parent1 \<noteq> [] \<and> parent2 \<noteq> [] \<and> parent1 = parent2
      | _ \<Rightarrow> False)"

definition isRawCommodity :: "base_term \<Rightarrow> bool" where
  "isRawCommodity t = (bt_type t = Some ''r'')"

definition isDerivative :: "base_term \<Rightarrow> bool" where
  "isDerivative t = (bt_type t = Some ''d'')"

definition isComposite :: "base_term \<Rightarrow> bool" where
  "isComposite t = (bt_type t = Some ''c'' \<or> bt_type t = Some ''s'')"

definition isHierarchyTerm :: "base_term \<Rightarrow> bool" where
  "isHierarchyTerm t = (bt_detail_level t = Some ''H'')"

definition isFacetTerm :: "base_term \<Rightarrow> bool" where
  "isFacetTerm t = (bt_term_type t = Some ''f'')"

definition isNonSpecific :: "base_term \<Rightarrow> bool" where
  "isNonSpecific t = (bt_term_type t = Some ''n'')"

text \<open>
  \<open>term.name || term.extended_name || ''\<close> on the base-term object, which has no
  field \<open>extended_name\<close> (nor \<open>short_name\<close>): the name, or the empty string.
\<close>

definition termNameOf :: "base_term \<Rightarrow> string" where
  "termNameOf t = (case bt_name t of None \<Rightarrow> [] | Some n \<Rightarrow> n)"

definition isConcentrateOrPowder :: "base_term \<Rightarrow> bool" where
  "isConcentrateOrPowder t =
     list_ex (\<lambda>ind. strIncludes (toLowerCase (termNameOf t)) ind)
       [''concentrate'', ''powder'', ''dried'', ''dehydrated'']"

section \<open>Business rules (\<open>BusinessRulesValidator\<close>)\<close>

text \<open>
  A row of the forbidden-process table.  The ordinal code is the number
  \<open>parseFloat(record.ORDINAL_CODE) || 0\<close>; the model takes the rational number the text
  denotes (the rules compare ordinal codes for equality, test them against zero and
  take their integer part).
\<close>

record forbidden_process =
  rootGroupCode :: string
  forbiddenProcessCode :: string
  ordinalCode :: rat

text \<open>
  The fields of the rules validator: the database, the severity the message table
  gives each rule id, and the forbidden-process table.
\<close>

record rules_validator =
  rv_db :: database
  rv_warningMessages :: "string \<Rightarrow> string option"
  rv_forbiddenProcesses :: "forbidden_process list"

text \<open>The severities of \<open>DataLoader.getDefaultWarningMessages\<close>.\<close>

definition getDefaultWarningMessages :: "string \<Rightarrow> string option" where
  "getDefaultWarningMessages =
     map_of
       [(''BR01'', ''HIGH''), (''BR03'', ''HIGH''), (''BR04'', ''HIGH''), (''BR05'', ''HIGH''),
        (''BR06'', ''HIGH''), (''BR07'', ''HIGH''), (''BR08'', ''HIGH''), (''BR10'', ''LOW''),
        (''BR11'', ''LOW''), (''BR12'', ''LOW''), (''BR13'', ''HIGH''), (''BR14'', ''HIGH''),
        (''BR15'', ''LOW''), (''BR16'', ''HIGH''), (''BR17'', ''HIGH''), (''BR19'', ''HIGH''),
        (''BR20'', ''HIGH''), (''BR21'', ''HIGH''), (''BR22'', ''NONE''), (''BR23'', ''LOW''),
        (''BR24'', ''HIGH''), (''BR25'', ''HIGH''), (''BR26'', ''HIGH''), (''BR27'', ''HIGH''),
        (''BR28'', ''HIGH''), (''BR29'', ''ERROR''), (''BR30'', ''ERROR''), (''BR31'', ''ERROR'')]"

text \<open>\<open>createWarning\<close>: an unknown rule id gets the severity \<open>HIGH\<close>.\<close>

definition createWarning :: "rules_validator \<Rightarrow> string \<Rightarrow> string \<Rightarrow> warning" where
  "createWarning v messageId involved =
     \<lparr> w_rule = messageId,
       w_severity = (case rv_warningMessages v messageId of None \<Rightarrow> ''HIGH'' | Some sev \<Rightarrow> sev),
       w_type = ''BUSINESS_RULE'', w_facet = None, w_involvedTerms = Some involved \<rparr>"

text \<open>
  Loops that await a hierarchy query in their body: \<open>anyM\<close> is a search that stops at
  the first hit (a loop with \<open>break\<close>), \<open>collectM\<close> gathers what each round pushes.
\<close>

fun anyM :: "('a \<Rightarrow> bool option) \<Rightarrow> 'a list \<Rightarrow> bool option" where
  "anyM p [] = Some False"
| "anyM p (x # xs) = Option.bind (p x) (\<lambda>b. if b then Some True else anyM p xs)"

fun collectM :: "('a \<Rightarrow> 'b list option) \<Rightarrow> 'a list \<Rightarrow> 'b list option" where
  "collectM f [] = Some []"
| "collectM f (x # xs) =
     Option.bind (f x) (\<lambda>ws. Option.bind (collectM f xs) (\<lambda>rest. Some (ws @ rest)))"

text \<open>\<open>codes.join(' - ')\<close>.\<close>

fun joinDash :: "string list \<Rightarrow> string" where
  "joinDash [] = []"
| "joinDash [x] = x"
| "joinDash (x # y # ys) = x @ '' - '' @ joinDash (y # ys)"

definition facetsOfGroup :: "string \<Rightarrow> string list \<Rightarrow> string list" where
  "facetsOfGroup g facets = filter (\<lambda>f. startsWith f (g @ ''.'')) facets"

definition checkBR01 :: "rules_validator \<Rightarrow> base_term \<Rightarrow> string list \<Rightarrow> warning list option" where
  "checkBR01 v baseTerm explicitFacets =
     (if \<not> isRawCommodity baseTerm then Some []
      else
        let explicitF27 = facetsOfGroup ''F27'' explicitFacets in
        if explicitF27 = [] then Some []
        else
          let implicitF27 = map secondPart
                (facetsOfGroup ''F27'' (parseImplicitFacets (bt_implicit_facets baseTerm)))
          in collectM (\<lambda>facet.
               let facetCode = secondPart facet in
               Option.bind (isChildOfAny (rv_db v) facetCode (implicitF27 @ [bt_code baseTerm]) ''racsource'')
                 (\<lambda>isValidChild. Some (if \<not> isValidChild then [createWarning v ''BR01'' facetCode] else [])))
             explicitF27)"

definition checkBR03 :: "rules_validator \<Rightarrow> base_term \<Rightarrow> string list \<Rightarrow> warning list" where
  "checkBR03 v baseTerm explicitFacets =
     (if isComposite baseTerm \<and> list_ex (\<lambda>f. startsWith f ''F01.'') explicitFacets
      then [createWarning v ''BR03'' (bt_code baseTerm)] else [])"

definition checkBR04 :: "rules_validator \<Rightarrow> base_term \<Rightarrow> string list \<Rightarrow> warning list" where
  "checkBR04 v baseTerm explicitFacets =
     (if isComposite baseTerm \<and> list_ex (\<lambda>f. startsWith f ''F27.'') explicitFacets
      then [createWarning v ''BR04'' (bt_code baseTerm)] else [])"

definition checkBR05 :: "rules_validator \<Rightarrow> base_term \<Rightarrow> string list \<Rightarrow> warning list option" where
  "checkBR05 v baseTerm explicitFacets =
     (if \<not> isDerivative baseTerm then Some []
      else
        let implicitF27 = facetsOfGroup ''F27'' (parseImplicitFacets (bt_implicit_facets baseTerm));
            explicitF27 = facetsOfGroup ''F27'' explicitFacets
        in collectM (\<lambda>explicit.
             Option.bind
               (anyM (\<lambda>implicit. isChildOf (rv_db v) (secondPart explicit) (secondPart implicit) ''racsource'')
                     implicitF27)
               (\<lambda>isMoreSpecific.
                  Some (if \<not> isMoreSpecific \<and> length implicitF27 > 0
                        then [createWarning v ''BR05'' explicit] else [])))
           explicitF27)"

definition checkBR06 :: "rules_validator \<Rightarrow> base_term \<Rightarrow> string list \<Rightarrow> warning list" where
  "checkBR06 v baseTerm explicitFacets =
     (if \<not> isDerivative baseTerm then []
      else if \<not> list_ex (\<lambda>f. startsWith f ''F01.'') explicitFacets then []
      else
        let implicitF27 = facetsOfGroup ''F27'' (parseImplicitFacets (bt_implicit_facets baseTerm));
            explicitF27 = facetsOfGroup ''F27'' explicitFacets
        in if length implicitF27 = 0 \<and> length explicitF27 = 0
           then [createWarning v ''BR06'' (bt_code baseTerm)] else [])"

definition checkBR07 :: "rules_validator \<Rightarrow> base_term \<Rightarrow> string list \<Rightarrow> warning list" where
  "checkBR07 v baseTerm explicitFacets =
     (if \<not> isDerivative baseTerm then []
      else if \<not> list_ex (\<lambda>f. startsWith f ''F01.'') explicitFacets then []
      else
        let implicitF27 = facetsOfGroup ''F27'' (parseImplicitFacets (bt_implicit_facets baseTerm));
            explicitF27 = facetsOfGroup ''F27'' explicitFacets;
            totalF27 = length implicitF27 + length explicitF27
        in if totalF27 > 1 then [createWarning v ''BR07'' (bt_code baseTerm)] else [])"

definition checkBR08 :: "rules_validator \<Rightarrow> base_term \<Rightarrow> warning list" where
  "checkBR08 v baseTerm =
     (if bt_dismissed baseTerm then []
      else if \<not> belongsToHierarchy (rv_db v) (bt_code baseTerm) ''report''
      then [createWarning v ''BR08'' (bt_code baseTerm)] else [])"

definition checkBR10 :: "rules_validator \<Rightarrow> base_term \<Rightarrow> warning list" where
  "checkBR10 v baseTerm =
     (if isNonSpecific baseTerm then [createWarning v ''BR10'' (bt_code baseTerm)] else [])"

definition checkBR11 :: "rules_validator \<Rightarrow> base_term \<Rightarrow> string list \<Rightarrow> warning list option" where
  "checkBR11 v baseTerm explicitFacets =
     collectM (\<lambda>facet.
        let processCode = secondPart facet in
        Option.bind
          (anyM (\<lambda>generic. if processCode = generic then Some True
                           else isChildOf (rv_db v) processCode generic ''process'')
                [''A07XS''])
          (\<lambda>hit. Some (if hit then [createWarning v ''BR11'' processCode] else [])))
       (facetsOfGroup ''F28'' explicitFacets)"

definition checkBR12 :: "rules_validator \<Rightarrow> base_term \<Rightarrow> string list \<Rightarrow> warning list option" where
  "checkBR12 v baseTerm explicitFacets =
     collectM (\<lambda>facet.
        if isComposite baseTerm then Some []
        else
          let facetCode = secondPart facet;
              implicitF04 = facetsOfGroup ''F04'' (parseImplicitFacets (bt_implicit_facets baseTerm))
          in Option.bind
               (anyM (\<lambda>implicit. isChildOf (rv_db v) facetCode (secondPart implicit) ''ingred'') implicitF04)
               (\<lambda>isMoreSpecific.
                  Some (if \<not> isMoreSpecific \<and> length implicitF04 > 0
                        then [createWarning v ''BR12'' facet] else [])))
       (facetsOfGroup ''F04'' explicitFacets)"

definition checkBR13 :: "rules_validator \<Rightarrow> base_term \<Rightarrow> string list \<Rightarrow> warning list" where
  "checkBR13 v baseTerm explicitFacets =
     (if \<not> isRawCommodity baseTerm then []
      else concat (map (\<lambda>facet.
                     if secondPart facet \<in> set [''A0C0D'', ''A0C0E'', ''A0C0F'', ''A0C0G'', ''A0C0H'']
                     then [createWarning v ''BR13'' (bt_code baseTerm)] else [])
                   (facetsOfGroup ''F03'' explicitFacets)))"

text \<open>\<open>checkBR14\<close> and \<open>checkBR15\<close> have empty bodies.\<close>

definition checkBR14 :: "rules_validator \<Rightarrow> base_term \<Rightarrow> string list \<Rightarrow> string \<Rightarrow> warning list" where
  "checkBR14 v baseTerm explicitFacets context = []"

definition checkBR15 :: "rules_validator \<Rightarrow> base_term \<Rightarrow> string list \<Rightarrow> warning list" where
  "checkBR15 v baseTerm explicitFacets = []"

text \<open>
  \<open>checkBR16\<close>.  The hierarchy the two queries are given is
  \<open>facetGroup.toLowerCase()\<close>.  The inner loop stops at the first implicit descriptor
  that is not a sibling and has the explicit one among its ancestors.
\<close>

definition checkBR16 :: "rules_validator \<Rightarrow> base_term \<Rightarrow> string list \<Rightarrow> warning list option" where
  "checkBR16 v baseTerm explicitFacets =
     (let implicitFacets = parseImplicitFacets (bt_implicit_facets baseTerm) in
      collectM (\<lambda>explicit.
         let facetGroup = firstPart explicit; facetCode = secondPart explicit in
         if facetGroup = [] \<or> facetCode = [] then Some []
         else
           let matchingImplicit = map secondPart (facetsOfGroup facetGroup implicitFacets) in
           Option.bind
             (anyM (\<lambda>implicitCode.
                      let siblings = areSiblings (rv_db v) facetCode implicitCode (toLowerCase facetGroup) in
                      if siblings then Some False
                      else isParentOf (rv_db v) facetCode implicitCode (toLowerCase facetGroup))
                   matchingImplicit)
             (\<lambda>hit. Some (if hit then [createWarning v ''BR16'' facetCode] else [])))
        explicitFacets)"

definition checkBR17 :: "rules_validator \<Rightarrow> base_term \<Rightarrow> warning list" where
  "checkBR17 v baseTerm =
     (if isFacetTerm baseTerm then [createWarning v ''BR17'' (bt_code baseTerm)] else [])"

text \<open>\<open>getForbiddenProcesses\<close>: the ancestors in \<open>report\<close>, then the term itself.\<close>

definition getForbiddenProcesses :: "rules_validator \<Rightarrow> string \<Rightarrow> string list option" where
  "getForbiddenProcesses v termCode =
     Option.bind (getAncestors (rv_db v) termCode ''report'')
       (\<lambda>ancestors0.
          let ancestors = ancestors0 @ [termCode];
              forbidden = concat (map (\<lambda>ancestorCode.
                             map forbiddenProcessCode
                               (filter (\<lambda>fp. rootGroupCode fp = ancestorCode) (rv_forbiddenProcesses v)))
                           ancestors)
          in Some (firstOccurrences forbidden))"

text \<open>\<open>checkBR19\<close>: the warning also carries the facet.\<close>

definition checkBR19 :: "rules_validator \<Rightarrow> base_term \<Rightarrow> string list \<Rightarrow> warning list option" where
  "checkBR19 v baseTerm explicitFacets =
     (if \<not> isRawCommodity baseTerm then Some []
      else
        Option.bind (getForbiddenProcesses v (bt_code baseTerm))
          (\<lambda>forbiddenForTerm.
             Some (concat (map (\<lambda>facet.
                      let processCode = secondPart facet in
                      if processCode \<in> set forbiddenForTerm
                      then [(createWarning v ''BR19'' processCode) \<lparr> w_facet := Some facet \<rparr>]
                      else [])
                    (facetsOfGroup ''F28'' explicitFacets)))))"

definition checkBR20 :: "rules_validator \<Rightarrow> base_term \<Rightarrow> warning list" where
  "checkBR20 v baseTerm =
     (if bt_deprecated baseTerm then [createWarning v ''BR20'' (bt_code baseTerm)] else [])"

definition checkBR21 :: "rules_validator \<Rightarrow> base_term \<Rightarrow> warning list" where
  "checkBR21 v baseTerm =
     (if bt_dismissed baseTerm then [createWarning v ''BR21'' (bt_code baseTerm)] else [])"

text \<open>\<open>checkBR22\<close> reads the warnings the rules before it have pushed.\<close>

definition checkBR22 :: "rules_validator \<Rightarrow> base_term \<Rightarrow> warning list \<Rightarrow> warning list" where
  "checkBR22 v baseTerm warnings =
     (let hasHighWarnings = list_ex (\<lambda>w. w_severity w = ''HIGH'' \<or> w_severity w = ''ERROR'') warnings in
      if \<not> hasHighWarnings \<and> \<not> isHierarchyTerm baseTerm
      then [createWarning v ''BR22'' (bt_code baseTerm)] else [])"

definition checkBR23 :: "rules_validator \<Rightarrow> base_term \<Rightarrow> warning list" where
  "checkBR23 v baseTerm =
     (if isHierarchyTerm baseTerm \<and> belongsToHierarchy (rv_db v) (bt_code baseTerm) ''expo''
      then [createWarning v ''BR23'' (bt_code baseTerm)] else [])"

definition checkBR24 :: "rules_validator \<Rightarrow> base_term \<Rightarrow> warning list" where
  "checkBR24 v baseTerm =
     (if isHierarchyTerm baseTerm \<and> \<not> belongsToHierarchy (rv_db v) (bt_code baseTerm) ''expo''
      then [createWarning v ''BR24'' (bt_code baseTerm)] else [])"

text \<open>\<open>checkBR25\<close>: the groups are the keys of an object, as in the structural check.\<close>

definition checkBR25 :: "rules_validator \<Rightarrow> string list \<Rightarrow> warning list" where
  "checkBR25 v explicitFacets =
     concat (map (\<lambda>group.
                    if group \<in> set SINGLE_CARDINALITY_GROUPS
                       \<and> length (filter (\<lambda>f. firstPart f = group) explicitFacets) > 1
                    then [createWarning v ''BR25'' group] else [])
                 (firstOccurrences (map firstPart explicitFacets)))"

text \<open>
  \<open>getProcessOrdinalCode\<close>: the first of the ancestors in \<open>report\<close> and then the term
  itself that has a row for the process decides; without a row the ordinal code is 0.
\<close>

definition getProcessOrdinalCode :: "rules_validator \<Rightarrow> string \<Rightarrow> string \<Rightarrow> rat option" where
  "getProcessOrdinalCode v termCode processCode =
     Option.bind (getAncestors (rv_db v) termCode ''report'')
       (\<lambda>ancestors0.
          let ancestors = ancestors0 @ [termCode] in
          Some (case List.map_filter
                       (\<lambda>ancestorCode.
                          find (\<lambda>fp. rootGroupCode fp = ancestorCode \<and> forbiddenProcessCode fp = processCode)
                               (rv_forbiddenProcesses v))
                       ancestors of
                  [] \<Rightarrow> 0
                | fp # rest \<Rightarrow> ordinalCode fp))"

record process_info =
  p_code :: string
  p_ordinalCode :: rat
  p_isImplicit :: bool

text \<open>\<open>getProcessesWithOrdinalCodes\<close>: the implicit processes, then the explicit ones.\<close>

definition getProcessesWithOrdinalCodes ::
  "rules_validator \<Rightarrow> base_term \<Rightarrow> string list \<Rightarrow> process_info list option" where
  "getProcessesWithOrdinalCodes v baseTerm explicitFacets =
     (let implicitFacets = parseImplicitFacets (bt_implicit_facets baseTerm);
          processOf = (\<lambda>isImplicit facet.
             let processCode = secondPart facet in
             Option.bind (getProcessOrdinalCode v (bt_code baseTerm) processCode)
               (\<lambda>ordinal. Some [\<lparr> p_code = processCode, p_ordinalCode = ordinal,
                                   p_isImplicit = isImplicit \<rparr>]))
      in Option.bind (collectM (processOf True) (facetsOfGroup ''F28'' implicitFacets))
           (\<lambda>implicitProcesses.
              Option.bind (collectM (processOf False) (facetsOfGroup ''F28'' explicitFacets))
                (\<lambda>explicitProcesses. Some (implicitProcesses @ explicitProcesses))))"

text \<open>
  \<open>checkBR26\<close>: the processes with a non-zero ordinal code, grouped by that code; a
  group of more than one process gives a warning.  The groups are the keys of an
  object; the model visits them in insertion order (JavaScript visits integer-like
  keys first, in ascending order, which permutes the warnings of this one rule).
\<close>

definition checkBR26 :: "rules_validator \<Rightarrow> base_term \<Rightarrow> string list \<Rightarrow> warning list option" where
  "checkBR26 v baseTerm explicitFacets =
     (if \<not> isDerivative baseTerm then Some []
      else
        Option.bind (getProcessesWithOrdinalCodes v baseTerm explicitFacets)
          (\<lambda>processes.
             let grouped = filter (\<lambda>proc. p_ordinalCode proc \<noteq> 0) processes in
             Some (concat (map (\<lambda>ordinal.
                      let codes = map p_code (filter (\<lambda>proc. p_ordinalCode proc = ordinal) grouped) in
                      if length codes > 1 then [createWarning v ''BR26'' (joinDash codes)] else [])
                    (firstOccurrences (map p_ordinalCode grouped))))))"

text \<open>
  \<open>checkBR27\<close>: the processes with a fractional ordinal code, grouped by its integer
  part; the groups are visited as in \<open>checkBR26\<close>.
\<close>

definition checkBR27 :: "rules_validator \<Rightarrow> base_term \<Rightarrow> string list \<Rightarrow> warning list option" where
  "checkBR27 v baseTerm explicitFacets =
     (if \<not> isDerivative baseTerm then Some []
      else
        Option.bind (getProcessesWithOrdinalCodes v baseTerm explicitFacets)
          (\<lambda>processes.
             let decimalProcesses = filter (\<lambda>p. frac (p_ordinalCode p) \<noteq> 0) processes in
             Some (concat (map (\<lambda>intPart.
                      let procs = filter (\<lambda>p. \<lfloor>p_ordinalCode p\<rfloor> = intPart) decimalProcesses;
                          hasImplicit = list_ex (\<lambda>p. p_isImplicit p) procs;
                          hasExplicit = list_ex (\<lambda>p. \<not> p_isImplicit p) procs
                      in if (hasImplicit \<and> hasExplicit \<and> length procs > 1)
                            \<or> (\<not> hasImplicit \<and> length (filter (\<lambda>p. \<not> p_isImplicit p) procs) > 1)
                         then [createWarning v ''BR27''
                                 (joinDash (map p_code (filter (\<lambda>p. \<not> p_isImplicit p) procs)))]
                         else [])
                    (firstOccurrences (map (\<lambda>p. \<lfloor>p_ordinalCode p\<rfloor>) decimalProcesses))))))"

definition checkBR28 :: "rules_validator \<Rightarrow> base_term \<Rightarrow> string list \<Rightarrow> warning list" where
  "checkBR28 v baseTerm explicitFacets =
     (if \<not> isConcentrateOrPowder baseTerm then []
      else concat (map (\<lambda>facet.
                     let processCode = secondPart facet in
                     if processCode \<in> set [''A07MR'', ''A07MQ'']
                     then [createWarning v ''BR28'' processCode] else [])
                   (facetsOfGroup ''F28'' explicitFacets)))"

text \<open>\<open>validateBusinessRules\<close>: every rule in the order of the source, on one list.\<close>

definition validateBusinessRules ::
  "rules_validator \<Rightarrow> base_term \<Rightarrow> string list \<Rightarrow> string \<Rightarrow> warning list option" where
  "validateBusinessRules v baseTerm explicitFacets context =
     do {
       w01 \<leftarrow> checkBR01 v baseTerm explicitFacets;
       w05 \<leftarrow> checkBR05 v baseTerm explicitFacets;
       w11 \<leftarrow> checkBR11 v baseTerm explicitFacets;
       w12 \<leftarrow> checkBR12 v baseTerm explicitFacets;
       w16 \<leftarrow> checkBR16 v baseTerm explicitFacets;
       w19 \<leftarrow> checkBR19 v baseTerm explicitFacets;
       w26 \<leftarrow> checkBR26 v baseTerm explicitFacets;
       w27 \<leftarrow> checkBR27 v baseTerm explicitFacets;
       let upTo21 = w01 @ checkBR03 v baseTerm explicitFacets @ checkBR04 v baseTerm explicitFacets
             @ w05 @ checkBR06 v baseTerm explicitFacets @ checkBR07 v baseTerm explicitFacets
             @ checkBR08 v baseTerm @ checkBR10 v baseTerm @ w11 @ w12
             @ checkBR13 v baseTerm explicitFacets
             @ (if context = ''ICT'' \<or> context = ''DCF''
                then checkBR14 v baseTerm explicitFacets context else [])
             @ (if context = ''DCF'' then checkBR15 v baseTerm explicitFacets else [])
             @ w16 @ checkBR17 v baseTerm @ w19 @ checkBR20 v baseTerm @ checkBR21 v baseTerm;
       Some (upTo21 @ checkBR22 v baseTerm upTo21 @ checkBR23 v baseTerm @ checkBR24 v baseTerm
             @ checkBR25 v explicitFacets @ w26 @ w27 @ checkBR28 v baseTerm explicitFacets)
     }"

section \<open>Soft rules (\<open>SoftRulesValidator\<close>)\<close>

text \<open>Every soft warning has the severity \<open>NONE\<close> and the type \<open>INFO\<close>.\<close>

definition createSoftWarning :: "string \<Rightarrow> string \<Rightarrow> warning" where
  "createSoftWarning ruleId involved =
     \<lparr> w_rule = ruleId, w_severity = ''NONE'', w_type = ''INFO'', w_facet = None,
       w_involvedTerms = Some involved \<rparr>"

definition nameHasPattern :: "base_term \<Rightarrow> string list \<Rightarrow> bool" where
  "nameHasPattern t patterns =
     list_ex (\<lambda>pattern. strIncludes (toLowerCase (termNameOf t)) pattern) patterns"

definition isGenericTerm :: "base_term \<Rightarrow> bool" where
  "isGenericTerm t =
     nameHasPattern t [''other'', ''unspecified'', ''not otherwise'', ''n.o.s'', ''generic'',
                       ''miscellaneous'', ''various'', ''mixed'', ''assorted'']"

definition isAdditivesMatrix :: "base_term \<Rightarrow> bool" where
  "isAdditivesMatrix t =
     nameHasPattern t [''beverage'', ''sauce'', ''confection'', ''candy'', ''sweet'', ''flavour'']"

definition isVMPRDerivative :: "base_term \<Rightarrow> bool" where
  "isVMPRDerivative t =
     nameHasPattern t [''milk powder'', ''dried milk'', ''cheese'', ''yogurt'', ''butter'',
                       ''egg powder'', ''dried egg'', ''egg white'', ''egg yolk'']"

definition isHighTempProcessedFood :: "base_term \<Rightarrow> bool" where
  "isHighTempProcessedFood t =
     nameHasPattern t [''baked'', ''fried'', ''roasted'', ''toasted'', ''grilled'',
                       ''bakery'', ''bread'', ''biscuit'', ''cookie'', ''cracker'',
                       ''potato chip'', ''french fr'', ''crisp'', ''coffee'']"

definition checkSR1 :: "base_term \<Rightarrow> string list \<Rightarrow> warning list" where
  "checkSR1 baseTerm explicitFacets =
     (if isGenericTerm baseTerm \<and> \<not> list_ex (\<lambda>f. f = ''F26.A07XE'') explicitFacets
      then [createSoftWarning ''SR1'' (bt_code baseTerm)] else [])"

definition checkSR2 :: "base_term \<Rightarrow> string list \<Rightarrow> string \<Rightarrow> warning list" where
  "checkSR2 baseTerm explicitFacets textInfo =
     (let refinementFacets = filter (\<lambda>f. startsWith f ''F27.'' \<or> startsWith f ''F04.'') explicitFacets;
          needsTextInfo = (isGenericTerm baseTerm \<or> length refinementFacets > 1)
      in if needsTextInfo \<and> \<not> trimTruthy textInfo
         then [createSoftWarning ''SR2'' (bt_code baseTerm)] else [])"

definition checkSR3 :: "base_term \<Rightarrow> string list \<Rightarrow> warning list" where
  "checkSR3 baseTerm explicitFacets =
     (if (isRawCommodity baseTerm \<or> isDerivative baseTerm)
         \<and> list_ex (\<lambda>f. startsWith f ''F04.'') explicitFacets
      then [createSoftWarning ''SR3'' (bt_code baseTerm)] else [])"

definition checkSR4 :: "base_term \<Rightarrow> string list \<Rightarrow> warning list" where
  "checkSR4 baseTerm explicitFacets =
     (if \<not> isRawCommodity baseTerm then []
      else
        let hasF01 = list_ex (\<lambda>f. startsWith f ''F01.'') explicitFacets;
            multipleF01 = (length (filter (\<lambda>f. startsWith f ''F01.'') explicitFacets) > 1)
        in if hasF01 \<and> multipleF01 then [createSoftWarning ''SR4'' (bt_code baseTerm)] else [])"

text \<open>\<open>checkSR5\<close>: the loop stops at the first mechanical process.\<close>

definition checkSR5 :: "base_term \<Rightarrow> string list \<Rightarrow> warning list" where
  "checkSR5 baseTerm explicitFacets =
     (let hasF03 = list_ex (\<lambda>f. startsWith f ''F03.'') explicitFacets in
      case filter (\<lambda>facet. secondPart facet \<in> set [''A0CRK'', ''A07KY'', ''A0BYT'', ''A0C0N'', ''A0DQP'']
                            \<and> \<not> hasF03)
                  (facetsOfGroup ''F28'' explicitFacets) of
        [] \<Rightarrow> []
      | facet # rest \<Rightarrow> [createSoftWarning ''SR5'' (secondPart facet)])"

definition checkSR6 :: "base_term \<Rightarrow> string list \<Rightarrow> warning list" where
  "checkSR6 baseTerm explicitFacets =
     (if isAdditivesMatrix baseTerm then
        (let hasF33 = list_ex (\<lambda>f. startsWith f ''F33.'') explicitFacets;
             hasF03 = list_ex (\<lambda>f. startsWith f ''F03.'') explicitFacets;
             implicitFacets = parseImplicitFacets (bt_implicit_facets baseTerm);
             hasImplicitF03 = list_ex (\<lambda>f. startsWith f ''F03.'') implicitFacets
         in if \<not> hasF33 \<and> \<not> hasF03 \<and> \<not> hasImplicitF03
            then [createSoftWarning ''SR6'' (bt_code baseTerm)] else [])
      else [])"

definition checkSR7 :: "base_term \<Rightarrow> string list \<Rightarrow> warning list" where
  "checkSR7 baseTerm explicitFacets =
     (if \<not> isDerivative baseTerm then []
      else if isVMPRDerivative baseTerm then
        (let hasF01 = list_ex (\<lambda>f. startsWith f ''F01.'') explicitFacets;
             implicitFacets = parseImplicitFacets (bt_implicit_facets baseTerm);
             hasImplicitF01 = list_ex (\<lambda>f. startsWith f ''F01.'') implicitFacets
         in if \<not> hasF01 \<and> \<not> hasImplicitF01
            then [createSoftWarning ''SR7'' (bt_code baseTerm)] else [])
      else [])"

definition checkSR8 :: "base_term \<Rightarrow> string list \<Rightarrow> warning list" where
  "checkSR8 baseTerm explicitFacets =
     (if isHighTempProcessedFood baseTerm \<and> \<not> list_ex (\<lambda>f. startsWith f ''F17.'') explicitFacets
      then [createSoftWarning ''SR8'' (bt_code baseTerm)] else [])"

definition validateSoftRules :: "base_term \<Rightarrow> string list \<Rightarrow> string \<Rightarrow> string \<Rightarrow> warning list" where
  "validateSoftRules baseTerm explicitFacets context textInfo =
     checkSR1 baseTerm explicitFacets @ checkSR2 baseTerm explicitFacets textInfo
     @ checkSR3 baseTerm explicitFacets @ checkSR4 baseTerm explicitFacets
     @ checkSR5 baseTerm explicitFacets @ checkSR6 baseTerm explicitFacets
     @ checkSR7 baseTerm explicitFacets @ checkSR8 baseTerm explicitFacets"

section \<open>The aggregator (\<open>FoodEx2Validator\<close>) and the service\<close>

text \<open>
  The options of the validator.  The constructor sets \<open>context\<close> to \<open>ICT\<close> and the two
  skip flags to false unless given; an option that is not given is \<open>undefined\<close>, which
  every test of the source reads as false.  The model covers
  \<open>skipVBAValidation = false\<close>, the constructor's default.
\<close>

record validator_options =
  opt_context :: string
  opt_skipBusinessRules :: bool
  opt_skipSoftRules :: bool
  opt_stopOnStructuralError :: bool
  opt_allowHighWarnings :: bool

definition defaultOptions :: validator_options where
  "defaultOptions =
     \<lparr> opt_context = ''ICT'', opt_skipBusinessRules = False, opt_skipSoftRules = False,
       opt_stopOnStructuralError = False, opt_allowHighWarnings = False \<rparr>"

record foodex2_validator =
  fv_options :: validator_options
  fv_rules :: rules_validator

text \<open>
  The result of a validation.  The interpreted description, the semaphore colour, the
  warning counts and the three severity buckets are computed from the fields kept here
  and are left out.
\<close>

record validation_result =
  r_valid :: bool
  r_originalCode :: string
  r_cleanedCode :: "string option"
  r_baseTerm :: "base_term option"
  r_facets :: "string list"
  r_warnings :: "warning list"
  r_severity :: string

definition getOverallSeverity :: "warning list \<Rightarrow> string" where
  "getOverallSeverity warnings =
     (if list_ex (\<lambda>w. w_severity w = ''ERROR'') warnings then ''ERROR''
      else if list_ex (\<lambda>w. w_severity w = ''HIGH'') warnings then ''HIGH''
      else if list_ex (\<lambda>w. w_severity w = ''LOW'') warnings then ''LOW''
      else ''NONE'')"

text \<open>
  \<open>formatResult\<close>.  A result of the rule evaluators that is not passed (\<open>null\<close> or
  \<open>undefined\<close>) is \<^const>\<open>None\<close> and contributes no warning.
\<close>

definition formatResult ::
  "vba_result \<Rightarrow> warning list option \<Rightarrow> warning list option \<Rightarrow> validation_result" where
  "formatResult vbaResult brResult srResult =
     (let allWarnings = vr_warnings vbaResult
            @ (case brResult of Some ws \<Rightarrow> ws | None \<Rightarrow> [])
            @ (case srResult of Some ws \<Rightarrow> ws | None \<Rightarrow> []);
          overallSeverity = getOverallSeverity allWarnings;
          hasBlockingIssues =
            list_ex (\<lambda>w. w_severity w = ''ERROR'' \<or> w_severity w = ''HIGH'') allWarnings;
          isValid = (\<not> hasBlockingIssues)
      in \<lparr> r_valid = isValid,
           r_originalCode = vr_originalCode vbaResult,
           r_cleanedCode = vr_cleanedCode vbaResult,
           r_baseTerm = vr_baseTerm vbaResult,
           r_facets = (case vr_cleanedFacets vbaResult of Some fs \<Rightarrow> fs | None \<Rightarrow> []),
           r_warnings = allWarnings,
           r_severity = overallSeverity \<rparr>)"

text \<open>
  The \<open>formatResult\<close> of the earlier copy of the aggregator, which has no soft rules
  and reads the option \<open>allowHighWarnings\<close>.
\<close>

definition formatResultLegacy ::
  "validator_options \<Rightarrow> vba_result \<Rightarrow> warning list option \<Rightarrow> validation_result" where
  "formatResultLegacy options vbaResult brResult =
     (let allWarnings = vr_warnings vbaResult
            @ (case brResult of Some ws \<Rightarrow> ws | None \<Rightarrow> []);
          overallSeverity = getOverallSeverity allWarnings;
          hasErrors = list_ex (\<lambda>w. w_severity w = ''ERROR'') allWarnings;
          hasHighWarnings = list_ex (\<lambda>w. w_severity w = ''HIGH'') allWarnings;
          isValid = (\<not> hasErrors \<and> (\<not> hasHighWarnings \<or> opt_allowHighWarnings options))
      in \<lparr> r_valid = isValid,
           r_originalCode = vr_originalCode vbaResult,
           r_cleanedCode = vr_cleanedCode vbaResult,
           r_baseTerm = vr_baseTerm vbaResult,
           r_facets = (case vr_cleanedFacets vbaResult of Some fs \<Rightarrow> fs | None \<Rightarrow> []),
           r_warnings = allWarnings,
           r_severity = overallSeverity \<rparr>)"

definition runVBAValidation :: "foodex2_validator \<Rightarrow> string \<Rightarrow> string \<Rightarrow> vba_result" where
  "runVBAValidation fv baseTermCode facetString =
     validateFoodEx2Code (rv_db (fv_rules fv)) baseTermCode facetString"

definition runBusinessRulesValidation ::
  "foodex2_validator \<Rightarrow> base_term option \<Rightarrow> string list \<Rightarrow> warning list option" where
  "runBusinessRulesValidation fv baseTerm facets =
     (case baseTerm of
        None \<Rightarrow> Some []
      | Some t \<Rightarrow>
          if opt_skipBusinessRules (fv_options fv) then Some []
          else validateBusinessRules (fv_rules fv) t facets (opt_context (fv_options fv)))"

definition runSoftRulesValidation ::
  "foodex2_validator \<Rightarrow> base_term option \<Rightarrow> string list \<Rightarrow> warning list" where
  "runSoftRulesValidation fv baseTerm facets =
     (case baseTerm of
        None \<Rightarrow> []
      | Some t \<Rightarrow>
          if opt_skipSoftRules (fv_options fv) then []
          else validateSoftRules t facets (opt_context (fv_options fv)) [])"

text \<open>
  \<open>FoodEx2Validator.validateCode\<close>.  \<^const>\<open>None\<close>: a hierarchy query of the business
  rules does not return.
\<close>

definition validateCode :: "foodex2_validator \<Rightarrow> string \<Rightarrow> validation_result option" where
  "validateCode fv fullCode =
     (let (baseTermCode, facetString) = parseFullCode fullCode;
          vbaResult = runVBAValidation fv baseTermCode facetString
      in if \<not> vr_valid vbaResult \<and> opt_stopOnStructuralError (fv_options fv)
         then Some (formatResult vbaResult None None)
         else
           let facets = (case vr_cleanedFacets vbaResult of Some fs \<Rightarrow> fs | None \<Rightarrow> []) in
           Option.bind (runBusinessRulesValidation fv (vr_baseTerm vbaResult) facets)
             (\<lambda>brWarnings.
                let srWarnings = runSoftRulesValidation fv (vr_baseTerm vbaResult) facets in
                Some (formatResult vbaResult (Some brWarnings) (Some srWarnings))))"

text \<open>
  The earlier copy of \<open>validateCode\<close>: no soft rules, and its own \<open>formatResult\<close>.
\<close>

definition validateCodeLegacy :: "foodex2_validator \<Rightarrow> string \<Rightarrow> validation_result option" where
  "validateCodeLegacy fv fullCode =
     (let (baseTermCode, facetString) = parseFullCode fullCode;
          vbaResult = runVBAValidation fv baseTermCode facetString
      in if \<not> vr_valid vbaResult \<and> opt_stopOnStructuralError (fv_options fv)
         then Some (formatResultLegacy (fv_options fv) vbaResult None)
         else
           let facets = (case vr_cleanedFacets vbaResult of Some fs \<Rightarrow> fs | None \<Rightarrow> []) in
           Option.bind (runBusinessRulesValidation fv (vr_baseTerm vbaResult) facets)
             (\<lambda>brWarnings. Some (formatResultLegacy (fv_options fv) vbaResult (Some brWarnings))))"

text \<open>
  The options a caller may pass to \<open>FoodEx2Service.validateCode\<close>; \<^const>\<open>None\<close> is an
  option that is not given.
\<close>

record service_options =
  so_context :: "string option"
  so_stopOnStructuralError :: "bool option"
  so_allowHighWarnings :: "bool option"

definition noServiceOptions :: service_options where
  "noServiceOptions =
     \<lparr> so_context = None, so_stopOnStructuralError = None, so_allowHighWarnings = None \<rparr>"

text \<open>
  \<open>FoodEx2Service.validateCode\<close>.  The service holds a validator made at start-up with
  \<open>{context: 'ICT', dataPath}\<close>, that is with \<^const>\<open>defaultOptions\<close>.  It computes
  \<open>validatorOptions\<close> from the caller's options and makes a validator with them only
  when a context other than \<open>ICT\<close> is given; otherwise it uses the validator it holds.
\<close>

definition serviceValidateCode ::
  "rules_validator \<Rightarrow> service_options \<Rightarrow> string \<Rightarrow> validation_result option" where
  "serviceValidateCode rules options code =
     (let validatorOptions =
            \<lparr> opt_context = (case so_context options of
                               None \<Rightarrow> ''ICT'' | Some c \<Rightarrow> if c = [] then ''ICT'' else c),
              opt_skipBusinessRules = False, opt_skipSoftRules = False,
              opt_stopOnStructuralError = (so_stopOnStructuralError options \<noteq> Some False),
              opt_allowHighWarnings = (so_allowHighWarnings options = Some True) \<rparr>;
          validator =
            (case so_context options of
               None \<Rightarrow> \<lparr> fv_options = defaultOptions, fv_rules = rules \<rparr>
             | Some c \<Rightarrow>
                 if c \<noteq> [] \<and> c \<noteq> ''ICT''
                 then \<lparr> fv_options = validatorOptions, fv_rules = rules \<rparr>
                 else \<lparr> fv_options = defaultOptions, fv_rules = rules \<rparr>)
      in validateCode validator code)"

section \<open>Notions of the specification\<close>

text \<open>
  A facet fragment as the specification describes it: exactly one dot, a left side
  matching \<^verbatim>\<open>^F\d{2}$\<close> and a right side matching \<^verbatim>\<open>^[A-Z0-9]{5}$\<close>.
\<close>

definition specFacetShape :: "string \<Rightarrow> bool" where
  "specFacetShape f =
     (length (filter isDot f) = 1
      \<and> isFacetGroup (takeWhile (\<lambda>c. \<not> isDot c) f)
      \<and> isTermCode (drop 1 (dropWhile (\<lambda>c. \<not> isDot c) f)))"

text \<open>A well-formed expression: a base code and well-formed facets.\<close>

definition wellFormedExpression :: "string \<Rightarrow> string list \<Rightarrow> bool" where
  "wellFormedExpression base facets = (isTermCode base \<and> list_all specFacetShape facets)"

text \<open>
  Serialising as \<open>validateFoodEx2Code\<close> builds its final code, and parsing as
  \<open>validateCode\<close> and \<open>validateFoodEx2Code\<close> do: \<open>parseFullCode\<close>, then \<open>parseFacetString\<close>.
\<close>

definition serializeExpression :: "string \<Rightarrow> string list \<Rightarrow> string" where
  "serializeExpression baseTermCode facets = baseTermCode @ buildFacetString facets"

definition parseExpression :: "string \<Rightarrow> string \<times> string list" where
  "parseExpression fullCode =
     (let (baseTermCode, facetString) = parseFullCode fullCode
      in (baseTermCode, parseFacetString facetString))"

text \<open>
  The parent relation of a hierarchy: the pairs of a term and its direct parent.  The
  ancestors of a term are what the transitive closure of the relation reaches from it.
\<close>

definition parentRel :: "database \<Rightarrow> string \<Rightarrow> (string \<times> string) set" where
  "parentRel db hierarchyCode =
     {(c, p). \<exists>r \<in> set (term_hierarchies db).
                h_term_code r = c \<and> h_hierarchy_code r = hierarchyCode \<and> h_parent_code r = Some p}"

text \<open>
  A catalogue without cycles, given by a rank for the terms of each hierarchy that
  every parent link decreases.
\<close>

definition hierarchiesRanked :: "database \<Rightarrow> (string \<Rightarrow> string \<Rightarrow> nat) \<Rightarrow> bool" where
  "hierarchiesRanked db rank =
     list_all (\<lambda>r. case h_parent_code r of
                     None \<Rightarrow> True
                   | Some p \<Rightarrow> rank (h_hierarchy_code r) p < rank (h_hierarchy_code r) (h_term_code r))
              (term_hierarchies db)"

text \<open>
  \<open>forbidden_processes_for(term)\<close> in the words of the specification: the union of the
  forbidden-process entries of the term itself and of every ancestor of the term in the
  reporting hierarchy.
\<close>

definition forbidden_processes_for :: "rules_validator \<Rightarrow> string \<Rightarrow> string set" where
  "forbidden_processes_for v termCode =
     {forbiddenProcessCode fp | fp.
        fp \<in> set (rv_forbiddenProcesses v)
        \<and> (rootGroupCode fp = termCode
           \<or> (termCode, rootGroupCode fp) \<in> (parentRel (rv_db v) ''report'')\<^sup>+)}"

text \<open>
  The condition the specification gives for BR26, on the list of the implicit and
  explicit F28 processes with their ordinal codes: two of them share a non-zero
  integer ordinal code and at least one of the two is explicit.
\<close>

definition br26SpecCondition :: "process_info list \<Rightarrow> bool" where
  "br26SpecCondition processes =
     (\<exists>i < length processes. \<exists>j < length processes.
        i \<noteq> j
        \<and> p_ordinalCode (processes ! i) = p_ordinalCode (processes ! j)
        \<and> p_ordinalCode (processes ! i) \<noteq> 0
        \<and> frac (p_ordinalCode (processes ! i)) = 0
        \<and> \<not> (p_isImplicit (processes ! i) \<and> p_isImplicit (processes ! j)))"

text \<open>What \<open>checkBR26\<close> tests: two of the processes share a non-zero ordinal code.\<close>

definition sharedOrdinal :: "process_info list \<Rightarrow> bool" where
  "sharedOrdinal processes =
     (\<exists>i < length processes. \<exists>j < length processes.
        i \<noteq> j
        \<and> p_ordinalCode (processes ! i) = p_ordinalCode (processes ! j)
        \<and> p_ordinalCode (processes ! i) \<noteq> 0)"

text \<open>
  The name of the term contains the word, whatever the case of its letters.
\<close>

definition nameContains :: "base_term \<Rightarrow> string \<Rightarrow> bool" where
  "nameContains t word =
     (\<exists>pre mid post. termNameOf t = pre @ mid @ post \<and> toLowerCase mid = word)"

definition nameIndicatesDehydration :: "base_term \<Rightarrow> bool" where
  "nameIndicatesDehydration t =
     (nameContains t ''concentrate'' \<or> nameContains t ''powder''
      \<or> nameContains t ''dried'' \<or> nameContains t ''dehydrated'')"

text \<open>
  The dehydration set: the literal list of implicit process facets in the earlier
  implementation of the rule (\<open>CompleteBusinessRules.checkBR28\<close>).
\<close>

definition dehydrationFacets :: "string list" where
  "dehydrationFacets = [''F28.A07KG'', ''F28.A07KH'', ''F28.A07KJ'', ''F28.A0C0C'', ''F28.A07KK'']"

definition hasImplicitDehydration :: "base_term \<Rightarrow> bool" where
  "hasImplicitDehydration t =
     list_ex (\<lambda>f. f \<in> set dehydrationFacets) (parseImplicitFacets (bt_implicit_facets t))"

text \<open>
  The structural result of an expression and the facets handed to the rule evaluators:
  what \<open>validateCode\<close> computes first, for the catalogue of the rules.
\<close>

abbreviation structuralResultOf :: "rules_validator \<Rightarrow> string \<Rightarrow> vba_result" where
  "structuralResultOf rules code \<equiv>
     validateFoodEx2Code (rv_db rules) (fst (parseFullCode code)) (snd (parseFullCode code))"

abbreviation structuralFacetsOf :: "rules_validator \<Rightarrow> string \<Rightarrow> string list" where
  "structuralFacetsOf rules code \<equiv>
     (case vr_cleanedFacets (structuralResultOf rules code) of Some fs \<Rightarrow> fs | None \<Rightarrow> [])"

text \<open>
  The group and the descriptor of a facet reference: what stands before its first dot
  and what stands after it.
\<close>

definition facetGroupOf :: "string \<Rightarrow> string" where
  "facetGroupOf f = takeWhile (\<lambda>c. c \<noteq> CHR ''.'') f"

definition facetDescriptorOf :: "string \<Rightarrow> string" where
  "facetDescriptorOf f = drop 1 (dropWhile (\<lambda>c. c \<noteq> CHR ''.'') f)"

text \<open>
  The facet group to hierarchy mapping of the specification (section 6).  The groups
  F05 and F13 to F16 are reserved and have no hierarchy, nor has any other group id
  outside the table.
\<close>

definition assignedHierarchy :: "string \<Rightarrow> string option" where
  "assignedHierarchy =
     map_of
       [(''F01'', ''source''), (''F02'', ''part''), (''F03'', ''state''), (''F04'', ''ingred''),
        (''F06'', ''medium''), (''F07'', ''fat''), (''F08'', ''sweet''), (''F09'', ''fort''),
        (''F10'', ''qual''), (''F11'', ''alcohol''), (''F12'', ''dough''),
        (''F17'', ''cookext''), (''F18'', ''packformat''), (''F19'', ''packmat''),
        (''F20'', ''partcon''), (''F21'', ''prod''), (''F22'', ''place''), (''F23'', ''targcon''),
        (''F24'', ''use''), (''F25'', ''riskingred''), (''F26'', ''gen''), (''F27'', ''racsource''),
        (''F28'', ''process''), (''F29'', ''fpurpose''), (''F30'', ''replev''),
        (''F31'', ''animage''), (''F32'', ''gender''), (''F33'', ''legis''),
        (''F34'', ''hostsampled'')]"

text \<open>\<open>lookup_term\<close> finds a term, and \<open>is_member\<close>: the term has a row in the hierarchy.\<close>

definition lookup_term :: "database \<Rightarrow> string \<Rightarrow> bool" where
  "lookup_term db c = (\<exists>t \<in> set (terms db). term_code t = c)"

definition is_member :: "database \<Rightarrow> string \<Rightarrow> string \<Rightarrow> bool" where
  "is_member db c h = (\<exists>r \<in> set (term_hierarchies db). h_term_code r = c \<and> h_hierarchy_code r = h)"

text \<open>
  A facet resolves as the specification requires: its descriptor is a term of the
  catalogue and a member of the hierarchy assigned to its group.
\<close>

definition resolvesInAssignedHierarchy :: "database \<Rightarrow> string \<Rightarrow> bool" where
  "resolvesInAssignedHierarchy db f =
     (lookup_term db (facetDescriptorOf f)
      \<and> (case assignedHierarchy (facetGroupOf f) of
            None \<Rightarrow> False
          | Some h \<Rightarrow> is_member db (facetDescriptorOf f) h))"

text \<open>
  The same with the hierarchy a group outside the table gets from the validator: the one
  whose code is the group id in lower case, \<open>f\<close> followed by the two digits.
\<close>

definition resolvesWithFallback :: "database \<Rightarrow> string \<Rightarrow> bool" where
  "resolvesWithFallback db f =
     (lookup_term db (facetDescriptorOf f)
      \<and> (case assignedHierarchy (facetGroupOf f) of
            None \<Rightarrow> is_member db (facetDescriptorOf f) (CHR ''f'' # tl (facetGroupOf f))
          | Some h \<Rightarrow> is_member db (facetDescriptorOf f) h))"

text \<open>Facet references written one after the other with \<open>$\<close> between them.\<close>

fun joinDollar :: "string list \<Rightarrow> string" where
  "joinDollar [] = []"
| "joinDollar [x] = x"
| "joinDollar (x # y # ys) = x @ CHR ''$'' # joinDollar (y # ys)"

text \<open>The same string with every \<open>#\<close> written as \<open>$\<close>.\<close>

definition hashAsDollar :: "string \<Rightarrow> string" where
  "hashAsDollar s = map (\<lambda>c. if c = CHR ''#'' then CHR ''$'' else c) s"

section \<open>A small catalogue for concrete runs\<close>

text \<open>
  Test data in the shape of the catalogue: a raw commodity under a group of the
  reporting hierarchy, two derivatives, and process descriptors in the \<open>process\<close>
  hierarchy.  The names are chosen for the runs below.
\<close>

definition mkTerm :: "string \<Rightarrow> string \<Rightarrow> string \<Rightarrow> string \<Rightarrow> string option \<Rightarrow> term_row" where
  "mkTerm c n ty dl impl =
     \<lparr> term_code = c, extended_name = Some n, term_type = Some ty, detail_level = Some dl,
       deprecated = False, status = Some ''APPROVED'', implicit_facets = impl \<rparr>"

definition mkLink :: "string \<Rightarrow> string \<Rightarrow> string option \<Rightarrow> hierarchy_row" where
  "mkLink c h p = \<lparr> h_term_code = c, h_hierarchy_code = h, h_parent_code = p \<rparr>"

definition demoDb :: database where
  "demoDb =
     \<lparr> terms =
         [mkTerm ''A000J'' ''Grains and grain-based products'' ''c'' ''H'' None,
          mkTerm ''A000L'' ''Cereal grains'' ''r'' ''C'' None,
          mkTerm ''A01DJ'' ''Fruit preserve'' ''d'' ''C'' (Some ''F28.A07KQ$F28.A07KX''),
          mkTerm ''A01FB'' ''Raisins'' ''d'' ''C'' (Some ''F28.A07KG''),
          mkTerm ''A02PJ'' ''Milk Powder'' ''d'' ''C'' None,
          mkTerm ''A01BS'' ''Fruit compote'' ''d'' ''C'' (Some ''F28.A07KQ''),
          mkTerm ''A07XS'' ''Processed'' ''f'' ''C'' None,
          mkTerm ''A07JS'' ''Preserving'' ''f'' ''C'' None,
          mkTerm ''A07KQ'' ''Freezing'' ''f'' ''C'' None,
          mkTerm ''A07KX'' ''Canning'' ''f'' ''C'' None,
          mkTerm ''A07LG'' ''Flaking'' ''f'' ''C'' None,
          mkTerm ''A07KG'' ''Drying'' ''f'' ''C'' None,
          mkTerm ''A07MR'' ''Reconstitution'' ''f'' ''C'' None,
          mkTerm ''A0F6E'' ''Cattle'' ''f'' ''C'' None],
       term_hierarchies =
         [mkLink ''A000J'' ''report'' None,
          mkLink ''A000L'' ''report'' (Some ''A000J''),
          mkLink ''A01DJ'' ''report'' None,
          mkLink ''A01FB'' ''report'' None,
          mkLink ''A02PJ'' ''report'' None,
          mkLink ''A01BS'' ''report'' None,
          mkLink ''A07XS'' ''process'' None,
          mkLink ''A07JS'' ''process'' (Some ''A07XS''),
          mkLink ''A07KQ'' ''process'' (Some ''A07JS''),
          mkLink ''A07KX'' ''process'' (Some ''A07JS''),
          mkLink ''A07LG'' ''process'' (Some ''A07XS''),
          mkLink ''A07KG'' ''process'' (Some ''A07XS''),
          mkLink ''A07MR'' ''process'' (Some ''A07XS''),
          mkLink ''A0F6E'' ''source'' None] \<rparr>"

definition demoRank :: "string \<Rightarrow> string \<Rightarrow> nat" where
  "demoRank h c =
     (if c \<in> set [''A000L'', ''A07JS'', ''A07LG'', ''A07KG'', ''A07MR''] then 1
      else if c \<in> set [''A07KQ'', ''A07KX''] then 2
      else 0)"

definition demoForbidden :: "forbidden_process list" where
  "demoForbidden =
     [\<lparr> rootGroupCode = ''A000J'', forbiddenProcessCode = ''A07LG'', ordinalCode = 1 \<rparr>,
      \<lparr> rootGroupCode = ''A01DJ'', forbiddenProcessCode = ''A07KQ'', ordinalCode = 1 \<rparr>,
      \<lparr> rootGroupCode = ''A01DJ'', forbiddenProcessCode = ''A07KX'', ordinalCode = 1 \<rparr>,
      \<lparr> rootGroupCode = ''A01BS'', forbiddenProcessCode = ''A07JS'', ordinalCode = 3 / 2 \<rparr>,
      \<lparr> rootGroupCode = ''A01BS'', forbiddenProcessCode = ''A07KX'', ordinalCode = 3 / 2 \<rparr>]"

definition demoRules :: rules_validator where
  "demoRules =
     \<lparr> rv_db = demoDb, rv_warningMessages = getDefaultWarningMessages,
       rv_forbiddenProcesses = demoForbidden \<rparr>"

definition demoBase :: "string \<Rightarrow> base_term" where
  "demoBase c = the (selectBaseTerm demoDb c)"

text \<open>
  The same rules with the ordinal code 3/2 for the two implicit processes of \<open>A01DJ\<close>.
\<close>

definition demoFractionalRules :: rules_validator where
  "demoFractionalRules =
     demoRules \<lparr> rv_forbiddenProcesses :=
       [\<lparr> rootGroupCode = ''A01DJ'', forbiddenProcessCode = ''A07KQ'', ordinalCode = 3 / 2 \<rparr>,
        \<lparr> rootGroupCode = ''A01DJ'', forbiddenProcessCode = ''A07KX'', ordinalCode = 3 / 2 \<rparr>] \<rparr>"

text \<open>
  The same catalogue with the freezing process also listed under two hierarchies named
  like a reserved group and like a group that does not exist.
\<close>

definition demoReservedRules :: rules_validator where
  "demoReservedRules =
     demoRules \<lparr> rv_db := demoDb \<lparr> term_hierarchies :=
       term_hierarchies demoDb @ [mkLink ''A07KQ'' ''f05'' None, mkLink ''A07KQ'' ''f99'' None] \<rparr> \<rparr>"

section \<open>Splitting and joining\<close>

lemma jsSplit_not_Nil: "jsSplit sep s \<noteq> []"
  by (induction s) (auto split: list.splits)

lemma jsSplit_no_sep: "\<not> list_ex sep f \<Longrightarrow> jsSplit sep f = [f]"
  by (induction f) auto

lemma jsSplit_append_sep:
  "\<not> list_ex sep f \<Longrightarrow> sep c \<Longrightarrow> jsSplit sep (f @ c # rest) = f # jsSplit sep rest"
  by (induction f) auto

lemma jsSplit_length: "length (jsSplit sep s) = Suc (length (filter sep s))"
proof (induction s)
  case Nil
  show ?case by simp
next
  case (Cons c cs)
  then show ?case
    by (cases "jsSplit sep cs") (auto simp: jsSplit_not_Nil)
qed

text \<open>The first piece and what follows the first separator.\<close>

lemma jsSplit_hd: "hd (jsSplit sep s) = takeWhile (\<lambda>c. \<not> sep c) s"
proof (induction s)
  case Nil
  show ?case by simp
next
  case (Cons c cs)
  then show ?case
    by (cases "jsSplit sep cs") (auto simp: jsSplit_not_Nil)
qed

lemma jsSplit_tl: "tl (jsSplit sep s) = (if list_ex sep s then jsSplit sep (drop 1 (dropWhile (\<lambda>c. \<not> sep c) s)) else [])"
proof (induction s)
  case Nil
  show ?case by simp
next
  case (Cons c cs)
  then show ?case
    by (cases "jsSplit sep cs") (auto simp: jsSplit_not_Nil)
qed

lemma filter_after_first: "filter sep (drop 1 (dropWhile (\<lambda>c. \<not> sep c) s)) = tl (filter sep s)"
  by (induction s) auto

lemma filter_Nil_list_ex: "filter sep xs = [] \<Longrightarrow> \<not> list_ex sep xs"
  by (induction xs) (auto split: if_splits)

lemma length_one_list_ex: "length (filter sep s) = 1 \<Longrightarrow> list_ex sep s"
  by (induction s) (auto split: if_splits)

lemma jsSplit_two:
  assumes one: "length (filter sep s) = 1"
  shows "jsSplit sep s = [takeWhile (\<lambda>c. \<not> sep c) s, drop 1 (dropWhile (\<lambda>c. \<not> sep c) s)]"
proof -
  let ?rest = "drop 1 (dropWhile (\<lambda>c. \<not> sep c) s)"
  have ex: "list_ex sep s"
    using one by (rule length_one_list_ex)
  have "tl (filter sep s) = []"
    using one by (cases "filter sep s") auto
  then have "filter sep ?rest = []"
    by (simp only: filter_after_first)
  then have "\<not> list_ex sep ?rest"
    by (rule filter_Nil_list_ex)
  then have rest: "jsSplit sep ?rest = [?rest]"
    by (rule jsSplit_no_sep)
  have "tl (jsSplit sep s) = [?rest]"
    by (simp only: jsSplit_tl ex if_True rest)
  moreover have "hd (jsSplit sep s) = takeWhile (\<lambda>c. \<not> sep c) s"
    by (rule jsSplit_hd)
  moreover have "jsSplit sep s \<noteq> []"
    by (rule jsSplit_not_Nil)
  ultimately show ?thesis
    by (cases "jsSplit sep s") simp_all
qed

lemma jsSplit_concat: "concat (jsSplit sep s) = filter (\<lambda>c. \<not> sep c) s"
proof (induction s)
  case Nil
  show ?case by simp
next
  case (Cons c cs)
  then show ?case
    by (cases "jsSplit sep cs") (auto simp: jsSplit_not_Nil)
qed

lemma isTermCode_chars: "isTermCode d \<Longrightarrow> c \<in> set d \<Longrightarrow> c \<in> set upperChars \<or> c \<in> set digitChars"
  by (auto simp: isTermCode_def list_all_iff)

lemma isFacetGroup_chars:
  assumes "isFacetGroup g" and "c \<in> set g"
  shows "c = CHR ''F'' \<or> c \<in> set digitChars"
proof -
  from assms(1) have len: "length g = 3" and g0: "g ! 0 = CHR ''F''"
    and g1: "g ! 1 \<in> set digitChars" and g2: "g ! 2 \<in> set digitChars"
    by (simp_all add: isFacetGroup_def)
  from assms(2) obtain i where "i < length g" and "g ! i = c"
    by (auto simp: in_set_conv_nth)
  then have "i = 0 \<or> i = 1 \<or> i = 2" using len by auto
  then show ?thesis using g0 g1 g2 \<open>g ! i = c\<close> by auto
qed

lemma isFacetGroup_not_Nil: "isFacetGroup g \<Longrightarrow> g \<noteq> []"
  by (auto simp: isFacetGroup_def)

lemma code_char_plain:
  "c = CHR ''F'' \<or> c \<in> set upperChars \<or> c \<in> set digitChars \<Longrightarrow>
   \<not> isHashOrDollar c \<and> \<not> isDot c \<and> c \<notin> set whiteSpaceChars"
  by (auto simp: upperChars_def digitChars_def isHashOrDollar_def isDot_def whiteSpaceChars_def)

lemma specFacetShape_chars:
  assumes "specFacetShape f" and "c \<in> set f"
  shows "c = CHR ''.'' \<or> c = CHR ''F'' \<or> c \<in> set upperChars \<or> c \<in> set digitChars"
proof -
  let ?g = "takeWhile (\<lambda>c. \<not> isDot c) f"
  let ?d = "drop 1 (dropWhile (\<lambda>c. \<not> isDot c) f)"
  from assms(1) have one: "length (filter isDot f) = 1" and g: "isFacetGroup ?g" and d: "isTermCode ?d"
    by (simp_all add: specFacetShape_def)
  have two: "jsSplit isDot f = [?g, ?d]"
    using one by (rule jsSplit_two)
  show ?thesis
  proof (cases "isDot c")
    case True
    then show ?thesis by (simp add: isDot_def)
  next
    case False
    with assms(2) have "c \<in> set (filter (\<lambda>c. \<not> isDot c) f)" by simp
    then have "c \<in> set (concat (jsSplit isDot f))" by (simp only: jsSplit_concat)
    then have "c \<in> set ?g \<or> c \<in> set ?d" by (simp only: two) auto
    then show ?thesis
      using isFacetGroup_chars [OF g] isTermCode_chars [OF d] by blast
  qed
qed

lemma specFacetShape_no_sep: "specFacetShape f \<Longrightarrow> \<not> list_ex isHashOrDollar f"
proof
  assume shape: "specFacetShape f" and "list_ex isHashOrDollar f"
  then obtain c where c: "c \<in> set f" "isHashOrDollar c" by (auto simp: list_ex_iff)
  from specFacetShape_chars [OF shape c(1)] c(2) show False
    using code_char_plain [of c] by (auto simp: isHashOrDollar_def)
qed

lemma specFacetShape_hd:
  assumes "specFacetShape f"
  shows "f \<noteq> [] \<and> hd f = CHR ''F''"
proof -
  let ?g = "takeWhile (\<lambda>c. \<not> isDot c) f"
  from assms have g: "isFacetGroup ?g" by (simp add: specFacetShape_def)
  then have "?g \<noteq> []" and "?g ! 0 = CHR ''F''" by (auto simp: isFacetGroup_def)
  then show ?thesis by (cases f) (auto split: if_splits)
qed

lemma specFacetShape_trimTruthy: "specFacetShape f \<Longrightarrow> trimTruthy f"
proof -
  assume "specFacetShape f"
  then have "f \<noteq> []" and "hd f = CHR ''F''" using specFacetShape_hd by auto
  then have "CHR ''F'' \<in> set f" by (cases f) auto
  moreover have "CHR ''F'' \<notin> set whiteSpaceChars" by (simp add: whiteSpaceChars_def)
  ultimately show ?thesis by (auto simp: trimTruthy_def list_ex_iff)
qed

lemma enumerate_tail_seps:
  "map (\<lambda>(index, facet). (if index = (0::nat) then ''#'' else ''$'') @ facet) (enumerate (Suc n) fs)
   = map (\<lambda>facet. CHR ''$'' # facet) fs"
  by (induction fs arbitrary: n) auto

lemma buildFacetString_Cons:
  "buildFacetString (f # fs) = CHR ''#'' # f @ concat (map (\<lambda>facet. CHR ''$'' # facet) fs)"
  by (simp add: buildFacetString_def enumerate_tail_seps)

lemma jsSplit_joined:
  "\<not> list_ex isHashOrDollar f \<Longrightarrow> \<forall>g \<in> set fs. \<not> list_ex isHashOrDollar g \<Longrightarrow>
   jsSplit isHashOrDollar (f @ concat (map (\<lambda>facet. CHR ''$'' # facet) fs)) = f # fs"
proof (induction fs arbitrary: f)
  case Nil
  then show ?case by (simp add: jsSplit_no_sep)
next
  case (Cons g gs)
  have "jsSplit isHashOrDollar (f @ CHR ''$'' # (g @ concat (map (\<lambda>facet. CHR ''$'' # facet) gs)))
        = f # jsSplit isHashOrDollar (g @ concat (map (\<lambda>facet. CHR ''$'' # facet) gs))"
  proof (rule jsSplit_append_sep)
    show "\<not> list_ex isHashOrDollar f" by (rule Cons.prems(1))
    show "isHashOrDollar CHR ''$''" by (simp add: isHashOrDollar_def)
  qed
  also have "jsSplit isHashOrDollar (g @ concat (map (\<lambda>facet. CHR ''$'' # facet) gs)) = g # gs"
    using Cons.prems(2) by (intro Cons.IH) simp_all
  finally show ?case by simp
qed

lemma parse_build_facets:
  assumes "list_all specFacetShape facets"
  shows "parseFacetString (buildFacetString facets) = facets"
proof (cases facets)
  case Nil
  then show ?thesis by (simp add: parseFacetString_def buildFacetString_def)
next
  case (Cons f fs)
  from assms Cons have nosep: "\<not> list_ex isHashOrDollar f" "\<forall>g \<in> set fs. \<not> list_ex isHashOrDollar g"
    and trim: "\<forall>g \<in> set (f # fs). trimTruthy g"
    by (auto simp: list_all_iff specFacetShape_no_sep specFacetShape_trimTruthy)
  have "jsSplit isHashOrDollar (buildFacetString (f # fs)) = [] # f # fs"
    using jsSplit_joined [OF nosep] by (simp add: buildFacetString_Cons isHashOrDollar_def)
  moreover have "filter trimTruthy ([] # f # fs) = f # fs"
    using trim by (simp add: trimTruthy_def filter_id_conv)
  ultimately show ?thesis
    by (simp add: parseFacetString_def Cons buildFacetString_Cons)
qed

section \<open>Claim C10: parsing inverts serialisation\<close>

text \<open>
  Claim C10.  For every well-formed expression (a base code and a list of facets),
  writing the facets with \<open>#\<close> before the first and \<open>$\<close> before every later one and
  parsing the string again gives back the same base code and the same facet list.
\<close>

theorem C10_parse_serialize_roundtrip:
  "wellFormedExpression base facets \<Longrightarrow>
   parseExpression (serializeExpression base facets) = (base, facets)"
proof -
  assume wf: "wellFormedExpression base facets"
  then have len: "length base = 5" and shapes: "list_all specFacetShape facets"
    by (simp_all add: wellFormedExpression_def isTermCode_def)
  have "parseFullCode (base @ buildFacetString facets) = (base, buildFacetString facets)"
    using len by (simp add: parseFullCode_def)
  then show ?thesis
    using parse_build_facets [OF shapes]
    by (simp add: parseExpression_def serializeExpression_def)
qed

text \<open>The expression \<open>A0B9Z#F28.A07JS$F01.A0F6E\<close>.\<close>

theorem C10_parse_serialize_roundtrip_witness:
  "wellFormedExpression ''A0B9Z'' [''F28.A07JS'', ''F01.A0F6E'']
   \<and> serializeExpression ''A0B9Z'' [''F28.A07JS'', ''F01.A0F6E''] = ''A0B9Z#F28.A07JS$F01.A0F6E''
   \<and> parseExpression ''A0B9Z#F28.A07JS$F01.A0F6E'' = (''A0B9Z'', [''F28.A07JS'', ''F01.A0F6E''])"
proof -
  have wf: "wellFormedExpression ''A0B9Z'' [''F28.A07JS'', ''F01.A0F6E'']"
    by (simp add: wellFormedExpression_def specFacetShape_def isTermCode_def isFacetGroup_def
        isDot_def upperChars_def digitChars_def)
  have ser: "serializeExpression ''A0B9Z'' [''F28.A07JS'', ''F01.A0F6E''] = ''A0B9Z#F28.A07JS$F01.A0F6E''"
    by (simp add: serializeExpression_def buildFacetString_def enumerate_eq_zip)
  show ?thesis
    using wf ser C10_parse_serialize_roundtrip [OF wf] by simp
qed

section \<open>The structure checks\<close>

lemma facet_parts_shape:
  "(length (jsSplit isDot f) = 2 \<and> isFacetGroup (jsSplit isDot f ! 0) \<and> isTermCode (jsSplit isDot f ! 1))
   = specFacetShape f"
proof (cases "length (filter isDot f) = 1")
  case True
  then show ?thesis
    by (simp add: jsSplit_two [OF True] specFacetShape_def)
next
  case False
  then show ?thesis
    by (simp add: jsSplit_length specFacetShape_def)
qed

lemma checkCorrectFacetLoop_result:
  "\<exists>ws'. checkCorrectFacetLoop facets (isValid, ws) = (isValid \<and> list_all specFacetShape facets, ws @ ws')
     \<and> length ws' = length (filter (\<lambda>f. \<not> specFacetShape f) facets)
     \<and> (\<forall>w \<in> set ws'. w_severity w = ''ERROR''
            \<and> w_rule w \<in> {''VBA-FORMAT'', ''VBA-GROUP'', ''VBA-DESCRIPTOR''})"
proof (induction facets arbitrary: isValid ws)
  case Nil
  show ?case by simp
next
  case (Cons f fs)
  let ?parts = "jsSplit isDot f"
  show ?case
  proof (cases "specFacetShape f")
    case True
    then have ok: "length ?parts = 2" "isFacetGroup (?parts ! 0)" "isTermCode (?parts ! 1)"
      using facet_parts_shape [of f] by auto
    have "checkCorrectFacetLoop (f # fs) (isValid, ws) = checkCorrectFacetLoop fs (isValid, ws)"
      using ok by (simp add: Let_def)
    then show ?thesis
      using Cons.IH [of isValid ws] True by simp
  next
    case False
    then obtain w where step: "checkCorrectFacetLoop (f # fs) (isValid, ws) = checkCorrectFacetLoop fs (False, ws @ [w])"
      and w: "w_severity w = ''ERROR''" "w_rule w \<in> {''VBA-FORMAT'', ''VBA-GROUP'', ''VBA-DESCRIPTOR''}"
      using facet_parts_shape [of f]
      by (cases "length ?parts = 2"; cases "isFacetGroup (?parts ! 0)")
         (auto simp: Let_def structWarning_def)
    from Cons.IH [of False "ws @ [w]"] obtain ws' where
      r: "checkCorrectFacetLoop fs (False, ws @ [w]) = (False \<and> list_all specFacetShape fs, (ws @ [w]) @ ws')"
      and l: "length ws' = length (filter (\<lambda>f. \<not> specFacetShape f) fs)"
      and s: "\<forall>w \<in> set ws'. w_severity w = ''ERROR'' \<and> w_rule w \<in> {''VBA-FORMAT'', ''VBA-GROUP'', ''VBA-DESCRIPTOR''}"
      by blast
    show ?thesis
    proof (intro exI [of _ "w # ws'"] conjI)
      show "checkCorrectFacetLoop (f # fs) (isValid, ws) = (isValid \<and> list_all specFacetShape (f # fs), ws @ w # ws')"
        using step r False by simp
      show "length (w # ws') = length (filter (\<lambda>f. \<not> specFacetShape f) (f # fs))"
        using l False by simp
      show "\<forall>w \<in> set (w # ws'). w_severity w = ''ERROR'' \<and> w_rule w \<in> {''VBA-FORMAT'', ''VBA-GROUP'', ''VBA-DESCRIPTOR''}"
        using s w by simp
    qed
  qed
qed

lemma checkCorrectFacet_result:
  "fst (checkCorrectFacet facets) = list_all specFacetShape facets
   \<and> length (snd (checkCorrectFacet facets)) = length (filter (\<lambda>f. \<not> specFacetShape f) facets)
   \<and> (\<forall>w \<in> set (snd (checkCorrectFacet facets)). w_severity w = ''ERROR''
          \<and> w_rule w \<in> {''VBA-FORMAT'', ''VBA-GROUP'', ''VBA-DESCRIPTOR''})"
  using checkCorrectFacetLoop_result [of facets True "[]"]
  by (auto simp: checkCorrectFacet_def)

lemma short_not_isTermCode: "length input < 5 \<Longrightarrow> \<not> isTermCode (take 5 input)"
  by (simp add: isTermCode_def)

lemma parseFullCode_fst: "isTermCode (fst (parseFullCode input)) = isTermCode (take 5 input)"
  by (simp add: parseFullCode_def)

lemma validateFacets_rules:
  "w \<in> set (snd (validateFacets db fs)) \<Longrightarrow> w_rule w \<in> {''VBA-FACET404'', ''VBA-CATEGORY''}"
proof (induction fs arbitrary: w)
  case Nil
  then show ?case by simp
next
  case (Cons f fs)
  then show ?case
    by (auto simp: validateFacetDescriptor_def Let_def split: prod.splits option.splits if_splits)
qed

lemma structure_warning_in_result:
  "(\<exists>w \<in> set (vr_warnings (validateFoodEx2Code db b fs)). w_rule w = ''VBA-STRUCT'') = (\<not> isTermCode b)"
proof (cases "isTermCode b")
  case False
  then show ?thesis
    by (simp add: validateFoodEx2Code_def checkBaseTerm_def structWarning_def)
next
  case True
  have cf: "\<forall>w \<in> set (snd (checkCorrectFacet (parseFacetString fs))). w_rule w \<noteq> ''VBA-STRUCT''"
    using checkCorrectFacet_result [of "parseFacetString fs"] by auto
  have vf: "w_rule w \<noteq> ''VBA-STRUCT''" if "validateFacets db xs = (ys, zs)" and "w \<in> set zs" for xs ys zs w
  proof -
    from that have "w \<in> set (snd (validateFacets db xs))" by simp
    then have "w_rule w \<in> {''VBA-FACET404'', ''VBA-CATEGORY''}" by (rule validateFacets_rules)
    then show ?thesis by auto
  qed
  show ?thesis
  proof (cases "selectBaseTerm db b")
    case None
    with True show ?thesis
      by (simp add: validateFoodEx2Code_def checkBaseTerm_def structWarning_def)
  next
    case (Some t)
    with True cf show ?thesis
      by (auto simp: validateFoodEx2Code_def checkBaseTerm_def structWarning_def Let_def
          checkAndRemoveImplicitFacets_def checkSingleCardinalityFacets_def checkDuplicateFacets_def
          split: prod.splits if_splits dest: vf)
  qed
qed

lemma structure_warning_severity:
  "w \<in> set (vr_warnings (validateFoodEx2Code db b fs)) \<Longrightarrow> w_rule w = ''VBA-STRUCT'' \<Longrightarrow> w_severity w = ''ERROR''"
proof (cases "isTermCode b")
  case False
  assume "w \<in> set (vr_warnings (validateFoodEx2Code db b fs))"
  with False show ?thesis
    by (simp add: validateFoodEx2Code_def checkBaseTerm_def structWarning_def)
next
  case True
  assume "w \<in> set (vr_warnings (validateFoodEx2Code db b fs))" and "w_rule w = ''VBA-STRUCT''"
  with structure_warning_in_result [of db b fs] True show ?thesis by blast
qed

section \<open>Claim C8: what the structure checks reject\<close>

text \<open>
  Claim C8.  The base-format error (\<open>VBA-STRUCT\<close>, severity \<open>ERROR\<close>) is among the
  warnings of an input exactly when its base prefix, the first five characters, fails
  \<^verbatim>\<open>^[A-Z0-9]{5}$\<close>, which includes every input shorter than five characters; and
  \<open>checkCorrectFacet\<close> accepts a list of fragments exactly when each has exactly one dot,
  a left side matching \<^verbatim>\<open>^F\d{2}$\<close> and a right side matching \<^verbatim>\<open>^[A-Z0-9]{5}$\<close>,
  pushing one warning of severity \<open>ERROR\<close> for each fragment that has not.
\<close>

theorem C8_structure_checks:
  "((\<exists>w \<in> set (vr_warnings (validateFoodEx2Code db (fst (parseFullCode input)) (snd (parseFullCode input)))).
        w_rule w = ''VBA-STRUCT'' \<and> w_severity w = ''ERROR'')
      = (\<not> isTermCode (take 5 input)))
   \<and> (length input < 5 \<longrightarrow> \<not> isTermCode (take 5 input))
   \<and> fst (checkCorrectFacet facets) = list_all specFacetShape facets
   \<and> length (snd (checkCorrectFacet facets)) = length (filter (\<lambda>f. \<not> specFacetShape f) facets)
   \<and> (\<forall>w \<in> set (snd (checkCorrectFacet facets)). w_severity w = ''ERROR'')"
proof (intro conjI)
  let ?r = "validateFoodEx2Code db (fst (parseFullCode input)) (snd (parseFullCode input))"
  have "(\<exists>w \<in> set (vr_warnings ?r). w_rule w = ''VBA-STRUCT'' \<and> w_severity w = ''ERROR'')
        = (\<exists>w \<in> set (vr_warnings ?r). w_rule w = ''VBA-STRUCT'')"
    using structure_warning_severity by blast
  also have "\<dots> = (\<not> isTermCode (fst (parseFullCode input)))"
    by (rule structure_warning_in_result)
  also have "\<dots> = (\<not> isTermCode (take 5 input))"
    by (simp only: parseFullCode_fst)
  finally show "(\<exists>w \<in> set (vr_warnings ?r). w_rule w = ''VBA-STRUCT'' \<and> w_severity w = ''ERROR'')
        = (\<not> isTermCode (take 5 input))" .
  show "length input < 5 \<longrightarrow> \<not> isTermCode (take 5 input)"
    using short_not_isTermCode [of input] by blast
  show "fst (checkCorrectFacet facets) = list_all specFacetShape facets"
    using checkCorrectFacet_result [of facets] by simp
  show "length (snd (checkCorrectFacet facets)) = length (filter (\<lambda>f. \<not> specFacetShape f) facets)"
    using checkCorrectFacet_result [of facets] by simp
  show "\<forall>w \<in> set (snd (checkCorrectFacet facets)). w_severity w = ''ERROR''"
    using checkCorrectFacet_result [of facets] by simp
qed

text \<open>A run on a four-character input and on five fragments, four of them malformed.\<close>

theorem C8_structure_checks_witness:
  "vr_warnings (validateFoodEx2Code demoDb (fst (parseFullCode ''A0B9'')) (snd (parseFullCode ''A0B9'')))
     = [structWarning ''VBA-STRUCT'' ''ERROR'' ''STRUCTURE'']
   \<and> length ''A0B9'' < 5 \<and> \<not> isTermCode (take 5 ''A0B9'')
   \<and> checkCorrectFacet [''F28.A07JS'', ''F28A07JS'', ''G28.A07JS'', ''F28.a07js'', ''F2.8.A''] =
       (False, [structWarning ''VBA-FORMAT'' ''ERROR'' ''STRUCTURE'',
                structWarning ''VBA-GROUP'' ''ERROR'' ''STRUCTURE'',
                structWarning ''VBA-DESCRIPTOR'' ''ERROR'' ''STRUCTURE'',
                structWarning ''VBA-FORMAT'' ''ERROR'' ''STRUCTURE''])
   \<and> filter (\<lambda>f. \<not> specFacetShape f) [''F28.A07JS'', ''F28A07JS'', ''G28.A07JS'', ''F28.a07js'', ''F2.8.A'']
       = [''F28A07JS'', ''G28.A07JS'', ''F28.a07js'', ''F2.8.A'']"
proof -
  have run: "vr_warnings (validateFoodEx2Code demoDb (fst (parseFullCode ''A0B9'')) (snd (parseFullCode ''A0B9'')))
     = [structWarning ''VBA-STRUCT'' ''ERROR'' ''STRUCTURE'']"
    by (simp add: validateFoodEx2Code_def checkBaseTerm_def parseFullCode_def isTermCode_def)
  have facets: "checkCorrectFacet [''F28.A07JS'', ''F28A07JS'', ''G28.A07JS'', ''F28.a07js'', ''F2.8.A''] =
       (False, [structWarning ''VBA-FORMAT'' ''ERROR'' ''STRUCTURE'',
                structWarning ''VBA-GROUP'' ''ERROR'' ''STRUCTURE'',
                structWarning ''VBA-DESCRIPTOR'' ''ERROR'' ''STRUCTURE'',
                structWarning ''VBA-FORMAT'' ''ERROR'' ''STRUCTURE''])"
    by (simp add: checkCorrectFacet_def isDot_def isFacetGroup_def isTermCode_def
        upperChars_def digitChars_def)
  have shapes: "filter (\<lambda>f. \<not> specFacetShape f) [''F28.A07JS'', ''F28A07JS'', ''G28.A07JS'', ''F28.a07js'', ''F2.8.A'']
       = [''F28A07JS'', ''G28.A07JS'', ''F28.a07js'', ''F2.8.A'']"
    by (simp add: specFacetShape_def isDot_def isFacetGroup_def isTermCode_def
        upperChars_def digitChars_def)
  show ?thesis
    using C8_structure_checks [of demoDb "''A0B9''"
        "[''F28.A07JS'', ''F28A07JS'', ''G28.A07JS'', ''F28.a07js'', ''F2.8.A'']"]
      run facets shapes
    by simp
qed

section \<open>Ancestors\<close>

lemma set_firstOccurrences [simp]: "set (firstOccurrences xs) = set xs"
  by (simp add: firstOccurrences_def)

lemma distinct_firstOccurrences [simp]: "distinct (firstOccurrences xs)"
  by (simp add: firstOccurrences_def)

lemma set_directParents: "set (directParents db h c) = parentRel db h `` {c}"
  by (auto simp: directParents_def parentRel_def List.map_filter_def split: if_splits) force

lemma set_nextLevel: "set (nextLevel db h level) = parentRel db h `` set level"
  by (auto simp: nextLevel_def set_directParents)

lemma rtrancl_image_unfold: "r\<^sup>* `` A = A \<union> r\<^sup>* `` (r `` A)"
proof
  show "r\<^sup>* `` A \<subseteq> A \<union> r\<^sup>* `` (r `` A)"
  proof
    fix y assume "y \<in> r\<^sup>* `` A"
    then obtain x where xA: "x \<in> A" and xy: "(x, y) \<in> r\<^sup>*" by auto
    from xy show "y \<in> A \<union> r\<^sup>* `` (r `` A)"
    proof (cases rule: converse_rtranclE)
      case base
      with xA show ?thesis by simp
    next
      case (step z)
      with xA show ?thesis by auto
    qed
  qed
  show "A \<union> r\<^sup>* `` (r `` A) \<subseteq> r\<^sup>* `` A"
    by (auto intro: converse_rtrancl_into_rtrancl)
qed

lemma ancestorLevels_set:
  assumes "ancestorLevels db h level = Some xs"
  shows "set xs = (parentRel db h)\<^sup>* `` set level"
proof (rule ancestorLevels.raw_induct
    [where P = "\<lambda>db h level xs. set xs = (parentRel db h)\<^sup>* `` set level", OF _ assms])
  fix f :: "database \<Rightarrow> string \<Rightarrow> string list \<Rightarrow> string list option"
  fix db h level xs
  assume IH: "\<And>db h level y. f db h level = Some y \<Longrightarrow> set y = (parentRel db h)\<^sup>* `` set level"
  assume body: "(if level = [] then Some []
                 else f db h (nextLevel db h level) \<bind> (\<lambda>rest. Some (level @ rest))) = Some xs"
  show "set xs = (parentRel db h)\<^sup>* `` set level"
  proof (cases "level = []")
    case True
    with body show ?thesis by simp
  next
    case False
    with body obtain rest where rest: "f db h (nextLevel db h level) = Some rest"
      and xs: "xs = level @ rest"
      by (auto simp: bind_eq_Some_conv)
    from IH [OF rest] have "set rest = (parentRel db h)\<^sup>* `` (parentRel db h `` set level)"
      by (simp add: set_nextLevel)
    then show ?thesis
      using xs rtrancl_image_unfold [of "parentRel db h" "set level"] by simp
  qed
qed

lemma getAncestors_set:
  assumes "getAncestors db termCode h = Some xs"
  shows "set xs = {a. (termCode, a) \<in> (parentRel db h)\<^sup>+}"
proof -
  from assms obtain ys where ys: "ancestorLevels db h (nextLevel db h [termCode]) = Some ys"
    and xs: "xs = firstOccurrences ys"
    by (auto simp: getAncestors_def)
  have "set ys = (parentRel db h)\<^sup>* `` (parentRel db h `` {termCode})"
    using ancestorLevels_set [OF ys] by (simp add: set_nextLevel)
  also have "\<dots> = {a. (termCode, a) \<in> (parentRel db h)\<^sup>+}"
    by (auto simp: trancl_unfold_left relcomp_unfold)
  finally show ?thesis using xs by simp
qed

lemma ranked_parent:
  "hierarchiesRanked db rank \<Longrightarrow> (c, p) \<in> parentRel db h \<Longrightarrow> rank h p < rank h c"
  by (auto simp: hierarchiesRanked_def parentRel_def list_all_iff split: option.splits)

lemma ancestorLevels_total:
  assumes ranked: "hierarchiesRanked db rank"
  shows "\<forall>c \<in> set level. rank h c < n \<Longrightarrow> \<exists>xs. ancestorLevels db h level = Some xs"
proof (induction n arbitrary: level)
  case 0
  then have "level = []" by (cases level) auto
  then show ?case by (simp add: ancestorLevels.simps)
next
  case (Suc n)
  show ?case
  proof (cases "level = []")
    case True
    then show ?thesis by (simp add: ancestorLevels.simps)
  next
    case False
    have "\<forall>p \<in> set (nextLevel db h level). rank h p < n"
    proof
      fix p assume "p \<in> set (nextLevel db h level)"
      then obtain c where c: "c \<in> set level" and cp: "(c, p) \<in> parentRel db h"
        by (auto simp: set_nextLevel)
      from ranked_parent [OF ranked cp] Suc.prems c show "rank h p < n" by fastforce
    qed
    from Suc.IH [OF this] obtain rest where "ancestorLevels db h (nextLevel db h level) = Some rest"
      by blast
    then show ?thesis
      using False by (subst ancestorLevels.simps) simp
  qed
qed

lemma getAncestors_total:
  assumes "hierarchiesRanked db rank"
  shows "\<exists>xs. getAncestors db termCode h = Some xs"
proof -
  have "\<forall>c \<in> set (nextLevel db h [termCode]). rank h c < rank h termCode"
    using ranked_parent [OF assms] by (auto simp: set_nextLevel)
  from ancestorLevels_total [OF assms this] show ?thesis
    by (auto simp: getAncestors_def)
qed

section \<open>Claim C7: forbidden processes on raw commodities\<close>

lemma getForbiddenProcesses_set:
  assumes "getForbiddenProcesses v termCode = Some fs"
  shows "set fs = forbidden_processes_for v termCode"
proof -
  from assms obtain anc where anc: "getAncestors (rv_db v) termCode ''report'' = Some anc"
    and fs: "fs = firstOccurrences (concat (map (\<lambda>ancestorCode.
                     map forbiddenProcessCode
                       (filter (\<lambda>fp. rootGroupCode fp = ancestorCode) (rv_forbiddenProcesses v)))
                   (anc @ [termCode])))"
    by (auto simp: getForbiddenProcesses_def bind_eq_Some_conv Let_def)
  have ancs: "set anc = {a. (termCode, a) \<in> (parentRel (rv_db v) ''report'')\<^sup>+}"
    by (rule getAncestors_set [OF anc])
  show ?thesis
    unfolding fs forbidden_processes_for_def
    using ancs by auto
qed

lemma getForbiddenProcesses_total:
  assumes "hierarchiesRanked (rv_db v) rank"
  shows "\<exists>fs. getForbiddenProcesses v termCode = Some fs"
  using getAncestors_total [OF assms, of termCode "''report''"]
  by (auto simp: getForbiddenProcesses_def Let_def)

lemma checkBR19_warnings:
  assumes raw: "isRawCommodity baseTerm"
    and fs: "getForbiddenProcesses v (bt_code baseTerm) = Some fs"
  shows "checkBR19 v baseTerm explicitFacets =
           Some (concat (map (\<lambda>facet.
                      if secondPart facet \<in> set fs
                      then [(createWarning v ''BR19'' (secondPart facet)) \<lparr> w_facet := Some facet \<rparr>]
                      else [])
                    (facetsOfGroup ''F28'' explicitFacets)))"
  using raw fs by (simp add: checkBR19_def Let_def)

text \<open>
  Claim C7.  For every raw-commodity base term and every explicit F28 facet, \<open>checkBR19\<close>
  returns, on a catalogue without cycles, and a BR19 warning for the facet is among its
  warnings exactly when the process descriptor is in \<open>forbidden_processes_for(base)\<close>,
  the union of the forbidden-process entries of the base term itself and of every
  ancestor of the base term in the reporting hierarchy.  The severity is the one the
  message table gives BR19 (\<open>HIGH\<close> without an entry), and \<open>HIGH\<close> in the built-in table.
\<close>

theorem C7_BR19_forbidden_processes:
  assumes raw: "isRawCommodity baseTerm"
    and ranked: "hierarchiesRanked (rv_db v) rank"
  shows "\<exists>ws. checkBR19 v baseTerm explicitFacets = Some ws
     \<and> (\<forall>facet \<in> set (facetsOfGroup ''F28'' explicitFacets).
          (\<exists>w \<in> set ws. w_rule w = ''BR19'' \<and> w_facet w = Some facet)
          = (secondPart facet \<in> forbidden_processes_for v (bt_code baseTerm)))
     \<and> (\<forall>w \<in> set ws. w_rule w = ''BR19''
            \<and> w_severity w = (case rv_warningMessages v ''BR19'' of None \<Rightarrow> ''HIGH'' | Some sev \<Rightarrow> sev))
     \<and> getDefaultWarningMessages ''BR19'' = Some ''HIGH''"
proof -
  from getForbiddenProcesses_total [OF ranked] obtain fs
    where fs: "getForbiddenProcesses v (bt_code baseTerm) = Some fs" by blast
  have set_fs: "set fs = forbidden_processes_for v (bt_code baseTerm)"
    by (rule getForbiddenProcesses_set [OF fs])
  let ?ws = "concat (map (\<lambda>facet.
                      if secondPart facet \<in> set fs
                      then [(createWarning v ''BR19'' (secondPart facet)) \<lparr> w_facet := Some facet \<rparr>]
                      else [])
                    (facetsOfGroup ''F28'' explicitFacets))"
  have run: "checkBR19 v baseTerm explicitFacets = Some ?ws"
    by (rule checkBR19_warnings [OF raw fs])
  have iff: "\<forall>facet \<in> set (facetsOfGroup ''F28'' explicitFacets).
          (\<exists>w \<in> set ?ws. w_rule w = ''BR19'' \<and> w_facet w = Some facet)
          = (secondPart facet \<in> forbidden_processes_for v (bt_code baseTerm))"
    unfolding set_fs [symmetric] by (auto simp: createWarning_def split: if_splits)
  have sev: "\<forall>w \<in> set ?ws. w_rule w = ''BR19''
            \<and> w_severity w = (case rv_warningMessages v ''BR19'' of None \<Rightarrow> ''HIGH'' | Some sev \<Rightarrow> sev)"
    by (auto simp: createWarning_def split: if_splits)
  have dflt: "getDefaultWarningMessages ''BR19'' = Some ''HIGH''"
    by (simp add: getDefaultWarningMessages_def)
  show ?thesis using run iff sev dflt by blast
qed

lemma demo_ranked: "hierarchiesRanked demoDb demoRank"
  by (simp add: hierarchiesRanked_def demoDb_def demoRank_def mkLink_def)

text \<open>Cereal grains with flaking, which is forbidden for the group above it, and freezing.\<close>

theorem C7_BR19_forbidden_processes_witness:
  "isRawCommodity (demoBase ''A000L'') \<and> hierarchiesRanked (rv_db demoRules) demoRank
   \<and> checkBR19 demoRules (demoBase ''A000L'') [''F28.A07LG'', ''F28.A07KQ'', ''F01.A0F6E'']
       = Some [(createWarning demoRules ''BR19'' ''A07LG'') \<lparr> w_facet := Some ''F28.A07LG'' \<rparr>]
   \<and> ''A07LG'' \<in> forbidden_processes_for demoRules ''A000L''
   \<and> ''A07KQ'' \<notin> forbidden_processes_for demoRules ''A000L''"
proof -
  have raw: "isRawCommodity (demoBase ''A000L'')"
    by code_simp
  have ranked: "hierarchiesRanked (rv_db demoRules) demoRank"
    using demo_ranked by (simp add: demoRules_def)
  have code: "bt_code (demoBase ''A000L'') = ''A000L''"
    by code_simp
  have run: "checkBR19 demoRules (demoBase ''A000L'') [''F28.A07LG'', ''F28.A07KQ'', ''F01.A0F6E'']
       = Some [(createWarning demoRules ''BR19'' ''A07LG'') \<lparr> w_facet := Some ''F28.A07LG'' \<rparr>]"
    by code_simp
  have facets: "facetsOfGroup ''F28'' [''F28.A07LG'', ''F28.A07KQ'', ''F01.A0F6E''] = [''F28.A07LG'', ''F28.A07KQ'']"
    by code_simp
  have parts: "secondPart ''F28.A07LG'' = ''A07LG''" "secondPart ''F28.A07KQ'' = ''A07KQ''"
    by code_simp+
  from C7_BR19_forbidden_processes [OF raw ranked, of "[''F28.A07LG'', ''F28.A07KQ'', ''F01.A0F6E'']"]
  have "''A07LG'' \<in> forbidden_processes_for demoRules ''A000L''
      \<and> ''A07KQ'' \<notin> forbidden_processes_for demoRules ''A000L''"
    unfolding run facets code using parts
    by (simp add: createWarning_def)
  with raw ranked run show ?thesis by simp
qed

section \<open>Processes and their ordinal codes\<close>

lemma filter_nonempty_nth: "(filter P xs \<noteq> []) = (\<exists>i < length xs. P (xs ! i))"
  by (metis filter_empty_conv in_set_conv_nth)

lemma filter_two_positions:
  "(1 < length (filter P xs)) = (\<exists>i < length xs. \<exists>j < length xs. i \<noteq> j \<and> P (xs ! i) \<and> P (xs ! j))"
proof (induction xs)
  case Nil
  show ?case by simp
next
  case (Cons x xs)
  show ?case (is "?L = ?R")
  proof
    assume L: ?L
    show ?R
    proof (cases "1 < length (filter P xs)")
      case True
      with Cons.IH obtain i j where "i < length xs" "j < length xs" "i \<noteq> j" "P (xs ! i)" "P (xs ! j)"
        by blast
      then have "Suc i < length (x # xs) \<and> Suc j < length (x # xs) \<and> Suc i \<noteq> Suc j
                 \<and> P ((x # xs) ! Suc i) \<and> P ((x # xs) ! Suc j)" by simp
      then show ?thesis by blast
    next
      case False
      with L have px: "P x" and ne: "filter P xs \<noteq> []"
        by (auto split: if_splits)
      from ne obtain j where "j < length xs" "P (xs ! j)"
        by (auto simp: filter_nonempty_nth)
      with px have "0 < length (x # xs) \<and> Suc j < length (x # xs) \<and> 0 \<noteq> Suc j
                 \<and> P ((x # xs) ! 0) \<and> P ((x # xs) ! Suc j)" by simp
      then show ?thesis by blast
    qed
  next
    assume ?R
    then obtain i j where ij: "i < length (x # xs)" "j < length (x # xs)" "i \<noteq> j"
      "P ((x # xs) ! i)" "P ((x # xs) ! j)" by blast
    show ?L
    proof (cases i)
      case 0
      with ij obtain j' where "j = Suc j'" by (cases j) auto
      with ij 0 have "P x" "j' < length xs" "P (xs ! j')" by auto
      then have "filter P xs \<noteq> []" by (auto simp: filter_nonempty_nth)
      with \<open>P x\<close> show ?thesis by (cases "filter P xs") auto
    next
      case (Suc i')
      show ?thesis
      proof (cases j)
        case 0
        with ij Suc have "P x" "i' < length xs" "P (xs ! i')" by auto
        then have "filter P xs \<noteq> []" by (auto simp: filter_nonempty_nth)
        with \<open>P x\<close> show ?thesis by (cases "filter P xs") auto
      next
        case (Suc j')
        with ij \<open>i = Suc i'\<close> have "i' < length xs" "j' < length xs" "i' \<noteq> j'" "P (xs ! i')" "P (xs ! j')"
          by auto
        with Cons.IH have "1 < length (filter P xs)" by blast
        then show ?thesis by auto
      qed
    qed
  qed
qed

lemma collectM_total:
  "\<forall>x \<in> set xs. \<exists>y. f x = Some y \<Longrightarrow> \<exists>ys. collectM f xs = Some ys"
  by (induction xs) auto

lemma anyM_total:
  "\<forall>x \<in> set xs. \<exists>y. p x = Some y \<Longrightarrow> \<exists>b. anyM p xs = Some b"
  by (induction xs) auto

lemma getProcessOrdinalCode_total:
  assumes "hierarchiesRanked (rv_db v) rank"
  shows "\<exists>q. getProcessOrdinalCode v termCode processCode = Some q"
  using getAncestors_total [OF assms, of termCode "''report''"]
  by (auto simp: getProcessOrdinalCode_def Let_def)

lemma collect_processes:
  assumes "\<forall>facet \<in> set facets. \<exists>q. getProcessOrdinalCode v c (secondPart facet) = Some q"
  shows "\<exists>ps. collectM (\<lambda>facet.
             let processCode = secondPart facet in
             Option.bind (getProcessOrdinalCode v c processCode)
               (\<lambda>ordinal. Some [\<lparr> p_code = processCode, p_ordinalCode = ordinal,
                                   p_isImplicit = imp \<rparr>])) facets = Some ps
          \<and> map p_code ps = map secondPart facets
          \<and> (\<forall>p \<in> set ps. p_isImplicit p = imp
                 \<and> getProcessOrdinalCode v c (p_code p) = Some (p_ordinalCode p))"
  using assms
proof (induction facets)
  case Nil
  show ?case by simp
next
  case (Cons f fs)
  from Cons.prems obtain q where q: "getProcessOrdinalCode v c (secondPart f) = Some q" by auto
  from Cons obtain ps where ps: "collectM (\<lambda>facet.
             let processCode = secondPart facet in
             Option.bind (getProcessOrdinalCode v c processCode)
               (\<lambda>ordinal. Some [\<lparr> p_code = processCode, p_ordinalCode = ordinal,
                                   p_isImplicit = imp \<rparr>])) fs = Some ps"
    and codes: "map p_code ps = map secondPart fs"
    and each: "\<forall>p \<in> set ps. p_isImplicit p = imp
                 \<and> getProcessOrdinalCode v c (p_code p) = Some (p_ordinalCode p)"
    by auto
  show ?case
    using q ps codes each by (simp add: Let_def)
qed

lemma getProcessesWithOrdinalCodes_total:
  assumes ranked: "hierarchiesRanked (rv_db v) rank"
  shows "\<exists>processes. getProcessesWithOrdinalCodes v baseTerm explicitFacets = Some processes
     \<and> map p_code processes =
         map secondPart (facetsOfGroup ''F28'' (parseImplicitFacets (bt_implicit_facets baseTerm))
                         @ facetsOfGroup ''F28'' explicitFacets)
     \<and> map p_isImplicit processes =
         replicate (length (facetsOfGroup ''F28'' (parseImplicitFacets (bt_implicit_facets baseTerm)))) True
         @ replicate (length (facetsOfGroup ''F28'' explicitFacets)) False
     \<and> (\<forall>p \<in> set processes.
           getProcessOrdinalCode v (bt_code baseTerm) (p_code p) = Some (p_ordinalCode p))"
proof -
  let ?imp = "facetsOfGroup ''F28'' (parseImplicitFacets (bt_implicit_facets baseTerm))"
  let ?exp = "facetsOfGroup ''F28'' explicitFacets"
  have tot: "\<And>facets. \<forall>facet \<in> set facets. \<exists>q. getProcessOrdinalCode v (bt_code baseTerm) (secondPart facet) = Some q"
    using getProcessOrdinalCode_total [OF ranked] by blast
  from collect_processes [where facets = ?imp and imp = True, OF tot] obtain ips where
    ips: "collectM (\<lambda>facet.
             let processCode = secondPart facet in
             Option.bind (getProcessOrdinalCode v (bt_code baseTerm) processCode)
               (\<lambda>ordinal. Some [\<lparr> p_code = processCode, p_ordinalCode = ordinal,
                                   p_isImplicit = True \<rparr>])) ?imp = Some ips"
    and icodes: "map p_code ips = map secondPart ?imp"
    and ieach: "\<forall>p \<in> set ips. p_isImplicit p = True
                 \<and> getProcessOrdinalCode v (bt_code baseTerm) (p_code p) = Some (p_ordinalCode p)"
    by blast
  from collect_processes [where facets = ?exp and imp = False, OF tot] obtain eps where
    eps: "collectM (\<lambda>facet.
             let processCode = secondPart facet in
             Option.bind (getProcessOrdinalCode v (bt_code baseTerm) processCode)
               (\<lambda>ordinal. Some [\<lparr> p_code = processCode, p_ordinalCode = ordinal,
                                   p_isImplicit = False \<rparr>])) ?exp = Some eps"
    and ecodes: "map p_code eps = map secondPart ?exp"
    and eeach: "\<forall>p \<in> set eps. p_isImplicit p = False
                 \<and> getProcessOrdinalCode v (bt_code baseTerm) (p_code p) = Some (p_ordinalCode p)"
    by blast
  have run: "getProcessesWithOrdinalCodes v baseTerm explicitFacets = Some (ips @ eps)"
    using ips eps by (simp add: getProcessesWithOrdinalCodes_def Let_def)
  have li: "length ips = length ?imp" using icodes by (metis length_map)
  have le: "length eps = length ?exp" using ecodes by (metis length_map)
  have impl: "map p_isImplicit (ips @ eps) = replicate (length ?imp) True @ replicate (length ?exp) False"
  proof -
    have "map p_isImplicit ips = replicate (length ips) True"
      using ieach by (induction ips) auto
    moreover have "map p_isImplicit eps = replicate (length eps) False"
      using eeach by (induction eps) auto
    ultimately show ?thesis using li le by simp
  qed
  show ?thesis
    using run icodes ecodes impl ieach eeach by auto
qed

section \<open>Claim C4: mutually exclusive processes\<close>

lemma checkBR26_emits:
  assumes der: "isDerivative baseTerm"
    and ps: "getProcessesWithOrdinalCodes v baseTerm explicitFacets = Some processes"
  shows "\<exists>ws. checkBR26 v baseTerm explicitFacets = Some ws
     \<and> ((\<exists>w \<in> set ws. w_rule w = ''BR26'') = sharedOrdinal processes)
     \<and> (\<forall>w \<in> set ws. w_rule w = ''BR26''
            \<and> w_severity w = (case rv_warningMessages v ''BR26'' of None \<Rightarrow> ''HIGH'' | Some sev \<Rightarrow> sev))"
proof -
  let ?grouped = "filter (\<lambda>proc. p_ordinalCode proc \<noteq> 0) processes"
  let ?ws = "concat (map (\<lambda>ordinal.
                      let codes = map p_code (filter (\<lambda>proc. p_ordinalCode proc = ordinal) ?grouped) in
                      if length codes > 1 then [createWarning v ''BR26'' (joinDash codes)] else [])
                    (firstOccurrences (map p_ordinalCode ?grouped)))"
  have run: "checkBR26 v baseTerm explicitFacets = Some ?ws"
    using der ps by (simp add: checkBR26_def Let_def del: filter_filter)
  have count: "\<And>ordinal. (1 < length (filter (\<lambda>proc. p_ordinalCode proc = ordinal) ?grouped))
      = (\<exists>i < length processes. \<exists>j < length processes. i \<noteq> j
           \<and> p_ordinalCode (processes ! i) = ordinal \<and> p_ordinalCode (processes ! i) \<noteq> 0
           \<and> p_ordinalCode (processes ! j) = ordinal)"
  proof -
    fix ordinal
    have "(1 < length (filter (\<lambda>proc. p_ordinalCode proc = ordinal) ?grouped))
          = (1 < length (filter (\<lambda>proc. p_ordinalCode proc \<noteq> 0 \<and> p_ordinalCode proc = ordinal) processes))"
      by simp
    also have "\<dots> = (\<exists>i < length processes. \<exists>j < length processes. i \<noteq> j
           \<and> (p_ordinalCode (processes ! i) \<noteq> 0 \<and> p_ordinalCode (processes ! i) = ordinal)
           \<and> (p_ordinalCode (processes ! j) \<noteq> 0 \<and> p_ordinalCode (processes ! j) = ordinal))"
      by (rule filter_two_positions)
    also have "\<dots> = (\<exists>i < length processes. \<exists>j < length processes. i \<noteq> j
           \<and> p_ordinalCode (processes ! i) = ordinal \<and> p_ordinalCode (processes ! i) \<noteq> 0
           \<and> p_ordinalCode (processes ! j) = ordinal)"
      by metis
    finally show "(1 < length (filter (\<lambda>proc. p_ordinalCode proc = ordinal) ?grouped))
      = (\<exists>i < length processes. \<exists>j < length processes. i \<noteq> j
           \<and> p_ordinalCode (processes ! i) = ordinal \<and> p_ordinalCode (processes ! i) \<noteq> 0
           \<and> p_ordinalCode (processes ! j) = ordinal)" .
  qed
  have member: "\<And>ordinal. 1 < length (filter (\<lambda>proc. p_ordinalCode proc = ordinal) ?grouped)
      \<Longrightarrow> ordinal \<in> set (map p_ordinalCode ?grouped)"
  proof -
    fix ordinal
    assume "1 < length (filter (\<lambda>proc. p_ordinalCode proc = ordinal) ?grouped)"
    then have "filter (\<lambda>proc. p_ordinalCode proc = ordinal) ?grouped \<noteq> []" by auto
    then obtain p where "p \<in> set ?grouped" "p_ordinalCode p = ordinal"
      by (auto simp: filter_empty_conv)
    then show "ordinal \<in> set (map p_ordinalCode ?grouped)" by force
  qed
  have emits: "(\<exists>w \<in> set ?ws. w_rule w = ''BR26'')
      = (\<exists>ordinal. 1 < length (filter (\<lambda>proc. p_ordinalCode proc = ordinal) ?grouped))"
  proof
    assume "\<exists>w \<in> set ?ws. w_rule w = ''BR26''"
    then show "\<exists>ordinal. 1 < length (filter (\<lambda>proc. p_ordinalCode proc = ordinal) ?grouped)"
      by (auto simp: Let_def split: if_splits)
  next
    assume "\<exists>ordinal. 1 < length (filter (\<lambda>proc. p_ordinalCode proc = ordinal) ?grouped)"
    then obtain ordinal where o: "1 < length (filter (\<lambda>proc. p_ordinalCode proc = ordinal) ?grouped)"
      by blast
    from member [OF o] have "ordinal \<in> set (firstOccurrences (map p_ordinalCode ?grouped))"
      by (simp only: set_firstOccurrences)
    with o have "createWarning v ''BR26''
        (joinDash (map p_code (filter (\<lambda>proc. p_ordinalCode proc = ordinal) ?grouped))) \<in> set ?ws"
      by (auto simp: Let_def intro!: bexI [of _ ordinal])
    then show "\<exists>w \<in> set ?ws. w_rule w = ''BR26''"
      by (auto simp: createWarning_def intro!: bexI)
  qed
  have shared: "(\<exists>w \<in> set ?ws. w_rule w = ''BR26'') = sharedOrdinal processes"
    unfolding emits count sharedOrdinal_def by metis
  have sev: "\<forall>w \<in> set ?ws. w_rule w = ''BR26''
            \<and> w_severity w = (case rv_warningMessages v ''BR26'' of None \<Rightarrow> ''HIGH'' | Some sev \<Rightarrow> sev)"
    by (auto simp: createWarning_def Let_def split: if_splits)
  show ?thesis using run shared sev by blast
qed

text \<open>
  Claim C4 is not what the code does.  BR26 is to be emitted when two F28 processes
  share the same non-zero integer ordinal code and at least one of them is explicit.
  \<open>checkBR26\<close> groups all the processes, implicit and explicit, by their non-zero
  ordinal code and warns for every group of more than one; it never reads the flag
  \<open>isImplicit\<close> that \<open>getProcessesWithOrdinalCodes\<close> sets on each process.  In the
  run below the derivative \<open>A01DJ\<close> is validated with no facet at all: its two
  implicit processes share the ordinal code 1, no process is explicit, the rule emits
  BR26 with the severity \<open>HIGH\<close>, and the result is invalid.  The rule next to it,
  \<open>checkBR27\<close>, works on the same list of processes, asks for an explicit process and
  is silent when the two implicit processes share the integer part of a fractional
  code.
\<close>

theorem C4_BR26_without_explicit_process:
  "isDerivative (demoBase ''A01DJ'')
   \<and> parseFacetString (snd (parseFullCode ''A01DJ'')) = []
   \<and> getProcessesWithOrdinalCodes demoRules (demoBase ''A01DJ'') [] =
       Some [\<lparr> p_code = ''A07KQ'', p_ordinalCode = 1, p_isImplicit = True \<rparr>,
             \<lparr> p_code = ''A07KX'', p_ordinalCode = 1, p_isImplicit = True \<rparr>]
   \<and> \<not> br26SpecCondition [\<lparr> p_code = ''A07KQ'', p_ordinalCode = 1, p_isImplicit = True \<rparr>,
                            \<lparr> p_code = ''A07KX'', p_ordinalCode = 1, p_isImplicit = True \<rparr>]
   \<and> checkBR26 demoRules (demoBase ''A01DJ'') [] =
       Some [createWarning demoRules ''BR26'' ''A07KQ - A07KX'']
   \<and> w_severity (createWarning demoRules ''BR26'' ''A07KQ - A07KX'') = ''HIGH''
   \<and> map_option (\<lambda>r. (r_valid r, map w_rule (r_warnings r)))
        (serviceValidateCode demoRules noServiceOptions ''A01DJ'') = Some (False, [''BR22'', ''BR26''])
   \<and> getProcessesWithOrdinalCodes demoFractionalRules (demoBase ''A01DJ'') [] =
       Some [\<lparr> p_code = ''A07KQ'', p_ordinalCode = 3 / 2, p_isImplicit = True \<rparr>,
             \<lparr> p_code = ''A07KX'', p_ordinalCode = 3 / 2, p_isImplicit = True \<rparr>]
   \<and> checkBR27 demoFractionalRules (demoBase ''A01DJ'') [] = Some []"
proof -
  have d1: "isDerivative (demoBase ''A01DJ'')" by code_simp
  have e1: "parseFacetString (snd (parseFullCode ''A01DJ'')) = []" by code_simp
  have p1: "getProcessesWithOrdinalCodes demoRules (demoBase ''A01DJ'') [] =
       Some [\<lparr> p_code = ''A07KQ'', p_ordinalCode = 1, p_isImplicit = True \<rparr>,
             \<lparr> p_code = ''A07KX'', p_ordinalCode = 1, p_isImplicit = True \<rparr>]" by code_simp
  have n1: "\<not> br26SpecCondition [\<lparr> p_code = ''A07KQ'', p_ordinalCode = 1, p_isImplicit = True \<rparr>,
                            \<lparr> p_code = ''A07KX'', p_ordinalCode = 1, p_isImplicit = True \<rparr>]"
    by (auto simp: br26SpecCondition_def less_Suc_eq nth_Cons')
  have r1: "checkBR26 demoRules (demoBase ''A01DJ'') [] =
       Some [createWarning demoRules ''BR26'' ''A07KQ - A07KX'']" by code_simp
  have s1: "w_severity (createWarning demoRules ''BR26'' ''A07KQ - A07KX'') = ''HIGH''" by code_simp
  have v1: "map_option (\<lambda>r. (r_valid r, map w_rule (r_warnings r)))
        (serviceValidateCode demoRules noServiceOptions ''A01DJ'') = Some (False, [''BR22'', ''BR26''])"
    by code_simp
  have p2: "getProcessesWithOrdinalCodes demoFractionalRules (demoBase ''A01DJ'') [] =
       Some [\<lparr> p_code = ''A07KQ'', p_ordinalCode = 3 / 2, p_isImplicit = True \<rparr>,
             \<lparr> p_code = ''A07KX'', p_ordinalCode = 3 / 2, p_isImplicit = True \<rparr>]" by code_simp
  have r2: "checkBR27 demoFractionalRules (demoBase ''A01DJ'') [] = Some []" by code_simp
  show ?thesis using d1 e1 p1 n1 r1 s1 v1 p2 r2 by blast
qed

section \<open>Claim C3: the separators of the implicit facets\<close>

lemma jsSplit_joinDollar:
  "\<forall>f \<in> set (x # fs). \<not> list_ex isDollar f \<Longrightarrow> jsSplit isDollar (joinDollar (x # fs)) = x # fs"
proof (induction fs arbitrary: x)
  case Nil
  then show ?case by (simp add: jsSplit_no_sep)
next
  case (Cons y ys)
  have "jsSplit isDollar (x @ CHR ''$'' # joinDollar (y # ys)) = x # jsSplit isDollar (joinDollar (y # ys))"
  proof (rule jsSplit_append_sep)
    show "\<not> list_ex isDollar x" using Cons.prems by simp
    show "isDollar CHR ''$''" by (simp add: isDollar_def)
  qed
  moreover have "jsSplit isDollar (joinDollar (y # ys)) = y # ys"
    using Cons.prems by (intro Cons.IH) simp
  ultimately show ?case by simp
qed

lemma list_ex_isDollar: "list_ex isDollar f = (CHR ''$'' \<in> set f)"
  by (auto simp: list_ex_iff isDollar_def)

lemma jsSplit_pieces_no_sep: "\<forall>p \<in> set (jsSplit sep s). \<not> list_ex sep p"
  by (induction s) (auto split: list.splits)

lemma joinDollar_Cons: "joinDollar (x # xs) = (if xs = [] then x else x @ CHR ''$'' # joinDollar xs)"
  by (cases xs) simp_all

lemma joinDollar_jsSplit: "joinDollar (jsSplit isDollar s) = s"
proof (induction s)
  case Nil
  then show ?case by simp
next
  case (Cons c cs)
  show ?case
  proof (cases "isDollar c")
    case True
    then have c: "c = CHR ''$''" by (simp add: isDollar_def)
    have "jsSplit isDollar cs \<noteq> []" by (rule jsSplit_not_Nil)
    with True Cons.IH c show ?thesis by (simp add: joinDollar_Cons)
  next
    case False
    obtain x xs where sp: "jsSplit isDollar cs = x # xs"
      using jsSplit_not_Nil [of isDollar cs] by (cases "jsSplit isDollar cs") auto
    with False Cons.IH show ?thesis by (simp add: joinDollar_Cons split: if_splits)
  qed
qed

lemma parse_joinDollar_filter:
  assumes "\<forall>f \<in> set fs. CHR ''$'' \<notin> set f"
  shows "parseImplicitFacets (Some (joinDollar fs)) = filter (\<lambda>f. f \<noteq> []) fs"
proof (cases fs)
  case Nil
  then show ?thesis by (simp add: parseImplicitFacets_def)
next
  case (Cons x xs)
  with assms have sp: "jsSplit isDollar (joinDollar fs) = fs"
    using jsSplit_joinDollar [of x xs] by (simp add: list_ex_isDollar)
  show ?thesis
  proof (cases "joinDollar fs = []")
    case True
    with sp have "fs = [[]]" by simp
    then show ?thesis by (simp add: parseImplicitFacets_def)
  next
    case False
    with sp show ?thesis by (simp add: parseImplicitFacets_def)
  qed
qed

lemma getImplicitFacets_parse: "getImplicitFacets t = parseImplicitFacets (bt_implicit_facets t)"
  by (simp add: getImplicitFacets_def parseImplicitFacets_def)

text \<open>
  Claim C3, as the code has it.  The string \<open>implicit_facets\<close> of a term is split at
  \<open>$\<close> only, and the empty fragments are dropped: for fragments that hold no \<open>$\<close>,
  written one after the other with \<open>$\<close> between them, \<open>parseImplicitFacets\<close> and
  \<open>getImplicitFacets\<close> return the fragments that are not empty, as they are and in
  order.  A \<open>#\<close> is not a separator and stays inside its fragment.  A missing string
  gives no facet.  Every string is such a sequence of fragments, so this says what the
  two functions return on every input.
\<close>

theorem C3_implicit_facets_dollar_only:
  assumes "\<forall>f \<in> set fs. CHR ''$'' \<notin> set f"
  shows "parseImplicitFacets (Some (joinDollar fs)) = filter (\<lambda>f. f \<noteq> []) fs
       \<and> getImplicitFacets (t \<lparr> bt_implicit_facets := Some (joinDollar fs) \<rparr>) = filter (\<lambda>f. f \<noteq> []) fs
       \<and> parseImplicitFacets None = []
       \<and> getImplicitFacets (t \<lparr> bt_implicit_facets := None \<rparr>) = []
       \<and> (\<exists>gs. s = joinDollar gs \<and> (\<forall>g \<in> set gs. CHR ''$'' \<notin> set g))"
proof -
  have a: "parseImplicitFacets (Some (joinDollar fs)) = filter (\<lambda>f. f \<noteq> []) fs"
    using assms by (rule parse_joinDollar_filter)
  have b: "getImplicitFacets (t \<lparr> bt_implicit_facets := Some (joinDollar fs) \<rparr>) = filter (\<lambda>f. f \<noteq> []) fs"
    using a by (simp add: getImplicitFacets_parse)
  have c: "parseImplicitFacets None = []" by (simp add: parseImplicitFacets_def)
  have d: "getImplicitFacets (t \<lparr> bt_implicit_facets := None \<rparr>) = []"
    by (simp add: getImplicitFacets_def)
  have "s = joinDollar (jsSplit isDollar s) \<and> (\<forall>g \<in> set (jsSplit isDollar s). CHR ''$'' \<notin> set g)"
    using jsSplit_pieces_no_sep [of isDollar s] by (simp add: joinDollar_jsSplit list_ex_isDollar)
  then have e: "\<exists>gs. s = joinDollar gs \<and> (\<forall>g \<in> set gs. CHR ''$'' \<notin> set g)" by blast
  show ?thesis using a b c d e by blast
qed

text \<open>
  Claim C3 as stated fails: the same two references give two facets when \<open>$\<close> stands
  between them and one fragment when \<open>#\<close> does.
\<close>

theorem C3_implicit_facets_counterexample:
  "hashAsDollar ''F01.A0F6E#F28.A07KQ'' = ''F01.A0F6E$F28.A07KQ''
   \<and> parseImplicitFacets (Some ''F01.A0F6E$F28.A07KQ'') = [''F01.A0F6E'', ''F28.A07KQ'']
   \<and> parseImplicitFacets (Some ''F01.A0F6E#F28.A07KQ'') = [''F01.A0F6E#F28.A07KQ'']
   \<and> getImplicitFacets ((demoBase ''A01BS'') \<lparr> bt_implicit_facets := Some ''F01.A0F6E#F28.A07KQ'' \<rparr>)
       = [''F01.A0F6E#F28.A07KQ'']
   \<and> parseImplicitFacets (Some ''F01.A0F6E#F28.A07KQ'')
       \<noteq> parseImplicitFacets (Some (hashAsDollar ''F01.A0F6E#F28.A07KQ''))"
  by (simp add: hashAsDollar_def parseImplicitFacets_def getImplicitFacets_def isDollar_def)

text \<open>
  Four fragments, the first of them holding a \<open>#\<close>, the second and the last empty.
\<close>

theorem C3_implicit_facets_dollar_only_witness:
  "list_all (\<lambda>f. CHR ''$'' \<notin> set f) [''F01.A0F6E#F27.A000L'', '''', ''F28.A07KQ'', '''']
   \<and> joinDollar [''F01.A0F6E#F27.A000L'', '''', ''F28.A07KQ'', ''''] = ''F01.A0F6E#F27.A000L$$F28.A07KQ$''
   \<and> parseImplicitFacets (Some ''F01.A0F6E#F27.A000L$$F28.A07KQ$'') = [''F01.A0F6E#F27.A000L'', ''F28.A07KQ'']
   \<and> getImplicitFacets ((demoBase ''A01BS'') \<lparr> bt_implicit_facets := Some ''F01.A0F6E#F27.A000L$$F28.A07KQ$'' \<rparr>)
       = [''F01.A0F6E#F27.A000L'', ''F28.A07KQ'']"
proof -
  have h: "\<forall>f \<in> set [''F01.A0F6E#F27.A000L'', '''', ''F28.A07KQ'', '''']. CHR ''$'' \<notin> set f"
    by simp
  have j: "joinDollar [''F01.A0F6E#F27.A000L'', '''', ''F28.A07KQ'', ''''] = ''F01.A0F6E#F27.A000L$$F28.A07KQ$''"
    by simp
  show ?thesis
    using h j C3_implicit_facets_dollar_only [OF h, of "demoBase ''A01BS''"]
    by (simp add: list_all_iff)
qed

section \<open>Claim C6: reconstitution of dehydrated terms\<close>

lemma strIncludes_iff: "strIncludes s sub = (\<exists>pre post. s = pre @ sub @ post)"
proof (induction s)
  case Nil
  show ?case by auto
next
  case (Cons c cs)
  show ?case
  proof
    assume "strIncludes (c # cs) sub"
    then consider "take (length sub) (c # cs) = sub" | "strIncludes cs sub" by auto
    then show "\<exists>pre post. c # cs = pre @ sub @ post"
    proof cases
      case 1
      then have "c # cs = [] @ sub @ drop (length sub) (c # cs)"
        by (metis append_Nil append_take_drop_id)
      then show ?thesis by blast
    next
      case 2
      with Cons.IH obtain pre post where "cs = pre @ sub @ post" by blast
      then have "c # cs = (c # pre) @ sub @ post" by simp
      then show ?thesis by blast
    qed
  next
    assume "\<exists>pre post. c # cs = pre @ sub @ post"
    then obtain pre post where eq: "c # cs = pre @ sub @ post" by blast
    show "strIncludes (c # cs) sub"
    proof (cases pre)
      case Nil
      with eq have "take (length sub) (c # cs) = sub" by simp
      then show ?thesis by simp
    next
      case (Cons p ps)
      with eq have "cs = ps @ sub @ post" by simp
      with Cons.IH have "strIncludes cs sub" by blast
      then show ?thesis by simp
    qed
  qed
qed

lemma includes_lower_iff:
  "strIncludes (toLowerCase s) word = (\<exists>pre mid post. s = pre @ mid @ post \<and> toLowerCase mid = word)"
proof
  assume "strIncludes (toLowerCase s) word"
  then obtain pre post where "map lowerChar s = pre @ word @ post"
    by (auto simp: strIncludes_iff toLowerCase_def)
  then obtain a b where s: "s = a @ b" and b: "map lowerChar b = word @ post"
    by (metis map_eq_append_conv)
  from b obtain m c where "b = m @ c" and "map lowerChar m = word"
    by (metis map_eq_append_conv)
  with s show "\<exists>pre mid post. s = pre @ mid @ post \<and> toLowerCase mid = word"
    by (auto simp: toLowerCase_def)
next
  assume "\<exists>pre mid post. s = pre @ mid @ post \<and> toLowerCase mid = word"
  then obtain pre mid post where "s = pre @ mid @ post" and "toLowerCase mid = word" by blast
  then have "toLowerCase s = toLowerCase pre @ word @ toLowerCase post"
    by (simp add: toLowerCase_def)
  then show "strIncludes (toLowerCase s) word"
    unfolding strIncludes_iff by blast
qed

lemma isConcentrateOrPowder_iff: "isConcentrateOrPowder t = nameIndicatesDehydration t"
  by (simp add: isConcentrateOrPowder_def nameIndicatesDehydration_def nameContains_def
      includes_lower_iff)

text \<open>
  Claim C6, as the code has it.  A BR28 warning is emitted for an explicit F28 facet
  whose descriptor is reconstitution (\<open>A07MR\<close>) or dilution (\<open>A07MQ\<close>) exactly when the
  name of the base term contains one of \<open>concentrate\<close>, \<open>powder\<close>, \<open>dried\<close>,
  \<open>dehydrated\<close>, whatever the case of the letters.  The implicit facets of the base
  term play no part.  The severity is the one the message table gives BR28 (\<open>HIGH\<close>
  without an entry), and \<open>HIGH\<close> in the built-in table.
\<close>

theorem C6_BR28_name_only:
  "((\<exists>w \<in> set (checkBR28 v baseTerm explicitFacets). w_rule w = ''BR28'' \<and> w_involvedTerms w = Some d)
      = (nameIndicatesDehydration baseTerm \<and> d \<in> {''A07MR'', ''A07MQ''}
         \<and> (\<exists>facet \<in> set explicitFacets. startsWith facet ''F28.'' \<and> secondPart facet = d)))
   \<and> (\<forall>w \<in> set (checkBR28 v baseTerm explicitFacets). w_rule w = ''BR28''
          \<and> w_severity w = (case rv_warningMessages v ''BR28'' of None \<Rightarrow> ''HIGH'' | Some sev \<Rightarrow> sev))
   \<and> getDefaultWarningMessages ''BR28'' = Some ''HIGH''
   \<and> checkBR28 v (baseTerm \<lparr> bt_implicit_facets := implicit \<rparr>) explicitFacets
       = checkBR28 v baseTerm explicitFacets"
proof (intro conjI)
  show "(\<exists>w \<in> set (checkBR28 v baseTerm explicitFacets). w_rule w = ''BR28'' \<and> w_involvedTerms w = Some d)
      = (nameIndicatesDehydration baseTerm \<and> d \<in> {''A07MR'', ''A07MQ''}
         \<and> (\<exists>facet \<in> set explicitFacets. startsWith facet ''F28.'' \<and> secondPart facet = d))"
    unfolding isConcentrateOrPowder_iff [symmetric]
    by (auto simp: checkBR28_def facetsOfGroup_def createWarning_def Let_def split: if_splits)
  show "\<forall>w \<in> set (checkBR28 v baseTerm explicitFacets). w_rule w = ''BR28''
          \<and> w_severity w = (case rv_warningMessages v ''BR28'' of None \<Rightarrow> ''HIGH'' | Some sev \<Rightarrow> sev)"
    by (auto simp: checkBR28_def createWarning_def Let_def split: if_splits)
  show "getDefaultWarningMessages ''BR28'' = Some ''HIGH''"
    by (simp add: getDefaultWarningMessages_def)
  show "checkBR28 v (baseTerm \<lparr> bt_implicit_facets := implicit \<rparr>) explicitFacets
       = checkBR28 v baseTerm explicitFacets"
    by (simp add: checkBR28_def isConcentrateOrPowder_def termNameOf_def)
qed

text \<open>
  Claim C6 as stated fails: a base term with an implicit process of the dehydration
  set, whose name has none of the four words, gets no BR28 warning for an explicit
  reconstitution facet.
\<close>

theorem C6_BR28_counterexample:
  "bt_name (demoBase ''A01FB'') = Some ''Raisins''
   \<and> parseImplicitFacets (bt_implicit_facets (demoBase ''A01FB'')) = [''F28.A07KG'']
   \<and> hasImplicitDehydration (demoBase ''A01FB'')
   \<and> startsWith ''F28.A07MR'' ''F28.'' \<and> secondPart ''F28.A07MR'' = ''A07MR''
   \<and> checkBR28 demoRules (demoBase ''A01FB'') [''F28.A07MR''] = []"
  by code_simp

text \<open>Milk powder with an explicit reconstitution facet.\<close>

theorem C6_BR28_name_only_witness:
  "checkBR28 demoRules (demoBase ''A02PJ'') [''F28.A07MR'', ''F28.A07KQ'']
     = [createWarning demoRules ''BR28'' ''A07MR'']
   \<and> bt_name (demoBase ''A02PJ'') = Some ''Milk Powder''
   \<and> nameIndicatesDehydration (demoBase ''A02PJ'')"
proof -
  have run: "checkBR28 demoRules (demoBase ''A02PJ'') [''F28.A07MR'', ''F28.A07KQ'']
     = [createWarning demoRules ''BR28'' ''A07MR'']"
    by code_simp
  have name: "bt_name (demoBase ''A02PJ'') = Some ''Milk Powder''"
    by code_simp
  from C6_BR28_name_only [of demoRules "demoBase ''A02PJ''" "[''F28.A07MR'', ''F28.A07KQ'']" "''A07MR''"]
  have "nameIndicatesDehydration (demoBase ''A02PJ'')"
    unfolding run by (simp add: createWarning_def)
  with run name show ?thesis by simp
qed

section \<open>Claim C5: explicit facets less detailed than implicit ones\<close>

text \<open>
  On a catalogue none of whose hierarchies is named by the lower-cased group id of an
  explicit facet, \<open>checkBR16\<close> pushes nothing, whatever the hierarchies hold.
\<close>

lemma getAncestors_unknown_hierarchy:
  assumes "\<forall>r \<in> set (term_hierarchies db). h_hierarchy_code r \<noteq> h"
  shows "getAncestors db c h = Some []"
proof -
  have "directParents db h c = []"
    using assms by (auto simp: directParents_def List.map_filter_def filter_empty_conv)
  then have "nextLevel db h [c] = []"
    by (simp add: nextLevel_def firstOccurrences_def)
  then show ?thesis
    by (simp add: getAncestors_def ancestorLevels.simps firstOccurrences_def)
qed

lemma anyM_all_False: "\<forall>x \<in> set xs. p x = Some False \<Longrightarrow> anyM p xs = Some False"
  by (induction xs) auto

lemma collectM_all_Nil: "\<forall>x \<in> set xs. f x = Some [] \<Longrightarrow> collectM f xs = Some []"
  by (induction xs) auto

lemma checkBR16_unknown_hierarchy:
  assumes "\<forall>r \<in> set (term_hierarchies (rv_db v)). \<forall>f \<in> set fs.
             h_hierarchy_code r \<noteq> toLowerCase (firstPart f)"
  shows "checkBR16 v t fs = Some []"
proof -
  have "(let facetGroup = firstPart explicit; facetCode = secondPart explicit in
         if facetGroup = [] \<or> facetCode = [] then Some []
         else
           let matchingImplicit = map secondPart
                 (facetsOfGroup facetGroup (parseImplicitFacets (bt_implicit_facets t))) in
           Option.bind
             (anyM (\<lambda>implicitCode.
                      let siblings = areSiblings (rv_db v) facetCode implicitCode (toLowerCase facetGroup) in
                      if siblings then Some False
                      else isParentOf (rv_db v) facetCode implicitCode (toLowerCase facetGroup))
                   matchingImplicit)
             (\<lambda>hit. Some (if hit then [createWarning v ''BR16'' facetCode] else []))) = Some []"
    if ex: "explicit \<in> set fs" for explicit
  proof -
    let ?h = "toLowerCase (firstPart explicit)"
    from assms ex have none: "\<forall>r \<in> set (term_hierarchies (rv_db v)). h_hierarchy_code r \<noteq> ?h"
      by blast
    have "isParentOf (rv_db v) (secondPart explicit) i ?h = Some False" for i
      using getAncestors_unknown_hierarchy [OF none, of i]
      by (simp add: isParentOf_def isChildOf_def)
    then have "anyM (\<lambda>implicitCode.
                      let siblings = areSiblings (rv_db v) (secondPart explicit) implicitCode ?h in
                      if siblings then Some False
                      else isParentOf (rv_db v) (secondPart explicit) implicitCode ?h) xs = Some False" for xs
      by (intro anyM_all_False) (simp add: Let_def)
    then show ?thesis by (simp add: Let_def)
  qed
  then show ?thesis
    unfolding checkBR16_def by (subst Let_def, intro collectM_all_Nil) blast
qed

text \<open>
  Claim C5 is not what the code does.  BR16 is to be emitted when the explicit
  descriptor is an ancestor of an implicit descriptor of the same group in the hierarchy
  assigned to the group and the two are not siblings.  \<open>checkBR16\<close> asks both questions
  in the hierarchy named by the lower-cased group id (\<open>f28\<close>) instead of the hierarchy
  \<open>hierarchyMap\<close> assigns to the group (\<open>process\<close>).  In the run below the base term
  has the implicit process \<open>A07KQ\<close>, the explicit process \<open>A07JS\<close> is its parent in
  \<open>process\<close> and not its sibling, and no BR16 warning is emitted, neither by the rule
  nor by the whole validation.
\<close>

theorem C5_BR16_hierarchy_of_group:
  "parseImplicitFacets (bt_implicit_facets (demoBase ''A01BS'')) = [''F28.A07KQ'']
   \<and> hierarchyCodeFor ''F28'' = ''process''
   \<and> isParentOf demoDb ''A07JS'' ''A07KQ'' (hierarchyCodeFor ''F28'') = Some True
   \<and> \<not> areSiblings demoDb ''A07JS'' ''A07KQ'' (hierarchyCodeFor ''F28'')
   \<and> toLowerCase ''F28'' = ''f28''
   \<and> isParentOf demoDb ''A07JS'' ''A07KQ'' ''f28'' = Some False
   \<and> checkBR16 demoRules (demoBase ''A01BS'') [''F28.A07JS''] = Some []
   \<and> map_option (\<lambda>r. filter (\<lambda>w. w_rule w = ''BR16'') (r_warnings r))
        (serviceValidateCode demoRules noServiceOptions ''A01BS#F28.A07JS'') = Some []"
  by code_simp

section \<open>Every rule returns on a catalogue without cycles\<close>

lemma isChildOf_total:
  "hierarchiesRanked db rank \<Longrightarrow> \<exists>b. isChildOf db c p h = Some b"
  using getAncestors_total [of db rank c h] by (auto simp: isChildOf_def)

lemma isChildOfAny_total:
  "hierarchiesRanked db rank \<Longrightarrow> \<exists>b. isChildOfAny db c ps h = Some b"
  using getAncestors_total [of db rank c h] by (auto simp: isChildOfAny_def)

lemma bind_total:
  "\<exists>y. m = Some y \<Longrightarrow> (\<And>y. \<exists>z. k y = Some z) \<Longrightarrow> \<exists>z. Option.bind m k = Some z"
  by auto

lemma checkBR01_total:
  assumes "hierarchiesRanked (rv_db v) rank"
  shows "\<exists>ws. checkBR01 v t fs = Some ws"
  unfolding checkBR01_def Let_def
  by (auto intro!: collectM_total bind_total isChildOfAny_total [OF assms])

lemma checkBR05_total:
  assumes "hierarchiesRanked (rv_db v) rank"
  shows "\<exists>ws. checkBR05 v t fs = Some ws"
  unfolding checkBR05_def Let_def
  by (auto intro!: collectM_total bind_total anyM_total isChildOf_total [OF assms])

lemma checkBR11_total:
  assumes "hierarchiesRanked (rv_db v) rank"
  shows "\<exists>ws. checkBR11 v t fs = Some ws"
  unfolding checkBR11_def Let_def
  by (auto intro!: collectM_total bind_total anyM_total isChildOf_total [OF assms])

lemma checkBR12_total:
  assumes "hierarchiesRanked (rv_db v) rank"
  shows "\<exists>ws. checkBR12 v t fs = Some ws"
  unfolding checkBR12_def Let_def
  by (auto intro!: collectM_total bind_total anyM_total isChildOf_total [OF assms])

lemma checkBR16_total:
  assumes "hierarchiesRanked (rv_db v) rank"
  shows "\<exists>ws. checkBR16 v t fs = Some ws"
proof -
  have inner: "\<exists>b. (let siblings = areSiblings (rv_db v) c i h in
                  if siblings then Some False else isParentOf (rv_db v) c i h) = Some b" for c i h
    using isChildOf_total [OF assms, of i c h] by (auto simp: Let_def isParentOf_def)
  have each: "\<exists>ws. (let facetGroup = firstPart explicit; facetCode = secondPart explicit in
         if facetGroup = [] \<or> facetCode = [] then Some []
         else
           let matchingImplicit = map secondPart
                 (facetsOfGroup facetGroup (parseImplicitFacets (bt_implicit_facets t))) in
           Option.bind
             (anyM (\<lambda>implicitCode.
                      let siblings = areSiblings (rv_db v) facetCode implicitCode (toLowerCase facetGroup) in
                      if siblings then Some False
                      else isParentOf (rv_db v) facetCode implicitCode (toLowerCase facetGroup))
                   matchingImplicit)
             (\<lambda>hit. Some (if hit then [createWarning v ''BR16'' facetCode] else []))) = Some ws"
    for explicit
  proof -
    have "\<exists>b. anyM (\<lambda>implicitCode.
                      let siblings = areSiblings (rv_db v) (secondPart explicit) implicitCode
                                       (toLowerCase (firstPart explicit)) in
                      if siblings then Some False
                      else isParentOf (rv_db v) (secondPart explicit) implicitCode
                             (toLowerCase (firstPart explicit))) xs = Some b" for xs
      by (rule anyM_total) (use inner in blast)
    then show ?thesis
      unfolding Let_def by (auto intro!: bind_total)
  qed
  show ?thesis
    unfolding checkBR16_def by (subst Let_def, rule collectM_total) (use each in blast)
qed

lemma checkBR19_total:
  assumes "hierarchiesRanked (rv_db v) rank"
  shows "\<exists>ws. checkBR19 v t fs = Some ws"
  using getForbiddenProcesses_total [OF assms, of "bt_code t"]
  by (auto simp: checkBR19_def)

lemma checkBR26_total:
  assumes "hierarchiesRanked (rv_db v) rank"
  shows "\<exists>ws. checkBR26 v t fs = Some ws"
proof -
  from getProcessesWithOrdinalCodes_total [OF assms, of t fs]
  obtain ps where "getProcessesWithOrdinalCodes v t fs = Some ps" by blast
  then show ?thesis by (simp add: checkBR26_def Let_def)
qed

lemma checkBR27_total:
  assumes "hierarchiesRanked (rv_db v) rank"
  shows "\<exists>ws. checkBR27 v t fs = Some ws"
proof -
  from getProcessesWithOrdinalCodes_total [OF assms, of t fs]
  obtain ps where "getProcessesWithOrdinalCodes v t fs = Some ps" by blast
  then show ?thesis by (simp add: checkBR27_def Let_def)
qed

lemma validateBusinessRules_total:
  assumes "hierarchiesRanked (rv_db v) rank"
  shows "\<exists>ws. validateBusinessRules v t fs context = Some ws"
proof -
  from checkBR01_total [OF assms] obtain w01 where "checkBR01 v t fs = Some w01" by blast
  moreover from checkBR05_total [OF assms] obtain w05 where "checkBR05 v t fs = Some w05" by blast
  moreover from checkBR11_total [OF assms] obtain w11 where "checkBR11 v t fs = Some w11" by blast
  moreover from checkBR12_total [OF assms] obtain w12 where "checkBR12 v t fs = Some w12" by blast
  moreover from checkBR16_total [OF assms] obtain w16 where "checkBR16 v t fs = Some w16" by blast
  moreover from checkBR19_total [OF assms] obtain w19 where "checkBR19 v t fs = Some w19" by blast
  moreover from checkBR26_total [OF assms] obtain w26 where "checkBR26 v t fs = Some w26" by blast
  moreover from checkBR27_total [OF assms] obtain w27 where "checkBR27 v t fs = Some w27" by blast
  ultimately show ?thesis
    by (simp add: validateBusinessRules_def)
qed

lemma runBusinessRulesValidation_total:
  assumes "hierarchiesRanked (rv_db (fv_rules fv)) rank"
  shows "\<exists>ws. runBusinessRulesValidation fv t fs = Some ws"
  using validateBusinessRules_total [OF assms]
  by (auto simp: runBusinessRulesValidation_def split: option.splits)

lemma validateCode_returns:
  assumes "hierarchiesRanked (rv_db (fv_rules fv)) rank"
  shows "\<exists>br sr. validateCode fv code =
            Some (formatResult (runVBAValidation fv (fst (parseFullCode code)) (snd (parseFullCode code))) br sr)"
proof -
  let ?vba = "runVBAValidation fv (fst (parseFullCode code)) (snd (parseFullCode code))"
  let ?facets = "case vr_cleanedFacets ?vba of Some fs \<Rightarrow> fs | None \<Rightarrow> []"
  from runBusinessRulesValidation_total [OF assms, of "vr_baseTerm ?vba" ?facets]
  obtain ws where "runBusinessRulesValidation fv (vr_baseTerm ?vba) ?facets = Some ws" by blast
  then show ?thesis
    by (cases "\<not> vr_valid ?vba \<and> opt_stopOnStructuralError (fv_options fv)")
       (simp_all add: validateCode_def Let_def case_prod_beta, blast+)
qed

lemma validateCodeLegacy_returns:
  assumes "hierarchiesRanked (rv_db (fv_rules fv)) rank"
  shows "\<exists>br. validateCodeLegacy fv code =
            Some (formatResultLegacy (fv_options fv)
                    (runVBAValidation fv (fst (parseFullCode code)) (snd (parseFullCode code))) br)"
proof -
  let ?vba = "runVBAValidation fv (fst (parseFullCode code)) (snd (parseFullCode code))"
  let ?facets = "case vr_cleanedFacets ?vba of Some fs \<Rightarrow> fs | None \<Rightarrow> []"
  from runBusinessRulesValidation_total [OF assms, of "vr_baseTerm ?vba" ?facets]
  obtain ws where "runBusinessRulesValidation fv (vr_baseTerm ?vba) ?facets = Some ws" by blast
  then show ?thesis
    by (cases "\<not> vr_valid ?vba \<and> opt_stopOnStructuralError (fv_options fv)")
       (simp_all add: validateCodeLegacy_def Let_def case_prod_beta, blast+)
qed

lemma service_default_validator:
  "serviceValidateCode rules noServiceOptions code
     = validateCode \<lparr> fv_options = defaultOptions, fv_rules = rules \<rparr> code"
  by (simp add: serviceValidateCode_def noServiceOptions_def Let_def)

section \<open>Claim C1: validity and blocking warnings\<close>

lemma validateSoftRules_severity:
  "w \<in> set (validateSoftRules t fs c ti) \<Longrightarrow> w_severity w = ''NONE''"
  by (auto simp: validateSoftRules_def checkSR1_def checkSR2_def checkSR3_def checkSR4_def
        checkSR5_def checkSR6_def checkSR7_def checkSR8_def createSoftWarning_def Let_def
      split: if_splits list.splits)

lemma validateCode_default_run:
  assumes ranked: "hierarchiesRanked (rv_db rules) rank"
  shows "\<exists>ruleWarnings softWarnings.
      (case vr_baseTerm (structuralResultOf rules code) of
         None \<Rightarrow> ruleWarnings = [] \<and> softWarnings = []
       | Some t \<Rightarrow> validateBusinessRules rules t (structuralFacetsOf rules code) ''ICT'' = Some ruleWarnings
                 \<and> validateSoftRules t (structuralFacetsOf rules code) ''ICT'' [] = softWarnings)
    \<and> validateCode \<lparr> fv_options = defaultOptions, fv_rules = rules \<rparr> code
        = Some (formatResult (structuralResultOf rules code) (Some ruleWarnings) (Some softWarnings))
    \<and> validateCodeLegacy \<lparr> fv_options = defaultOptions, fv_rules = rules \<rparr> code
        = Some (formatResultLegacy defaultOptions (structuralResultOf rules code) (Some ruleWarnings))"
proof (cases "vr_baseTerm (structuralResultOf rules code)")
  case None
  then show ?thesis
    by (simp add: validateCode_def validateCodeLegacy_def runVBAValidation_def
          runBusinessRulesValidation_def runSoftRulesValidation_def defaultOptions_def
          Let_def case_prod_beta)
next
  case (Some t)
  from validateBusinessRules_total [OF ranked, of t "structuralFacetsOf rules code" "''ICT''"]
  obtain ws where ws: "validateBusinessRules rules t (structuralFacetsOf rules code) ''ICT'' = Some ws"
    by blast
  with Some show ?thesis
    by (simp add: validateCode_def validateCodeLegacy_def runVBAValidation_def
          runBusinessRulesValidation_def runSoftRulesValidation_def defaultOptions_def
          Let_def case_prod_beta)
qed

text \<open>
  Claim C1.  On a catalogue without cycles a validation under the default configuration
  (the service called without options, which is the aggregator with the defaults of its
  constructor) returns a result.  The warnings of the result are the warnings of the
  structural validator, followed by the warnings of the business rules run on the base
  term and the facets the structural validator kept, followed by the soft-rule
  messages, which all have the severity \<open>NONE\<close>; without a base term no rule runs.
  The result is valid exactly when no structural warning and no business-rule warning
  has the severity \<open>ERROR\<close> or \<open>HIGH\<close>.  The earlier copy of the aggregator, which has
  no soft rules, returns the structural and the business-rule warnings and the same
  flag.
\<close>

theorem C1_valid_iff_no_blocking_warning:
  assumes ranked: "hierarchiesRanked (rv_db rules) rank"
  shows "\<exists>ruleWarnings softWarnings r legacy.
      (case vr_baseTerm (structuralResultOf rules code) of
         None \<Rightarrow> ruleWarnings = [] \<and> softWarnings = []
       | Some t \<Rightarrow> validateBusinessRules rules t (structuralFacetsOf rules code) ''ICT'' = Some ruleWarnings
                 \<and> validateSoftRules t (structuralFacetsOf rules code) ''ICT'' [] = softWarnings)
    \<and> serviceValidateCode rules noServiceOptions code = Some r
    \<and> validateCode \<lparr> fv_options = defaultOptions, fv_rules = rules \<rparr> code = Some r
    \<and> r_warnings r = vr_warnings (structuralResultOf rules code) @ ruleWarnings @ softWarnings
    \<and> (\<forall>w \<in> set softWarnings. w_severity w = ''NONE'')
    \<and> r_valid r = (\<forall>w \<in> set (vr_warnings (structuralResultOf rules code)) \<union> set ruleWarnings.
                     w_severity w \<noteq> ''ERROR'' \<and> w_severity w \<noteq> ''HIGH'')
    \<and> validateCodeLegacy \<lparr> fv_options = defaultOptions, fv_rules = rules \<rparr> code = Some legacy
    \<and> r_warnings legacy = vr_warnings (structuralResultOf rules code) @ ruleWarnings
    \<and> r_valid legacy = (\<forall>w \<in> set (vr_warnings (structuralResultOf rules code)) \<union> set ruleWarnings.
                     w_severity w \<noteq> ''ERROR'' \<and> w_severity w \<noteq> ''HIGH'')"
proof -
  let ?vba = "structuralResultOf rules code"
  from validateCode_default_run [OF ranked, of code] obtain ruleWarnings softWarnings where
    parts: "case vr_baseTerm ?vba of
         None \<Rightarrow> ruleWarnings = [] \<and> softWarnings = []
       | Some t \<Rightarrow> validateBusinessRules rules t (structuralFacetsOf rules code) ''ICT'' = Some ruleWarnings
                 \<and> validateSoftRules t (structuralFacetsOf rules code) ''ICT'' [] = softWarnings"
    and run: "validateCode \<lparr> fv_options = defaultOptions, fv_rules = rules \<rparr> code
        = Some (formatResult ?vba (Some ruleWarnings) (Some softWarnings))"
    and runL: "validateCodeLegacy \<lparr> fv_options = defaultOptions, fv_rules = rules \<rparr> code
        = Some (formatResultLegacy defaultOptions ?vba (Some ruleWarnings))"
    by blast
  let ?r = "formatResult ?vba (Some ruleWarnings) (Some softWarnings)"
  let ?l = "formatResultLegacy defaultOptions ?vba (Some ruleWarnings)"
  have soft: "\<forall>w \<in> set softWarnings. w_severity w = ''NONE''"
    using parts validateSoftRules_severity
    by (cases "vr_baseTerm ?vba") auto
  have svc: "serviceValidateCode rules noServiceOptions code = Some ?r"
    using run by (simp add: service_default_validator)
  have ws: "r_warnings ?r = vr_warnings ?vba @ ruleWarnings @ softWarnings"
    by (simp add: formatResult_def Let_def)
  have valid: "r_valid ?r = (\<forall>w \<in> set (vr_warnings ?vba) \<union> set ruleWarnings.
                     w_severity w \<noteq> ''ERROR'' \<and> w_severity w \<noteq> ''HIGH'')"
    using soft by (auto simp: formatResult_def Let_def list_ex_iff)
  have wsL: "r_warnings ?l = vr_warnings ?vba @ ruleWarnings"
    by (simp add: formatResultLegacy_def Let_def)
  have validL: "r_valid ?l = (\<forall>w \<in> set (vr_warnings ?vba) \<union> set ruleWarnings.
                     w_severity w \<noteq> ''ERROR'' \<and> w_severity w \<noteq> ''HIGH'')"
    by (auto simp: formatResultLegacy_def Let_def list_ex_iff defaultOptions_def)
  show ?thesis
    using parts svc run ws soft valid runL wsL validL by blast
qed

text \<open>Cereal grains with flaking: a BR19 warning of severity \<open>HIGH\<close>, and an invalid result.\<close>

theorem C1_valid_iff_no_blocking_warning_witness:
  "hierarchiesRanked (rv_db demoRules) demoRank
   \<and> vr_warnings (structuralResultOf demoRules ''A000L#F28.A07LG'') = []
   \<and> map_option (map (\<lambda>w. (w_rule w, w_severity w)))
        (validateBusinessRules demoRules (demoBase ''A000L'') [''F28.A07LG''] ''ICT'')
       = Some [(''BR11'', ''LOW''), (''BR19'', ''HIGH'')]
   \<and> map_option (\<lambda>r. map (\<lambda>w. (w_rule w, w_severity w)) (r_warnings r))
        (serviceValidateCode demoRules noServiceOptions ''A000L#F28.A07LG'')
       = Some [(''BR11'', ''LOW''), (''BR19'', ''HIGH'')]
   \<and> map_option r_valid (serviceValidateCode demoRules noServiceOptions ''A000L#F28.A07LG'') = Some False
   \<and> map_option r_valid
        (validateCodeLegacy \<lparr> fv_options = defaultOptions, fv_rules = demoRules \<rparr> ''A000L#F28.A07LG'')
       = Some False"
proof -
  have ranked: "hierarchiesRanked (rv_db demoRules) demoRank"
    using demo_ranked by (simp add: demoRules_def)
  have struct: "vr_warnings (structuralResultOf demoRules ''A000L#F28.A07LG'') = []"
    by code_simp
  have base: "vr_baseTerm (structuralResultOf demoRules ''A000L#F28.A07LG'') = Some (demoBase ''A000L'')"
    by code_simp
  have facets: "structuralFacetsOf demoRules ''A000L#F28.A07LG'' = [''F28.A07LG'']"
    by code_simp
  have rules: "map_option (map (\<lambda>w. (w_rule w, w_severity w)))
        (validateBusinessRules demoRules (demoBase ''A000L'') [''F28.A07LG''] ''ICT'')
       = Some [(''BR11'', ''LOW''), (''BR19'', ''HIGH'')]"
    by code_simp
  have soft: "validateSoftRules (demoBase ''A000L'') [''F28.A07LG''] ''ICT'' [] = []"
    by code_simp
  from C1_valid_iff_no_blocking_warning [OF ranked, of "''A000L#F28.A07LG''"]
  obtain ruleWarnings softWarnings r legacy where
    cases: "case vr_baseTerm (structuralResultOf demoRules ''A000L#F28.A07LG'') of
         None \<Rightarrow> ruleWarnings = [] \<and> softWarnings = []
       | Some t \<Rightarrow> validateBusinessRules demoRules t (structuralFacetsOf demoRules ''A000L#F28.A07LG'') ''ICT'' = Some ruleWarnings
                 \<and> validateSoftRules t (structuralFacetsOf demoRules ''A000L#F28.A07LG'') ''ICT'' [] = softWarnings"
    and svc: "serviceValidateCode demoRules noServiceOptions ''A000L#F28.A07LG'' = Some r"
    and ws: "r_warnings r = vr_warnings (structuralResultOf demoRules ''A000L#F28.A07LG'') @ ruleWarnings @ softWarnings"
    and valid: "r_valid r = (\<forall>w \<in> set (vr_warnings (structuralResultOf demoRules ''A000L#F28.A07LG'')) \<union> set ruleWarnings.
                     w_severity w \<noteq> ''ERROR'' \<and> w_severity w \<noteq> ''HIGH'')"
    and leg: "validateCodeLegacy \<lparr> fv_options = defaultOptions, fv_rules = demoRules \<rparr> ''A000L#F28.A07LG'' = Some legacy"
    and validL: "r_valid legacy = (\<forall>w \<in> set (vr_warnings (structuralResultOf demoRules ''A000L#F28.A07LG'')) \<union> set ruleWarnings.
                     w_severity w \<noteq> ''ERROR'' \<and> w_severity w \<noteq> ''HIGH'')"
    by blast
  from cases have parts:
    "validateBusinessRules demoRules (demoBase ''A000L'') [''F28.A07LG''] ''ICT'' = Some ruleWarnings
     \<and> validateSoftRules (demoBase ''A000L'') [''F28.A07LG''] ''ICT'' [] = softWarnings"
    unfolding base facets by (simp only: option.case)
  from parts rules have sev: "map (\<lambda>w. (w_rule w, w_severity w)) ruleWarnings = [(''BR11'', ''LOW''), (''BR19'', ''HIGH'')]"
    by simp
  then have high: "\<exists>w \<in> set ruleWarnings. w_severity w = ''HIGH''"
    by (auto simp: map_eq_Cons_conv)
  from parts soft have sw: "softWarnings = []" by simp
  have a: "map_option (\<lambda>r. map (\<lambda>w. (w_rule w, w_severity w)) (r_warnings r))
        (serviceValidateCode demoRules noServiceOptions ''A000L#F28.A07LG'')
       = Some [(''BR11'', ''LOW''), (''BR19'', ''HIGH'')]"
    using svc ws struct sw sev by simp
  have b: "map_option r_valid (serviceValidateCode demoRules noServiceOptions ''A000L#F28.A07LG'') = Some False"
    using svc valid high by auto
  have c: "map_option r_valid
        (validateCodeLegacy \<lparr> fv_options = defaultOptions, fv_rules = demoRules \<rparr> ''A000L#F28.A07LG'')
       = Some False"
    using leg validL high by auto
  show ?thesis using ranked struct rules a b c by blast
qed

section \<open>Claim C2: the rules after a structural error\<close>

text \<open>
  The business rules always push a warning for a base term (BR22, BR23, BR24 or a
  blocking one), so a result that went through them never holds the structural
  warnings alone; a validator with \<open>stopOnStructuralError\<close> set returns them alone.
\<close>

lemma validateBusinessRules_not_Nil:
  assumes "validateBusinessRules v t fs context = Some ws"
  shows "ws \<noteq> []"
proof -
  from assms obtain w01 w05 w11 w12 w16 w19 w26 w27 where
    ws0: "ws = (w01 @ checkBR03 v t fs @ checkBR04 v t fs
             @ w05 @ checkBR06 v t fs @ checkBR07 v t fs
             @ checkBR08 v t @ checkBR10 v t @ w11 @ w12
             @ checkBR13 v t fs
             @ (if context = ''ICT'' \<or> context = ''DCF''
                then checkBR14 v t fs context else [])
             @ (if context = ''DCF'' then checkBR15 v t fs else [])
             @ w16 @ checkBR17 v t @ w19 @ checkBR20 v t @ checkBR21 v t)
          @ checkBR22 v t (w01 @ checkBR03 v t fs @ checkBR04 v t fs
             @ w05 @ checkBR06 v t fs @ checkBR07 v t fs
             @ checkBR08 v t @ checkBR10 v t @ w11 @ w12
             @ checkBR13 v t fs
             @ (if context = ''ICT'' \<or> context = ''DCF''
                then checkBR14 v t fs context else [])
             @ (if context = ''DCF'' then checkBR15 v t fs else [])
             @ w16 @ checkBR17 v t @ w19 @ checkBR20 v t @ checkBR21 v t)
          @ checkBR23 v t @ checkBR24 v t
          @ checkBR25 v fs @ w26 @ w27 @ checkBR28 v t fs"
    by (auto simp: validateBusinessRules_def bind_eq_Some_conv Let_def)
  define upTo21 where "upTo21 = w01 @ checkBR03 v t fs @ checkBR04 v t fs
             @ w05 @ checkBR06 v t fs @ checkBR07 v t fs
             @ checkBR08 v t @ checkBR10 v t @ w11 @ w12
             @ checkBR13 v t fs
             @ (if context = ''ICT'' \<or> context = ''DCF''
                then checkBR14 v t fs context else [])
             @ (if context = ''DCF'' then checkBR15 v t fs else [])
             @ w16 @ checkBR17 v t @ w19 @ checkBR20 v t @ checkBR21 v t"
  define rest where "rest = checkBR25 v fs @ w26 @ w27 @ checkBR28 v t fs"
  have ws: "ws = upTo21 @ checkBR22 v t upTo21 @ checkBR23 v t @ checkBR24 v t @ rest"
    unfolding ws0 upTo21_def rest_def by (rule refl)
  show ?thesis
  proof (cases "upTo21 = []")
    case False
    then show ?thesis using ws by simp
  next
    case True
    show ?thesis
    proof (cases "isHierarchyTerm t")
      case False
      with True ws show ?thesis by (simp add: checkBR22_def)
    next
      case h: True
      then show ?thesis
        using ws by (cases "belongsToHierarchy (rv_db v) (bt_code t) ''expo''")
          (simp_all add: checkBR23_def checkBR24_def)
    qed
  qed
qed

lemma stop_keeps_structural_warnings:
  assumes "opt_stopOnStructuralError (fv_options fv)"
    and "\<not> vr_valid (runVBAValidation fv (fst (parseFullCode code)) (snd (parseFullCode code)))"
  shows "map_option r_warnings (validateCode fv code)
         = Some (vr_warnings (runVBAValidation fv (fst (parseFullCode code)) (snd (parseFullCode code))))"
  using assms by (simp add: validateCode_def Let_def case_prod_beta formatResult_def)

lemma default_runs_rules_after_structural_error:
  assumes opts: "\<not> opt_stopOnStructuralError (fv_options fv)" "\<not> opt_skipBusinessRules (fv_options fv)"
    and base: "vr_baseTerm (runVBAValidation fv (fst (parseFullCode code)) (snd (parseFullCode code))) = Some t"
    and run: "validateCode fv code = Some r"
  shows "r_warnings r \<noteq> vr_warnings (runVBAValidation fv (fst (parseFullCode code)) (snd (parseFullCode code)))"
proof -
  let ?vba = "runVBAValidation fv (fst (parseFullCode code)) (snd (parseFullCode code))"
  let ?facets = "case vr_cleanedFacets ?vba of Some fs \<Rightarrow> fs | None \<Rightarrow> []"
  from run opts obtain br where br: "runBusinessRulesValidation fv (vr_baseTerm ?vba) ?facets = Some br"
    and r: "r = formatResult ?vba (Some br) (Some (runSoftRulesValidation fv (vr_baseTerm ?vba) ?facets))"
    by (auto simp: validateCode_def Let_def case_prod_beta bind_eq_Some_conv)
  from br base opts have "validateBusinessRules (fv_rules fv) t ?facets (opt_context (fv_options fv)) = Some br"
    by (simp add: runBusinessRulesValidation_def)
  then have "br \<noteq> []" by (rule validateBusinessRules_not_Nil)
  then show ?thesis
    unfolding r by (simp add: formatResult_def Let_def)
qed

text \<open>
  Claim C2 is not what the code does.  After a structural \<open>ERROR\<close> the rule evaluator is
  to be skipped by default and the result to hold the structural warnings only.  The
  validator the service uses by default has no option \<open>stopOnStructuralError\<close>: on the
  expression \<open>A000L#F01A077V\<close>, whose facet has no dot, the business rules still run on
  the base term and add the BR22 message to the structural error.  The service computes
  the default \<open>stopOnStructuralError = true\<close> but hands it to a validator only for a
  context other than \<open>ICT\<close>; there the result holds the structural warning alone.
\<close>

theorem C2_rules_run_after_structural_error:
  "vr_warnings (validateFoodEx2Code demoDb ''A000L'' ''#F01A077V'')
     = [structWarning ''VBA-FORMAT'' ''ERROR'' ''STRUCTURE'']
   \<and> map_option r_warnings (serviceValidateCode demoRules noServiceOptions ''A000L#F01A077V'')
       = Some [structWarning ''VBA-FORMAT'' ''ERROR'' ''STRUCTURE'', createWarning demoRules ''BR22'' ''A000L'']
   \<and> map_option r_warnings
        (validateCode \<lparr> fv_options = defaultOptions, fv_rules = demoRules \<rparr> ''A000L#F01A077V'')
       = Some [structWarning ''VBA-FORMAT'' ''ERROR'' ''STRUCTURE'', createWarning demoRules ''BR22'' ''A000L'']
   \<and> map_option r_warnings
        (serviceValidateCode demoRules (noServiceOptions \<lparr> so_context := Some ''DCF'' \<rparr>) ''A000L#F01A077V'')
       = Some [structWarning ''VBA-FORMAT'' ''ERROR'' ''STRUCTURE'']"
  by code_simp

section \<open>Claim C9: the facets of a result\<close>

lemma validateFacetDescriptor_fst:
  "fst (validateFacetDescriptor db f)
     = (findTerm db (secondPart f) \<noteq> None
        \<and> belongsToHierarchy db (secondPart f) (hierarchyCodeFor (firstPart f)))"
  by (simp add: validateFacetDescriptor_def Let_def split: option.splits)

lemma validateFacets_fst:
  "fst (validateFacets db fs) = filter (\<lambda>f. fst (validateFacetDescriptor db f)) fs"
  by (induction fs) (auto split: prod.splits)

lemma validateFoodEx2Code_facets:
  assumes "vr_cleanedFacets (validateFoodEx2Code db b s) = Some fs"
  shows "\<exists>t. selectBaseTerm db b = Some t
     \<and> list_all specFacetShape (parseFacetString s)
     \<and> fs = filter (\<lambda>f. fst (validateFacetDescriptor db f))
               (filter (\<lambda>f. f \<notin> set (getImplicitFacets t)) (parseFacetString s))
     \<and> (\<forall>c. vr_cleanedCode (validateFoodEx2Code db b s) = Some c \<longrightarrow> c = b @ buildFacetString fs)"
proof -
  from assms obtain t where t: "checkBaseTerm db b = (Some t, [])" and sel: "selectBaseTerm db b = Some t"
    by (cases "isTermCode b"; cases "selectBaseTerm db b")
       (auto simp: validateFoodEx2Code_def checkBaseTerm_def)
  obtain ok ws2 where cf: "checkCorrectFacet (parseFacetString s) = (ok, ws2)"
    by (cases "checkCorrectFacet (parseFacetString s)")
  have ok: ok
    using assms t cf by (cases ok) (auto simp: validateFoodEx2Code_def Let_def)
  with cf have shapes: "list_all specFacetShape (parseFacetString s)"
    using checkCorrectFacet_result [of "parseFacetString s"] by simp
  obtain vf ws4 where vf: "validateFacets db (filter (\<lambda>f. f \<notin> set (getImplicitFacets t)) (parseFacetString s)) = (vf, ws4)"
    by (cases "validateFacets db (filter (\<lambda>f. f \<notin> set (getImplicitFacets t)) (parseFacetString s))")
  have vf_eq: "vf = filter (\<lambda>f. fst (validateFacetDescriptor db f))
               (filter (\<lambda>f. f \<notin> set (getImplicitFacets t)) (parseFacetString s))"
    using validateFacets_fst [of db "filter (\<lambda>f. f \<notin> set (getImplicitFacets t)) (parseFacetString s)"] vf
    by simp
  have fs: "fs = vf"
    using assms t cf ok vf
    by (simp add: validateFoodEx2Code_def Let_def checkAndRemoveImplicitFacets_def)
  have code: "\<forall>c. vr_cleanedCode (validateFoodEx2Code db b s) = Some c \<longrightarrow> c = b @ buildFacetString fs"
    using t cf ok vf fs
    by (simp add: validateFoodEx2Code_def Let_def checkAndRemoveImplicitFacets_def)
  show ?thesis using sel shapes fs vf_eq code by blast
qed

lemma formatResult_fields:
  "r_facets (formatResult vba br sr) = (case vr_cleanedFacets vba of Some fs \<Rightarrow> fs | None \<Rightarrow> [])"
  "r_cleanedCode (formatResult vba br sr) = vr_cleanedCode vba"
  by (simp_all add: formatResult_def Let_def)

lemma validateFoodEx2Code_no_facets:
  "vr_cleanedFacets (validateFoodEx2Code db b s) = None \<Longrightarrow> vr_cleanedCode (validateFoodEx2Code db b s) = None"
  by (cases "isTermCode b"; cases "selectBaseTerm db b"; cases "checkCorrectFacet (parseFacetString s)")
     (auto simp: validateFoodEx2Code_def checkBaseTerm_def Let_def split: prod.splits if_splits)

lemma isDot_neq: "(\<lambda>c. \<not> isDot c) = (\<lambda>c. c \<noteq> CHR ''.'')"
  by (simp add: isDot_def)

lemma specFacetShape_parts:
  assumes "specFacetShape f"
  shows "firstPart f = facetGroupOf f \<and> secondPart f = facetDescriptorOf f
       \<and> isFacetGroup (facetGroupOf f) \<and> isTermCode (facetDescriptorOf f)"
proof -
  from assms have one: "length (filter isDot f) = 1"
    and g: "isFacetGroup (takeWhile (\<lambda>c. \<not> isDot c) f)"
    and d: "isTermCode (drop 1 (dropWhile (\<lambda>c. \<not> isDot c) f))"
    by (simp_all add: specFacetShape_def)
  have two: "jsSplit isDot f = [takeWhile (\<lambda>c. \<not> isDot c) f, drop 1 (dropWhile (\<lambda>c. \<not> isDot c) f)]"
    using one by (rule jsSplit_two)
  show ?thesis
    using g d unfolding firstPart_def secondPart_def two facetGroupOf_def facetDescriptorOf_def isDot_neq
    by simp
qed

lemma lowerChar_digits: "list_all (\<lambda>c. lowerChar c = c) digitChars"
  by code_simp

lemma lowerChar_digit: "c \<in> set digitChars \<Longrightarrow> lowerChar c = c"
  using lowerChar_digits by (simp only: list_all_iff)

lemma lowerChar_F: "lowerChar CHR ''F'' = CHR ''f''"
  by code_simp

lemma toLowerCase_facetGroup:
  assumes "isFacetGroup g"
  shows "toLowerCase g = CHR ''f'' # tl g"
proof -
  from assms have len: "length g = 3" and g0: "g ! 0 = CHR ''F''"
    and g1: "g ! 1 \<in> set digitChars" and g2: "g ! 2 \<in> set digitChars"
    by (simp_all add: isFacetGroup_def)
  from len obtain x a b where g: "g = [x, a, b]"
    by (cases g; cases "tl g"; cases "tl (tl g)") auto
  from g g0 g1 g2 have x: "x = CHR ''F''" and a: "a \<in> set digitChars" and b: "b \<in> set digitChars"
    by simp_all
  show ?thesis
    unfolding g x toLowerCase_def using lowerChar_digit [OF a] lowerChar_digit [OF b] lowerChar_F
    by simp
qed

lemma map_of_hierarchyMap: "map_of hierarchyMap = assignedHierarchy"
  by (simp add: hierarchyMap_def assignedHierarchy_def)

lemma hierarchyCodeFor_facetGroup:
  "isFacetGroup g \<Longrightarrow>
   hierarchyCodeFor g = (case assignedHierarchy g of None \<Rightarrow> CHR ''f'' # tl g | Some h \<Rightarrow> h)"
  by (simp add: hierarchyCodeFor_def map_of_hierarchyMap toLowerCase_facetGroup split: option.splits)

lemma findTerm_lookup: "(findTerm db c \<noteq> None) = lookup_term db c"
  by (auto simp: findTerm_def lookup_term_def find_None_iff)

lemma belongsToHierarchy_member: "belongsToHierarchy db c h = is_member db c h"
  by (simp add: belongsToHierarchy_def is_member_def list_ex_iff)

lemma validateFacetDescriptor_resolves:
  assumes "specFacetShape f"
  shows "fst (validateFacetDescriptor db f) = resolvesWithFallback db f"
proof -
  from specFacetShape_parts [OF assms] have fp: "firstPart f = facetGroupOf f"
    and sp: "secondPart f = facetDescriptorOf f" and g: "isFacetGroup (facetGroupOf f)"
    by simp_all
  show ?thesis
    unfolding validateFacetDescriptor_fst fp sp hierarchyCodeFor_facetGroup [OF g]
      findTerm_lookup belongsToHierarchy_member resolvesWithFallback_def
    by (simp split: option.splits)
qed

text \<open>
  Claim C9, as the code has it.  On a catalogue without cycles every validation returns
  a result.  Each facet of its facet list is a well-formed facet of the expression
  whose descriptor is an existing catalogue term and a member of the hierarchy the
  table assigns to its group; for a group the table does not list (a reserved group, or
  one that does not exist) the hierarchy is the one whose code is the group id in lower
  case.  A facet of the expression whose descriptor fails either check is not in the
  facet list, and the cleaned code, when there is one, is the base code followed by the
  serialised facet list, so it holds no such facet either.  For the groups of the table
  this is what the claim says.
\<close>

theorem C9_result_facets_resolve:
  assumes ranked: "hierarchiesRanked (rv_db rules) rank"
  shows "\<exists>r. validateCode \<lparr> fv_options = options, fv_rules = rules \<rparr> code = Some r
     \<and> set (r_facets r) \<subseteq> set (parseFacetString (snd (parseFullCode code)))
     \<and> (\<forall>f \<in> set (r_facets r). specFacetShape f \<and> resolvesWithFallback (rv_db rules) f)
     \<and> (\<forall>f \<in> set (parseFacetString (snd (parseFullCode code))).
           \<not> resolvesWithFallback (rv_db rules) f \<longrightarrow> f \<notin> set (r_facets r))
     \<and> (\<forall>f \<in> set (r_facets r).
           assignedHierarchy (facetGroupOf f) \<noteq> None \<longrightarrow> resolvesInAssignedHierarchy (rv_db rules) f)
     \<and> (\<forall>c. r_cleanedCode r = Some c \<longrightarrow> c = fst (parseFullCode code) @ buildFacetString (r_facets r))"
proof -
  let ?fv = "\<lparr> fv_options = options, fv_rules = rules \<rparr>"
  let ?b = "fst (parseFullCode code)" and ?s = "snd (parseFullCode code)"
  let ?vba = "validateFoodEx2Code (rv_db rules) ?b ?s"
  have r0: "hierarchiesRanked (rv_db (fv_rules ?fv)) rank" using ranked by simp
  from validateCode_returns [OF r0, of code] obtain br sr where
    run: "validateCode ?fv code = Some (formatResult ?vba br sr)"
    by (auto simp: runVBAValidation_def)
  let ?r = "formatResult ?vba br sr"
  have props: "set (r_facets ?r) \<subseteq> set (parseFacetString ?s)
     \<and> (\<forall>f \<in> set (r_facets ?r). specFacetShape f \<and> resolvesWithFallback (rv_db rules) f)
     \<and> (\<forall>c. r_cleanedCode ?r = Some c \<longrightarrow> c = ?b @ buildFacetString (r_facets ?r))"
  proof (cases "vr_cleanedFacets ?vba")
    case None
    then show ?thesis
      using validateFoodEx2Code_no_facets [of "rv_db rules" ?b ?s]
      by (simp add: formatResult_fields)
  next
    case (Some fs)
    from validateFoodEx2Code_facets [OF Some] obtain t where
      shapes: "list_all specFacetShape (parseFacetString ?s)"
      and fs: "fs = filter (\<lambda>f. fst (validateFacetDescriptor (rv_db rules) f))
               (filter (\<lambda>f. f \<notin> set (getImplicitFacets t)) (parseFacetString ?s))"
      and code: "\<forall>c. vr_cleanedCode ?vba = Some c \<longrightarrow> c = ?b @ buildFacetString fs"
      by blast
    have sub: "set fs \<subseteq> set (parseFacetString ?s)"
      unfolding fs by auto
    have "\<forall>f \<in> set fs. specFacetShape f \<and> resolvesWithFallback (rv_db rules) f"
      using shapes validateFacetDescriptor_resolves unfolding fs by (auto simp: list_all_iff)
    with sub code Some show ?thesis by (simp add: formatResult_fields)
  qed
  then have excl: "\<forall>f \<in> set (parseFacetString ?s).
           \<not> resolvesWithFallback (rv_db rules) f \<longrightarrow> f \<notin> set (r_facets ?r)"
    by blast
  have assigned: "\<forall>f \<in> set (r_facets ?r).
           assignedHierarchy (facetGroupOf f) \<noteq> None \<longrightarrow> resolvesInAssignedHierarchy (rv_db rules) f"
    using props by (auto simp: resolvesWithFallback_def resolvesInAssignedHierarchy_def)
  show ?thesis using run props excl assigned by blast
qed

text \<open>
  Claim C9 as stated fails: the groups \<open>F05\<close> (reserved) and \<open>F99\<close> have no hierarchy
  assigned, yet on a catalogue that lists the descriptor under the hierarchy codes
  \<open>f05\<close> and \<open>f99\<close> both facets are kept in the facet list of a valid result.
\<close>

theorem C9_result_facets_counterexample:
  "map_option (\<lambda>r. (r_valid r, r_facets r))
     (validateCode \<lparr> fv_options = defaultOptions, fv_rules = demoReservedRules \<rparr> ''A000L#F05.A07KQ$F99.A07KQ'')
     = Some (True, [''F05.A07KQ'', ''F99.A07KQ''])
   \<and> assignedHierarchy (facetGroupOf ''F05.A07KQ'') = None
   \<and> assignedHierarchy (facetGroupOf ''F99.A07KQ'') = None
   \<and> \<not> resolvesInAssignedHierarchy (rv_db demoReservedRules) ''F05.A07KQ''
   \<and> \<not> resolvesInAssignedHierarchy (rv_db demoReservedRules) ''F99.A07KQ''"
proof -
  have run: "map_option (\<lambda>r. (r_valid r, r_facets r))
     (validateCode \<lparr> fv_options = defaultOptions, fv_rules = demoReservedRules \<rparr> ''A000L#F05.A07KQ$F99.A07KQ'')
     = Some (True, [''F05.A07KQ'', ''F99.A07KQ''])"
    by code_simp
  have a5: "assignedHierarchy (facetGroupOf ''F05.A07KQ'') = None"
    by (simp add: assignedHierarchy_def facetGroupOf_def)
  have a9: "assignedHierarchy (facetGroupOf ''F99.A07KQ'') = None"
    by (simp add: assignedHierarchy_def facetGroupOf_def)
  have n5: "\<not> resolvesInAssignedHierarchy (rv_db demoReservedRules) ''F05.A07KQ''"
    using a5 by (simp only: resolvesInAssignedHierarchy_def option.case simp_thms)
  have n9: "\<not> resolvesInAssignedHierarchy (rv_db demoReservedRules) ''F99.A07KQ''"
    using a9 by (simp only: resolvesInAssignedHierarchy_def option.case simp_thms)
  show ?thesis using run a5 a9 n5 n9 by blast
qed

text \<open>
  An expression with an implicit facet, an unknown descriptor and a descriptor of the
  wrong hierarchy: one facet survives.
\<close>

theorem C9_result_facets_resolve_witness:
  "hierarchiesRanked (rv_db demoRules) demoRank
   \<and> parseFacetString (snd (parseFullCode ''A01BS#F28.A07JS$F28.A07KQ$F28.ZZZZZ$F01.A07LG''))
       = [''F28.A07JS'', ''F28.A07KQ'', ''F28.ZZZZZ'', ''F01.A07LG'']
   \<and> \<not> lookup_term (rv_db demoRules) (facetDescriptorOf ''F28.ZZZZZ'')
   \<and> assignedHierarchy (facetGroupOf ''F01.A07LG'') = Some ''source''
   \<and> \<not> is_member (rv_db demoRules) (facetDescriptorOf ''F01.A07LG'') ''source''
   \<and> map_option r_facets
        (validateCode \<lparr> fv_options = defaultOptions, fv_rules = demoRules \<rparr>
           ''A01BS#F28.A07JS$F28.A07KQ$F28.ZZZZZ$F01.A07LG'') = Some [''F28.A07JS'']
   \<and> map_option r_cleanedCode
        (validateCode \<lparr> fv_options = defaultOptions, fv_rules = demoRules \<rparr>
           ''A01BS#F28.A07JS$F28.A07KQ$F28.ZZZZZ$F01.A07LG'') = Some (Some ''A01BS#F28.A07JS'')
   \<and> assignedHierarchy (facetGroupOf ''F28.A07JS'') = Some ''process''
   \<and> resolvesInAssignedHierarchy (rv_db demoRules) ''F28.A07JS''"
proof -
  have ranked: "hierarchiesRanked (rv_db demoRules) demoRank"
    using demo_ranked by (simp add: demoRules_def)
  have parsed: "parseFacetString (snd (parseFullCode ''A01BS#F28.A07JS$F28.A07KQ$F28.ZZZZZ$F01.A07LG''))
       = [''F28.A07JS'', ''F28.A07KQ'', ''F28.ZZZZZ'', ''F01.A07LG'']"
    by code_simp
  have missing: "\<not> lookup_term (rv_db demoRules) (facetDescriptorOf ''F28.ZZZZZ'')"
    by code_simp
  have src: "assignedHierarchy (facetGroupOf ''F01.A07LG'') = Some ''source''"
    by code_simp
  have wrong: "\<not> is_member (rv_db demoRules) (facetDescriptorOf ''F01.A07LG'') ''source''"
    by code_simp
  have facets: "map_option r_facets
        (validateCode \<lparr> fv_options = defaultOptions, fv_rules = demoRules \<rparr>
           ''A01BS#F28.A07JS$F28.A07KQ$F28.ZZZZZ$F01.A07LG'') = Some [''F28.A07JS'']"
    by code_simp
  have cleaned: "map_option r_cleanedCode
        (validateCode \<lparr> fv_options = defaultOptions, fv_rules = demoRules \<rparr>
           ''A01BS#F28.A07JS$F28.A07KQ$F28.ZZZZZ$F01.A07LG'') = Some (Some ''A01BS#F28.A07JS'')"
    by code_simp
  have proc: "assignedHierarchy (facetGroupOf ''F28.A07JS'') = Some ''process''"
    by code_simp
  from C9_result_facets_resolve [OF ranked, of defaultOptions "''A01BS#F28.A07JS$F28.A07KQ$F28.ZZZZZ$F01.A07LG''"]
  obtain r where r: "validateCode \<lparr> fv_options = defaultOptions, fv_rules = demoRules \<rparr>
           ''A01BS#F28.A07JS$F28.A07KQ$F28.ZZZZZ$F01.A07LG'' = Some r"
    and each: "\<forall>f \<in> set (r_facets r).
           assignedHierarchy (facetGroupOf f) \<noteq> None \<longrightarrow> resolvesInAssignedHierarchy (rv_db demoRules) f"
    by blast
  from facets r have "r_facets r = [''F28.A07JS'']" by simp
  with each proc have "resolvesInAssignedHierarchy (rv_db demoRules) ''F28.A07JS''"
    by simp
  with ranked parsed missing src wrong facets cleaned proc show ?thesis by blast
qed
end
